theory Spec2Isabelle
  imports
    Complex_Main
    "HOL-Library.Multiset"
    "HOL-Library.Finite_Map"
    "HOL-Library.List_Lexorder"
    "HOL-Library.Char_ord"
begin

chapter \<open>av-object-generation: the conditional flow VAE and its dataset layer\<close>

text \<open>
  The development embeds two Python modules of the repository:
  \<^item> \<^verbatim>\<open>utils/dataset.py\<close>: the classes \<^verbatim>\<open>ShapeNetCore\<close> and \<^verbatim>\<open>PandaSet\<close>
    (construction, statistics, loading, deterministic shuffling, \<^verbatim>\<open>__getitem__\<close>);
  \<^item> \<^verbatim>\<open>models/vae_flow_surface_mhsa.py\<close>: the class
    \<^verbatim>\<open>FlowVAESurfaceConditional\<close> (\<^verbatim>\<open>load_partial_state_dict\<close>,
    \<^verbatim>\<open>get_loss\<close>, \<^verbatim>\<open>sample\<close>, \<^verbatim>\<open>forward\<close>).

  Conventions. A Python exception is a value of the type \<open>error\<close>, and a call that may
  raise returns \<open>error + 'a\<close> with \<open>Inl\<close> for the exception. A Python float is a
  \<open>real\<close>: rounding, infinities and NaN are outside the model, and where Python would
  divide by zero the model has HOL's \<open>x / 0 = 0\<close>; no statement below rests on
  such a quotient.
\<close>

section \<open>Exceptions and sequencing\<close>

datatype error =
    AssertionError
  | KeyError string
  | IndexError
  | AttributeError string
  | RuntimeError string
  | ValueError string
  | UnboundLocalError string

text \<open>Sequencing of two calls: the second runs only when the first did not raise.\<close>

definition bindE :: "error + 'a \<Rightarrow> ('a \<Rightarrow> error + 'b) \<Rightarrow> error + 'b" where
  "bindE m f = (case m of Inl e \<Rightarrow> Inl e | Inr v \<Rightarrow> f v)"

text \<open>\<^verbatim>\<open>d[k]\<close> on a dictionary with string keys.\<close>

definition getitem_dict :: "(string \<rightharpoonup> 'v) \<Rightarrow> string \<Rightarrow> error + 'v" where
  "getitem_dict d k = (case d k of None \<Rightarrow> Inl (KeyError k) | Some v \<Rightarrow> Inr v)"

text \<open>A loop whose body may raise: the first exception ends it.\<close>

fun mapE :: "('a \<Rightarrow> error + 'b) \<Rightarrow> 'a list \<Rightarrow> error + 'b list" where
  "mapE f [] = Inr []"
| "mapE f (x # xs) = bindE (f x) (\<lambda>y. bindE (mapE f xs) (\<lambda>ys. Inr (y # ys)))"

text \<open>\<^verbatim>\<open>sep.join(xs)\<close>.\<close>

fun join :: "string \<Rightarrow> string list \<Rightarrow> string" where
  "join sep [] = []"
| "join sep [x] = x"
| "join sep (x # y # ys) = x @ sep @ join sep (y # ys)"

section \<open>The dataset layer (\<^verbatim>\<open>utils/dataset.py\<close>)\<close>

subsection \<open>The category table\<close>

text \<open>The module-level dictionary \<^verbatim>\<open>synsetid_to_cate\<close>, in its written order.\<close>

definition synsetid_to_cate_items :: "(string \<times> string) list" where
  "synsetid_to_cate_items =
   [(''02691156'', ''airplane''), (''02773838'', ''bag''), (''02801938'', ''basket''),
    (''02808440'', ''bathtub''), (''02818832'', ''bed''), (''02828884'', ''bench''),
    (''02876657'', ''bottle''), (''02880940'', ''bowl''), (''02924116'', ''bus''),
    (''02933112'', ''cabinet''), (''02747177'', ''can''), (''02942699'', ''camera''),
    (''02954340'', ''cap''), (''02958343'', ''car''), (''03001627'', ''chair''),
    (''03046257'', ''clock''), (''03207941'', ''dishwasher''), (''03211117'', ''monitor''),
    (''04379243'', ''table''), (''04401088'', ''telephone''), (''02946921'', ''tin_can''),
    (''04460130'', ''tower''), (''04468005'', ''train''), (''03085013'', ''keyboard''),
    (''03261776'', ''earphone''), (''03325088'', ''faucet''), (''03337140'', ''file''),
    (''03467517'', ''guitar''), (''03513137'', ''helmet''), (''03593526'', ''jar''),
    (''03624134'', ''knife''), (''03636649'', ''lamp''), (''03642806'', ''laptop''),
    (''03691459'', ''speaker''), (''03710193'', ''mailbox''), (''03759954'', ''microphone''),
    (''03761084'', ''microwave''), (''03790512'', ''motorcycle''), (''03797390'', ''mug''),
    (''03928116'', ''piano''), (''03938244'', ''pillow''), (''03948459'', ''pistol''),
    (''03991062'', ''pot''), (''04004475'', ''printer''), (''04074963'', ''remote_control''),
    (''04090263'', ''rifle''), (''04099429'', ''rocket''), (''04225987'', ''skateboard''),
    (''04256520'', ''sofa''), (''04330267'', ''stove''), (''04530566'', ''vessel''),
    (''04554684'', ''washer''), (''02992529'', ''cellphone''),
    (''02843684'', ''birdhouse''), (''02871439'', ''bookshelf'')]"

definition synsetid_to_cate :: "string \<rightharpoonup> string" where
  "synsetid_to_cate = map_of synsetid_to_cate_items"

text \<open>
  \<^verbatim>\<open>cate_to_synsetid = {v: k for k, v in synsetid_to_cate.items()}\<close>: the items in
  the comprehension's order (a later item would overwrite an earlier one with the same
  name, whence the \<open>rev\<close> under \<open>map_of\<close>), and the dictionary itself.
\<close>

definition cate_to_synsetid_items :: "(string \<times> string) list" where
  "cate_to_synsetid_items = map (\<lambda>(k, v). (v, k)) synsetid_to_cate_items"

definition cate_to_synsetid :: "string \<rightharpoonup> string" where
  "cate_to_synsetid = map_of (rev cate_to_synsetid_items)"

text \<open>\<^verbatim>\<open>cate_to_synsetid.keys()\<close>, in insertion order.\<close>

definition cate_to_synsetid_keys :: "string list" where
  "cate_to_synsetid_keys = remdups (map fst cate_to_synsetid_items)"

subsection \<open>Tensors of the dataset layer\<close>

text \<open>
  The dataset layer handles three shapes of tensors only: an \<open>(N, 3)\<close> point cloud, a row
  of three numbers (shapes \<open>(1, 3)\<close> and \<open>(3,)\<close>) and a single number (shapes
  \<open>(1, 1)\<close>, \<open>(1,)\<close> and \<open>()\<close>).
\<close>

type_synonym vec3 = "real \<times> real \<times> real"

datatype tensor = Points "vec3 list" | Row3 vec3 | Scal real

definition vsub :: "vec3 \<Rightarrow> vec3 \<Rightarrow> vec3" where
  "vsub p q = (case (p, q) of ((a, b, c), (x, y, z)) \<Rightarrow> (a - x, b - y, c - z))"

definition vadd :: "vec3 \<Rightarrow> vec3 \<Rightarrow> vec3" where
  "vadd p q = (case (p, q) of ((a, b, c), (x, y, z)) \<Rightarrow> (a + x, b + y, c + z))"

definition vdiv :: "vec3 \<Rightarrow> real \<Rightarrow> vec3" where
  "vdiv p s = (case p of (a, b, c) \<Rightarrow> (a / s, b / s, c / s))"

text \<open>\<^verbatim>\<open>torch.norm(t, dim=1)\<close> on one row.\<close>

definition norm3 :: "vec3 \<Rightarrow> real" where
  "norm3 p = (case p of (a, b, c) \<Rightarrow> sqrt (a * a + b * b + c * c))"

text \<open>\<^verbatim>\<open>pc.flatten()\<close> and \<^verbatim>\<open>pc.view(-1)\<close>: all coordinates, row by row.\<close>

definition flatten :: "vec3 list \<Rightarrow> real list" where
  "flatten pc = concat (map (\<lambda>(a, b, c). [a, b, c]) pc)"

definition mean_list :: "real list \<Rightarrow> real" where
  "mean_list xs = sum_list xs / real (length xs)"

text \<open>\<^verbatim>\<open>.std()\<close>: the sample standard deviation (Bessel's correction, torch's default).\<close>

definition std :: "real list \<Rightarrow> real" where
  "std xs = sqrt (sum_list (map (\<lambda>x. (x - mean_list xs)\<^sup>2) xs) / (real (length xs) - 1))"

text \<open>\<^verbatim>\<open>pc.mean(dim=0)\<close>.\<close>

definition mean_dim0 :: "vec3 list \<Rightarrow> vec3" where
  "mean_dim0 pc =
     (mean_list (map fst pc), mean_list (map (fst \<circ> snd) pc), mean_list (map (snd \<circ> snd) pc))"

text \<open>
  \<^verbatim>\<open>pc.max(dim=0, keepdim=True)\<close> and \<^verbatim>\<open>pc.min(dim=0, keepdim=True)\<close>: torch
  raises \<^verbatim>\<open>IndexError\<close> on a tensor with no row.
\<close>

definition max_dim0 :: "vec3 list \<Rightarrow> error + vec3" where
  "max_dim0 pc =
     (case pc of
        [] \<Rightarrow> Inl IndexError
      | p # ps \<Rightarrow> Inr (fold (\<lambda>(a, b, c) (x, y, z). (max a x, max b y, max c z)) ps p))"

definition min_dim0 :: "vec3 list \<Rightarrow> error + vec3" where
  "min_dim0 pc =
     (case pc of
        [] \<Rightarrow> Inl IndexError
      | p # ps \<Rightarrow> Inr (fold (\<lambda>(a, b, c) (x, y, z). (min a x, min b y, min c z)) ps p))"

text \<open>\<^verbatim>\<open>torch.cat(tensors, dim=0)\<close>: raises on an empty list of tensors.\<close>

definition cat0 :: "'a list list \<Rightarrow> error + 'a list" where
  "cat0 ts =
     (if ts = [] then Inl (RuntimeError ''torch.cat(): expected a non-empty list of Tensors'')
      else Inr (concat ts))"

subsection \<open>Scaling one point cloud\<close>

text \<open>
  The chain \<^verbatim>\<open>if self.scale_mode == 'global_unit': ... else: ...\<close> stands twice in
  the file, word for word (lines 103 to 122 in \<^verbatim>\<open>ShapeNetCore.load\<close>, lines 240 to
  259 in \<^verbatim>\<open>PandaSet.load\<close>); it computes \<open>(shift, scale)\<close> from the cloud and
  \<^verbatim>\<open>self.stats['std']\<close>. The scale mode is \<open>None\<close> or a string.
\<close>

definition shift_scale :: "string option \<Rightarrow> real \<Rightarrow> vec3 list \<Rightarrow> error + (vec3 \<times> real)" where
  "shift_scale scale_mode stats_std pc =
     (if scale_mode = Some ''global_unit'' then Inr (mean_dim0 pc, stats_std)
      else if scale_mode = Some ''shape_unit'' then Inr (mean_dim0 pc, std (flatten pc))
      else if scale_mode = Some ''shape_half'' then Inr (mean_dim0 pc, std (flatten pc) / 0.5)
      else if scale_mode = Some ''shape_34'' then Inr (mean_dim0 pc, std (flatten pc) / 0.75)
      else if scale_mode = Some ''shape_bbox'' then
        bindE (max_dim0 pc) (\<lambda>pc_max.
        bindE (min_dim0 pc) (\<lambda>pc_min.
          Inr (vdiv (vadd pc_min pc_max) 2,
               (case vsub pc_max pc_min of (a, b, c) \<Rightarrow> max a (max b c)) / 2)))
      else Inr ((0, 0, 0), 1))"

text \<open>\<^verbatim>\<open>pc = (pc - shift) / scale\<close>.\<close>

definition rescale :: "vec3 list \<Rightarrow> vec3 \<Rightarrow> real \<Rightarrow> vec3 list" where
  "rescale pc shift scale = map (\<lambda>p. vdiv (vsub p shift) scale) pc"

subsection \<open>Stored entries\<close>

text \<open>
  An entry of \<^verbatim>\<open>self.pointclouds\<close> is a dictionary literal; its items are kept in
  the written order. A value is a tensor, a string or an integer.
\<close>

datatype pyvalue = FTensor tensor | FStr string | FInt nat

type_synonym entry = "(string \<times> pyvalue) list"

text \<open>\<^verbatim>\<open>data['id']\<close>, the sort key; every entry built below has this item.\<close>

definition entry_id :: "entry \<Rightarrow> nat" where
  "entry_id e = (case map_of e ''id'' of Some (FInt n) \<Rightarrow> n | _ \<Rightarrow> 0)"

subsection \<open>The seeded shuffle\<close>

text \<open>
  \<^verbatim>\<open>random.Random(2020).shuffle(xs)\<close>. The generator (CPython's Mersenne Twister) is
  a parameter: \<open>seed_rng\<close> builds the state from the seed and \<open>randbelow\<close> draws the next
  index below its argument. The loop is the library's
  \<^verbatim>\<open>for i in reversed(range(1, len(x))): j = randbelow(i + 1); x[i], x[j] = x[j], x[i]\<close>;
  an index out of range raises \<^verbatim>\<open>IndexError\<close>, as the list assignment would.
\<close>

record 'g Random =
  seed_rng :: "int \<Rightarrow> 'g"
  randbelow :: "'g \<Rightarrow> nat \<Rightarrow> nat \<times> 'g"

fun shuffle_loop :: "'g Random \<Rightarrow> nat \<Rightarrow> 'g \<Rightarrow> 'a list \<Rightarrow> error + 'a list" where
  "shuffle_loop R 0 g xs = Inr xs"
| "shuffle_loop R (Suc i) g xs =
     (case randbelow R g (Suc i + 1) of (j, g') \<Rightarrow>
        if Suc i < length xs \<and> j < length xs
        then shuffle_loop R i g' (xs[Suc i := xs ! j, j := xs ! Suc i])
        else Inl IndexError)"

definition shuffle :: "'g Random \<Rightarrow> 'g \<Rightarrow> 'a list \<Rightarrow> error + 'a list" where
  "shuffle R g xs = shuffle_loop R (length xs - 1) g xs"

text \<open>
  The two loaders end alike:
  \<^verbatim>\<open>self.pointclouds.sort(key=lambda data: data['id'], reverse=False)\<close> (a stable sort)
  and \<^verbatim>\<open>random.Random(2020).shuffle(self.pointclouds)\<close>.
\<close>

definition sort_and_shuffle :: "'g Random \<Rightarrow> entry list \<Rightarrow> error + entry list" where
  "sort_and_shuffle R es = shuffle R (seed_rng R 2020) (sort_key entry_id es)"

subsection \<open>The constructor's checks\<close>

text \<open>
  \<^verbatim>\<open>assert split in ('train', 'val', 'test')\<close> and
  \<^verbatim>\<open>assert scale_mode is None or scale_mode in ('global_unit', 'shape_unit', 'shape_bbox', 'shape_half', 'shape_34')\<close>,
  the same two lines in both constructors.
\<close>

definition split_ok :: "string \<Rightarrow> bool" where
  "split_ok split \<longleftrightarrow> split \<in> set [''train'', ''val'', ''test'']"

definition scale_mode_ok :: "string option \<Rightarrow> bool" where
  "scale_mode_ok scale_mode \<longleftrightarrow>
     (case scale_mode of
        None \<Rightarrow> True
      | Some m \<Rightarrow> m \<in> set [''global_unit'', ''shape_unit'', ''shape_bbox'', ''shape_half'', ''shape_34''])"

subsection \<open>\<^verbatim>\<open>PandaSet\<close>\<close>

text \<open>
  The pickled file: a dictionary from class name to a dictionary from split name to a
  list of objects; an object has its points and a box with position, yaw and view
  angle.
\<close>

record box =
  box_position :: vec3
  box_yaw :: real
  box_view_angle :: real

record obj =
  obj_points :: "vec3 list"
  obj_box :: box

type_synonym pkl = "string \<rightharpoonup> (string \<rightharpoonup> obj list)"

record panda_stats =
  st_mean :: vec3
  st_std :: real
  st_mean_dist_from_center :: real
  st_std_dist_from_center :: real

text \<open>
  \<^verbatim>\<open>normalize_point_cloud(self, pc, mode='shape_unit')\<close>: with any other mode than
  the two it names, \<^verbatim>\<open>shift\<close> is unbound at \<^verbatim>\<open>pc - shift\<close>.
\<close>

definition normalize_point_cloud :: "vec3 list \<Rightarrow> string \<Rightarrow> error + vec3 list" where
  "normalize_point_cloud pc mode =
     bindE
       (if mode = ''shape_unit'' then Inr (mean_dim0 pc, std (flatten pc))
        else if mode = ''shape_bbox'' then
          bindE (max_dim0 pc) (\<lambda>pc_max.
          bindE (min_dim0 pc) (\<lambda>pc_min.
            Inr (vdiv (vadd pc_min pc_max) 2,
                 (case vsub pc_max pc_min of (a, b, c) \<Rightarrow> max a (max b c)) / 2)))
        else Inl (UnboundLocalError ''shift''))
       (\<lambda>(shift, scale). Inr (rescale pc shift scale))"

text \<open>
  \<^verbatim>\<open>for split in ('train', 'val', 'test'): for obj in data[self.cls][split]: ...\<close>:
  the objects the loop of \<^verbatim>\<open>get_statistics\<close> visits, in order.
\<close>

fun panda_objs :: "pkl \<Rightarrow> string \<Rightarrow> string list \<Rightarrow> error + obj list" where
  "panda_objs data cls [] = Inr []"
| "panda_objs data cls (split # splits) =
     bindE (getitem_dict data cls) (\<lambda>d.
     bindE (getitem_dict d split) (\<lambda>objs.
     bindE (panda_objs data cls splits) (\<lambda>rest. Inr (objs @ rest))))"

text \<open>
  \<^verbatim>\<open>PandaSet.get_statistics\<close>. The statistics are recomputed at every construction;
  the path of the file they are saved to does not enter any result and is left out.
\<close>

definition PandaSet_get_statistics :: "pkl \<Rightarrow> string \<Rightarrow> error + panda_stats" where
  "PandaSet_get_statistics data cls =
     bindE (panda_objs data cls [''train'', ''val'', ''test'']) (\<lambda>objs.
     bindE (mapE (\<lambda>obj. normalize_point_cloud (obj_points obj) ''shape_unit'') objs) (\<lambda>pointclouds.
     bindE (cat0 pointclouds) (\<lambda>all_points.
     bindE (cat0 (map (\<lambda>obj. map (\<lambda>p. norm3 (vsub p (box_position (obj_box obj))))
                                  (obj_points obj)) objs)) (\<lambda>rel_distance.
       Inr \<lparr>st_mean = mean_dim0 all_points,
            st_std = std (flatten all_points),
            st_mean_dist_from_center = mean_list rel_distance,
            st_std_dist_from_center = std rel_distance\<rparr>))))"

text \<open>Python's \<^verbatim>\<open>x % y\<close> on floats: the result has the sign of \<open>y\<close>.\<close>

definition py_mod :: "real \<Rightarrow> real \<Rightarrow> real" where
  "py_mod x y = x - y * of_int \<lfloor>x / y\<rfloor>"

text \<open>
  The local function \<^verbatim>\<open>normalize_angle\<close> of \<^verbatim>\<open>PandaSet.load\<close>. (The method
  \<^verbatim>\<open>get_features_from_pc\<close> is not called: its call in \<^verbatim>\<open>load\<close> is commented out.)
\<close>

definition normalize_angle :: "real \<Rightarrow> real" where
  "normalize_angle angle = py_mod (angle + pi) (2 * pi) - pi"

text \<open>The body of the loop of \<^verbatim>\<open>PandaSet.load\<close>, for the object numbered \<open>pc_id\<close>.\<close>

definition panda_entry ::
  "string option \<Rightarrow> panda_stats \<Rightarrow> string \<Rightarrow> nat \<Rightarrow> obj \<Rightarrow> error + entry" where
  "panda_entry scale_mode stats cls pc_id ob =
     (let pc = obj_points ob;
          pos = box_position (obj_box ob);
          pc = map (\<lambda>p. vsub p pos) pc
      in bindE (shift_scale scale_mode (st_std stats) pc) (\<lambda>(shift, scale).
           let pc = rescale pc shift scale;
               yaw = box_yaw (obj_box ob) - pi / 2
           in Inr [(''pointcloud'', FTensor (Points pc)),
                   (''view_angle'', FTensor (Scal (box_view_angle (obj_box ob) / pi))),
                   (''yaw'', FTensor (Scal (normalize_angle yaw / pi))),
                   (''cate'', FStr cls),
                   (''id'', FInt pc_id),
                   (''shift'', FTensor (Scal (st_mean_dist_from_center stats))),
                   (''scale'', FTensor (Scal (st_std_dist_from_center stats)))]))"

text \<open>\<^verbatim>\<open>for pc_id, obj in enumerate(...)\<close>, counting from \<open>pc_id\<close>.\<close>

fun panda_entries ::
  "string option \<Rightarrow> panda_stats \<Rightarrow> string \<Rightarrow> nat \<Rightarrow> obj list \<Rightarrow> error + entry list" where
  "panda_entries scale_mode stats cls pc_id [] = Inr []"
| "panda_entries scale_mode stats cls pc_id (ob # obs) =
     bindE (panda_entry scale_mode stats cls pc_id ob) (\<lambda>e.
     bindE (panda_entries scale_mode stats cls (Suc pc_id) obs) (\<lambda>es. Inr (e # es)))"

definition PandaSet_load ::
  "'g Random \<Rightarrow> pkl \<Rightarrow> string \<Rightarrow> string \<Rightarrow> string option \<Rightarrow> panda_stats \<Rightarrow> error + entry list" where
  "PandaSet_load R data cls split scale_mode stats =
     bindE (getitem_dict data cls) (\<lambda>d.
     bindE (getitem_dict d split) (\<lambda>objs.
     bindE (panda_entries scale_mode stats cls 0 objs) (\<lambda>es.
       sort_and_shuffle R es)))"

record PandaSet =
  ps_split :: string
  ps_scale_mode :: "string option"
  ps_cls :: string
  ps_input_size :: nat
  ps_pointclouds :: "entry list"
  ps_stats :: panda_stats

text \<open>
  \<^verbatim>\<open>PandaSet.__init__(self, path, cls, split, scale_mode, transform=None, input_size=1024)\<close>.
  The file at \<^verbatim>\<open>path\<close> is given by its contents \<open>data\<close>; \<^verbatim>\<open>transform\<close> is only
  stored, and is an argument of \<^verbatim>\<open>__getitem__\<close> below.
\<close>

definition PandaSet_init ::
  "'g Random \<Rightarrow> pkl \<Rightarrow> string \<Rightarrow> string \<Rightarrow> string option \<Rightarrow> nat \<Rightarrow> error + PandaSet" where
  "PandaSet_init R data cls split scale_mode input_size =
     (if \<not> split_ok split then Inl AssertionError
      else if \<not> scale_mode_ok scale_mode then Inl AssertionError
      else
        bindE (PandaSet_get_statistics data cls) (\<lambda>stats.
        bindE (PandaSet_load R data cls split scale_mode stats) (\<lambda>pointclouds.
          Inr \<lparr>ps_split = split, ps_scale_mode = scale_mode, ps_cls = cls,
               ps_input_size = input_size, ps_pointclouds = pointclouds,
               ps_stats = stats\<rparr>)))"

subsection \<open>\<^verbatim>\<open>ShapeNetCore\<close>\<close>

text \<open>
  The HDF5 file: \<^verbatim>\<open>f[synsetid][split]\<close> is an array of point clouds. The directory of
  saved statistics maps a file name to the statistics saved under it;
  \<^verbatim>\<open>get_statistics\<close> reads it, and the file it writes when it had to compute the
  statistics is not part of the result of the construction.
\<close>

type_synonym h5 = "string \<rightharpoonup> (string \<rightharpoonup> vec3 list list)"

record shapenet_stats =
  sn_mean :: vec3
  sn_std :: real

text \<open>
  The arrays the loops of \<^verbatim>\<open>ShapeNetCore.get_statistics\<close> read:
  \<^verbatim>\<open>for synsetid in self.cate_synsetids: for split in ('train', 'val', 'test')\<close>.
\<close>

fun shapenet_arrays :: "h5 \<Rightarrow> string list \<Rightarrow> error + vec3 list list list" where
  "shapenet_arrays f [] = Inr []"
| "shapenet_arrays f (synsetid # synsetids) =
     bindE (mapE (\<lambda>split. bindE (getitem_dict f synsetid) (\<lambda>d. getitem_dict d split))
              [''train'', ''val'', ''test'']) (\<lambda>arrs.
     bindE (shapenet_arrays f synsetids) (\<lambda>rest. Inr (arrs @ rest)))"

definition stats_file_name :: "string list \<Rightarrow> string" where
  "stats_file_name cate_synsetids =
     (if length cate_synsetids = length cate_to_synsetid_keys then ''stats_all.pt''
      else ''stats_'' @ join ''_'' cate_synsetids @ ''.pt'')"

definition ShapeNetCore_get_statistics ::
  "h5 \<Rightarrow> (string \<rightharpoonup> shapenet_stats) \<Rightarrow> string list \<Rightarrow> error + shapenet_stats" where
  "ShapeNetCore_get_statistics f stats_dir cate_synsetids =
     (case stats_dir (stats_file_name cate_synsetids) of
        Some stats \<Rightarrow> Inr stats
      | None \<Rightarrow>
          bindE (shapenet_arrays f cate_synsetids) (\<lambda>pointclouds.
          bindE (cat0 pointclouds) (\<lambda>all_points.
            Inr \<lparr>sn_mean = mean_dim0 (concat all_points),
                 sn_std = std (flatten (concat all_points))\<rparr>)))"

text \<open>The body of the loop of \<^verbatim>\<open>ShapeNetCore.load\<close>.\<close>

definition shapenet_entry ::
  "string option \<Rightarrow> shapenet_stats \<Rightarrow> string \<Rightarrow> nat \<Rightarrow> vec3 list \<Rightarrow> error + entry" where
  "shapenet_entry scale_mode stats cate_name pc_id pc =
     bindE (shift_scale scale_mode (sn_std stats) pc) (\<lambda>(shift, scale).
       let pc = rescale pc shift scale
       in Inr [(''pointcloud'', FTensor (Points pc)),
               (''cate'', FStr cate_name),
               (''id'', FInt pc_id),
               (''shift'', FTensor (Row3 shift)),
               (''scale'', FTensor (Scal scale))])"

text \<open>\<^verbatim>\<open>for j, pc in enumerate(f[synsetid][self.split])\<close>, counting from \<open>j\<close>.\<close>

fun shapenet_entries ::
  "string option \<Rightarrow> shapenet_stats \<Rightarrow> string \<Rightarrow> nat \<Rightarrow> vec3 list list \<Rightarrow> error + entry list" where
  "shapenet_entries scale_mode stats cate_name j [] = Inr []"
| "shapenet_entries scale_mode stats cate_name j (pc # pcs) =
     bindE (shapenet_entry scale_mode stats cate_name j pc) (\<lambda>e.
     bindE (shapenet_entries scale_mode stats cate_name (Suc j) pcs) (\<lambda>es. Inr (e # es)))"

text \<open>
  The generator \<^verbatim>\<open>_enumerate_pointclouds\<close> and the loop that consumes it, category
  after category.
\<close>

fun shapenet_loop ::
  "h5 \<Rightarrow> string \<Rightarrow> string option \<Rightarrow> shapenet_stats \<Rightarrow> string list \<Rightarrow> error + entry list" where
  "shapenet_loop f split scale_mode stats [] = Inr []"
| "shapenet_loop f split scale_mode stats (synsetid # synsetids) =
     bindE (getitem_dict synsetid_to_cate synsetid) (\<lambda>cate_name.
     bindE (getitem_dict f synsetid) (\<lambda>d.
     bindE (getitem_dict d split) (\<lambda>pcs.
     bindE (shapenet_entries scale_mode stats cate_name 0 pcs) (\<lambda>es.
     bindE (shapenet_loop f split scale_mode stats synsetids) (\<lambda>rest. Inr (es @ rest))))))"

definition ShapeNetCore_load ::
  "'g Random \<Rightarrow> h5 \<Rightarrow> string list \<Rightarrow> string \<Rightarrow> string option \<Rightarrow> shapenet_stats
     \<Rightarrow> error + entry list" where
  "ShapeNetCore_load R f cate_synsetids split scale_mode stats =
     bindE (shapenet_loop f split scale_mode stats cate_synsetids) (\<lambda>es.
       sort_and_shuffle R es)"

text \<open>The argument \<^verbatim>\<open>cates\<close>: a list of names, or any value that is not a list.\<close>

datatype cates_arg = PyList "string list" | NotAList

record ShapeNetCore =
  sn_cate_synsetids :: "string list"
  sn_split :: string
  sn_scale_mode :: "string option"
  sn_pointclouds :: "entry list"
  sn_stats_of :: shapenet_stats

text \<open>
  \<^verbatim>\<open>ShapeNetCore.__init__(self, path, cates, split, scale_mode, transform=None)\<close>. The
  file at \<^verbatim>\<open>path\<close> is given by its contents \<open>f\<close>, the statistics directory beside
  it by \<open>stats_dir\<close>.
\<close>

definition ShapeNetCore_init ::
  "'g Random \<Rightarrow> h5 \<Rightarrow> (string \<rightharpoonup> shapenet_stats) \<Rightarrow> cates_arg \<Rightarrow> string \<Rightarrow> string option
     \<Rightarrow> error + ShapeNetCore" where
  "ShapeNetCore_init R f stats_dir cates split scale_mode =
     (case cates of
        NotAList \<Rightarrow> Inl AssertionError
      | PyList names \<Rightarrow>
          if \<not> split_ok split then Inl AssertionError
          else if \<not> scale_mode_ok scale_mode then Inl AssertionError
          else
            let cates = (if ''all'' \<in> set names then cate_to_synsetid_keys else names) in
            bindE (mapE (getitem_dict cate_to_synsetid) cates) (\<lambda>cate_synsetids.
            let cate_synsetids = sort cate_synsetids in
            bindE (ShapeNetCore_get_statistics f stats_dir cate_synsetids) (\<lambda>stats.
            bindE (ShapeNetCore_load R f cate_synsetids split scale_mode stats) (\<lambda>pointclouds.
              Inr \<lparr>sn_cate_synsetids = cate_synsetids, sn_split = split,
                   sn_scale_mode = scale_mode, sn_pointclouds = pointclouds,
                   sn_stats_of = stats\<rparr>))))"

subsection \<open>Reading the order and the poses of a constructed dataset\<close>

text \<open>
  The positions \<^verbatim>\<open>random.Random(2020).shuffle\<close> leaves in a list of \<open>n\<close> items: the
  shuffle of the list \<open>[0, \<dots>, n - 1]\<close>.
\<close>

definition seeded_order :: "'g Random \<Rightarrow> nat \<Rightarrow> error + nat list" where
  "seeded_order R n = shuffle R (seed_rng R 2020) [0..<n]"

text \<open>
  The same shuffle, told as the exchanges it makes. \<open>draws R i g\<close> are the numbers the
  generator hands out from state \<open>g\<close> when it is asked for one below \<open>i + 1\<close>, then
  below \<open>i\<close>, and so on down to one below \<open>2\<close>. \<open>exchange (i, j)\<close> is the statement
  \<^verbatim>\<open>x[i], x[j] = x[j], x[i]\<close>. \<open>seeded_swaps R n\<close> pairs the positions
  \<open>n - 1, \<dots>, 1\<close> with the draws of the generator seeded with 2020.
\<close>

fun draws :: "'g Random \<Rightarrow> nat \<Rightarrow> 'g \<Rightarrow> nat list" where
  "draws R 0 g = []"
| "draws R (Suc i) g = (case randbelow R g (Suc i + 1) of (j, g') \<Rightarrow> j # draws R i g')"

definition exchange :: "nat \<times> nat \<Rightarrow> 'a list \<Rightarrow> 'a list" where
  "exchange ij xs = (case ij of (i, j) \<Rightarrow> xs[i := xs ! j, j := xs ! i])"

definition seeded_swaps :: "'g Random \<Rightarrow> nat \<Rightarrow> (nat \<times> nat) list" where
  "seeded_swaps R n = zip (rev [1..<n]) (draws R (n - 1) (seed_rng R 2020))"

text \<open>The items \<^verbatim>\<open>'cate'\<close> and \<^verbatim>\<open>'id'\<close> of an entry.\<close>

definition cate_and_id :: "entry \<Rightarrow> pyvalue option \<times> nat" where
  "cate_and_id e = (map_of e ''cate'', entry_id e)"

text \<open>The item \<^verbatim>\<open>'view_angle'\<close> of every stored entry, in the stored order.\<close>

definition served_view_angles :: "PandaSet \<Rightarrow> pyvalue option list" where
  "served_view_angles ds = map (\<lambda>e. map_of e ''view_angle'') (ps_pointclouds ds)"

subsection \<open>Concrete inputs\<close>

text \<open>
  A small generator that meets the contract of \<^verbatim>\<open>randbelow\<close> (the draw is below its
  argument), a pickled file with one class and two objects, one of them with a view
  angle of \<open>3\<pi>\<close>.
\<close>

definition counter_rng :: "nat Random" where
  "counter_rng = \<lparr>seed_rng = (\<lambda>s. nat s), randbelow = (\<lambda>g n. (g mod n, Suc g))\<rparr>"

definition near_obj :: obj where
  "near_obj = \<lparr>obj_points = [(1, 0, 0), (0, 1, 0)],
               obj_box = \<lparr>box_position = (0, 0, 0), box_yaw = 0, box_view_angle = pi / 2\<rparr>\<rparr>"

definition turned_obj :: obj where
  "turned_obj = \<lparr>obj_points = [(1, 2, 2)],
                 obj_box = \<lparr>box_position = (0, 0, 0), box_yaw = 4, box_view_angle = 3 * pi\<rparr>\<rparr>"

definition example_pkl :: pkl where
  "example_pkl =
     [''Car'' \<mapsto> [''train'' \<mapsto> [near_obj], ''val'' \<mapsto> [turned_obj], ''test'' \<mapsto> []]]"

text \<open>A pickled file whose training split of the class \<^verbatim>\<open>'Car'\<close> has three objects.\<close>

definition three_cars_pkl :: pkl where
  "three_cars_pkl =
     [''Car'' \<mapsto> [''train'' \<mapsto> [near_obj, turned_obj, near_obj], ''val'' \<mapsto> [], ''test'' \<mapsto> []]]"

text \<open>
  An archive that holds the same two clouds for every category and split, and a
  statistics directory in which every file name is present.
\<close>

definition uniform_h5 :: h5 where
  "uniform_h5 = (\<lambda>synsetid. Some (\<lambda>split. Some [[(0, 0, 0), (2, 0, 0)], [(1, 1, 1)]]))"

definition saved_stats :: "string \<rightharpoonup> shapenet_stats" where
  "saved_stats = (\<lambda>name. Some \<lparr>sn_mean = (0, 0, 0), sn_std = 1\<rparr>)"


subsection \<open>\<^verbatim>\<open>__getitem__\<close> over a store\<close>


text \<open>
  The claim about \<^verbatim>\<open>__getitem__\<close> is about aliasing, so here the Python objects live
  in a store: a list of objects, an address being a position in it. A tensor and a
  dictionary are objects; a dictionary's item holds a reference to an object, or a
  string or an integer (immutable, held by their value). A new object goes to the end of
  the store.
\<close>

type_synonym addr = nat

datatype pyref = Ref addr | RStr string | RInt nat

datatype pyobj = TensorObj tensor | DictObj "(string \<times> pyref) list"

type_synonym store = "pyobj list"

text \<open>
  \<^verbatim>\<open>xs[idx]\<close> on a list: a negative index counts from the end.
\<close>

definition list_getitem :: "'a list \<Rightarrow> int \<Rightarrow> error + 'a" where
  "list_getitem xs idx =
     (let n = int (length xs); i = (if idx < 0 then n + idx else idx)
      in if 0 \<le> i \<and> i < n then Inr (xs ! nat i) else Inl IndexError)"

text \<open>
  \<^verbatim>\<open>v.clone() if isinstance(v, torch.Tensor) else copy(v)\<close>: a tensor is cloned into a
  new object; \<^verbatim>\<open>copy\<close> of another object is a new object with the same contents (a
  shallow copy); a string or an integer is its own copy. Every reference of a running
  program points into the store; the last branch is there to keep the function total.
\<close>

definition clone_or_copy :: "pyref \<Rightarrow> store \<Rightarrow> error + (pyref \<times> store)" where
  "clone_or_copy v s =
     (case v of
        Ref a \<Rightarrow>
          if a < length s then
            (case s ! a of
               TensorObj t \<Rightarrow> Inr (Ref (length s), s @ [TensorObj t])
             | DictObj items \<Rightarrow> Inr (Ref (length s), s @ [DictObj items]))
          else Inl (RuntimeError ''no such object'')
      | RStr x \<Rightarrow> Inr (RStr x, s)
      | RInt n \<Rightarrow> Inr (RInt n, s))"

text \<open>
  The dictionary comprehension \<^verbatim>\<open>{k: ... for k, v in self.pointclouds[idx].items()}\<close>.
\<close>

fun comprehension :: "(string \<times> pyref) list \<Rightarrow> store \<Rightarrow> error + ((string \<times> pyref) list \<times> store)" where
  "comprehension [] s = Inr ([], s)"
| "comprehension ((k, v) # kvs) s =
     bindE (clone_or_copy v s) (\<lambda>(v', s').
     bindE (comprehension kvs s') (\<lambda>(kvs', s''). Inr ((k, v') # kvs', s'')))"

text \<open>
  \<^verbatim>\<open>__getitem__(self, idx)\<close>, the same four lines in \<^verbatim>\<open>ShapeNetCore\<close> and in
  \<^verbatim>\<open>PandaSet\<close>. \<^verbatim>\<open>self.pointclouds\<close> is a list of references to dictionaries;
  \<^verbatim>\<open>self.transform\<close> is \<open>None\<close> or a callable, which may do to the store what it
  likes.
\<close>

definition getitem ::
  "addr list \<Rightarrow> (pyref \<Rightarrow> store \<Rightarrow> error + (pyref \<times> store)) option \<Rightarrow> int \<Rightarrow> store
     \<Rightarrow> error + (pyref \<times> store)" where
  "getitem pointclouds transform idx s =
     bindE (list_getitem pointclouds idx) (\<lambda>d.
       if d < length s then
         (case s ! d of
            DictObj items \<Rightarrow>
              bindE (comprehension items s) (\<lambda>(items', s').
                let data = Ref (length s'); s'' = s' @ [DictObj items']
                in (case transform of None \<Rightarrow> Inr (data, s'') | Some t \<Rightarrow> t data s''))
          | TensorObj t \<Rightarrow> Inl (AttributeError ''items''))
       else Inl (RuntimeError ''no such object''))"

text \<open>
  What an observer reads: the value behind an item, and the items of the dictionary
  behind a reference.
\<close>

definition read_val :: "store \<Rightarrow> pyref \<Rightarrow> pyvalue option" where
  "read_val s v =
     (case v of
        Ref a \<Rightarrow> (if a < length s then (case s ! a of TensorObj t \<Rightarrow> Some (FTensor t) | DictObj _ \<Rightarrow> None)
                  else None)
      | RStr x \<Rightarrow> Some (FStr x)
      | RInt n \<Rightarrow> Some (FInt n))"

definition read_entry :: "store \<Rightarrow> pyref \<Rightarrow> (string \<times> pyvalue option) list option" where
  "read_entry s r =
     (case r of
        Ref d \<Rightarrow> (if d < length s
                  then (case s ! d of DictObj items \<Rightarrow> Some (map (\<lambda>(k, v). (k, read_val s v)) items)
                                    | TensorObj _ \<Rightarrow> None)
                  else None)
      | _ \<Rightarrow> None)"

text \<open>
  The stored lists the loaders build: every entry is a dictionary whose items hold
  tensors, strings and integers.
\<close>

definition tensor_ref :: "store \<Rightarrow> pyref \<Rightarrow> bool" where
  "tensor_ref s v =
     (case v of Ref a \<Rightarrow> a < length s \<and> (case s ! a of TensorObj _ \<Rightarrow> True | DictObj _ \<Rightarrow> False)
              | _ \<Rightarrow> True)"

definition wf_dataset :: "addr list \<Rightarrow> store \<Rightarrow> bool" where
  "wf_dataset pointclouds s =
     list_all (\<lambda>d. d < length s \<and>
        (case s ! d of DictObj items \<Rightarrow> list_all (\<lambda>(k, v). tensor_ref s v) items
                     | TensorObj _ \<Rightarrow> False)) pointclouds"

text \<open>
  The objects of a returned sample (the dictionary and the objects its items refer to),
  and a sequence of assignments to objects of the store.
\<close>

definition sample_addrs :: "store \<Rightarrow> pyref \<Rightarrow> addr list" where
  "sample_addrs s r =
     (case r of
        Ref d \<Rightarrow> d # (if d < length s
                      then (case s ! d of
                              DictObj items \<Rightarrow> concat (map (\<lambda>(k, v). case v of Ref a \<Rightarrow> [a] | _ \<Rightarrow> []) items)
                            | TensorObj _ \<Rightarrow> [])
                      else [])
      | _ \<Rightarrow> [])"

definition mutate :: "(addr \<times> pyobj) list \<Rightarrow> store \<Rightarrow> store" where
  "mutate ws s = fold (\<lambda>(a, ob) s. s[a := ob]) ws s"

text \<open>
  The reference \<^verbatim>\<open>self.pointclouds[idx]\<close> for a valid index.
\<close>

definition stored_at :: "addr list \<Rightarrow> int \<Rightarrow> pyref" where
  "stored_at pointclouds idx =
     Ref (pointclouds ! nat (if idx < 0 then int (length pointclouds) + idx else idx))"


text \<open>
  The entries a loader built, placed in a store: every tensor becomes an object, every
  entry a dictionary. \<open>entry_read\<close> is what an observer reads of such an entry.
\<close>

fun place_items :: "entry \<Rightarrow> store \<Rightarrow> (string \<times> pyref) list \<times> store" where
  "place_items [] s = ([], s)"
| "place_items ((k, v) # kvs) s =
     (case v of
        FTensor t \<Rightarrow> (case place_items kvs (s @ [TensorObj t]) of
                        (items, s') \<Rightarrow> ((k, Ref (length s)) # items, s'))
      | FStr x \<Rightarrow> (case place_items kvs s of (items, s') \<Rightarrow> ((k, RStr x) # items, s'))
      | FInt n \<Rightarrow> (case place_items kvs s of (items, s') \<Rightarrow> ((k, RInt n) # items, s')))"

fun place_entries :: "entry list \<Rightarrow> store \<Rightarrow> addr list \<times> store" where
  "place_entries [] s = ([], s)"
| "place_entries (e # es) s =
     (case place_items e s of
        (items, s1) \<Rightarrow>
          (case place_entries es (s1 @ [DictObj items]) of
             (ds, s2) \<Rightarrow> (length s1 # ds, s2)))"

definition entry_read :: "entry \<Rightarrow> (string \<times> pyvalue option) list option" where
  "entry_read e = Some (map (\<lambda>(k, v). (k, Some v)) e)"

text \<open>A store that holds one entry of a \<^verbatim>\<open>PandaSet\<close>: two tensors and the dictionary.\<close>

definition example_store :: store where
  "example_store =
     [TensorObj (Points [(1, 2, 3)]),
      TensorObj (Scal (1 / 2)),
      DictObj [(''pointcloud'', Ref 0), (''view_angle'', Ref 1), (''cate'', RStr ''Car''),
               (''id'', RInt 0)]]"

section \<open>The model (\<^verbatim>\<open>models/vae_flow_surface_mhsa.py\<close>)\<close>

subsection \<open>Values, library operations and sub-modules\<close>

text \<open>
  The methods of \<^verbatim>\<open>FlowVAESurfaceConditional\<close> move tensors between library
  operations and sub-modules; what a tensor holds never decides which statement runs
  next. The type \<open>'t\<close> of tensors is therefore a parameter, and so are the operations.
  A Python variable may hold a tensor or a tuple.
\<close>

datatype 't pyval = Tensor 't | Tuple "'t pyval list"

text \<open>
  The operations of \<^verbatim>\<open>torch\<close> that the two methods call: \<^verbatim>\<open>x.size()\<close>,
  \<^verbatim>\<open>torch.cat(ts, dim)\<close>, \<^verbatim>\<open>t.unsqueeze(dim)\<close>, \<^verbatim>\<open>t.squeeze(dim)\<close>,
  \<^verbatim>\<open>torch.zeros(shape).to(t)\<close>, \<^verbatim>\<open>t.view(shape)\<close>,
  \<^verbatim>\<open>t.sum(dim, keepdim)\<close>, \<^verbatim>\<open>t.mean()\<close>, \<^verbatim>\<open>-t\<close>, \<^verbatim>\<open>s + t\<close>, \<^verbatim>\<open>s - t\<close>,
  \<^verbatim>\<open>c * t\<close> for a Python float \<^verbatim>\<open>c\<close>, \<^verbatim>\<open>t.abs()\<close>, \<^verbatim>\<open>t.max()\<close> and
  \<^verbatim>\<open>t.exp()\<close>. Each may raise (on a shape it does not accept).
\<close>

record 't torch =
  torch_size :: "'t \<Rightarrow> nat list"
  torch_cat :: "'t list \<Rightarrow> nat \<Rightarrow> error + 't"
  torch_unsqueeze :: "'t \<Rightarrow> nat \<Rightarrow> error + 't"
  torch_squeeze :: "'t \<Rightarrow> nat \<Rightarrow> error + 't"
  torch_zeros_to :: "nat list \<Rightarrow> 't \<Rightarrow> error + 't"
  torch_view :: "'t \<Rightarrow> int list \<Rightarrow> error + 't"
  torch_sum :: "'t \<Rightarrow> nat \<Rightarrow> bool \<Rightarrow> error + 't"
  torch_mean :: "'t \<Rightarrow> error + 't"
  torch_neg :: "'t \<Rightarrow> error + 't"
  torch_add :: "'t \<Rightarrow> 't \<Rightarrow> error + 't"
  torch_sub :: "'t \<Rightarrow> 't \<Rightarrow> error + 't"
  torch_scale :: "real \<Rightarrow> 't \<Rightarrow> error + 't"
  torch_abs :: "'t \<Rightarrow> error + 't"
  torch_max :: "'t \<Rightarrow> error + 't"
  torch_exp :: "'t \<Rightarrow> error + 't"

text \<open>
  The sub-modules that \<^verbatim>\<open>__init__\<close> builds, as the functions their calls compute:
  \<^verbatim>\<open>self.encoder(x)\<close> returns the pair \<open>(z_mu, z_sigma)\<close>;
  \<^verbatim>\<open>self.MHSA(query, key, value)\<close> is \<^verbatim>\<open>torch.nn.MultiheadAttention.forward\<close>,
  which returns the pair \<open>(attn_output, attn_output_weights)\<close>;
  \<^verbatim>\<open>self.flow(z, logpz0, reverse=False)\<close> returns \<open>(w, delta_log_pw)\<close> and
  \<^verbatim>\<open>self.flow(w, reverse=True)\<close> returns \<open>z\<close>; \<^verbatim>\<open>self.diffusion.get_loss(x, context)\<close>
  and \<^verbatim>\<open>self.diffusion.sample(num_points, context, flexibility)\<close>. The last four
  fields are functions of \<^verbatim>\<open>models/common.py\<close>, which the star imports bring in.
  (\<open>truncated_normal'\<close> is \<^verbatim>\<open>truncated_normal_\<close>.)
  A record stands for the model during one call: its parameters, its buffers, its mode
  and the random numbers the call draws are fixed in it.
\<close>

record 't net =
  encoder :: "'t \<Rightarrow> error + ('t \<times> 't)"
  FC1 :: "'t \<Rightarrow> error + 't"
  BN1 :: "'t \<Rightarrow> error + 't"
  FC2 :: "'t \<Rightarrow> error + 't"
  BN2 :: "'t \<Rightarrow> error + 't"
  MHSA :: "'t \<Rightarrow> 't \<Rightarrow> 't \<Rightarrow> error + ('t \<times> 't)"
  flow :: "'t \<Rightarrow> 't \<Rightarrow> error + ('t \<times> 't)"
  flow_reverse :: "'t \<Rightarrow> error + 't"
  diffusion_get_loss :: "'t \<Rightarrow> 't \<Rightarrow> error + 't"
  diffusion_sample :: "nat \<Rightarrow> 't \<Rightarrow> real \<Rightarrow> error + 't"
  reparameterize_gaussian :: "'t \<Rightarrow> 't \<Rightarrow> error + 't"
  gaussian_entropy :: "'t \<Rightarrow> error + 't"
  standard_normal_logprob :: "'t \<Rightarrow> error + 't"
  truncated_normal' :: "'t \<Rightarrow> real \<Rightarrow> real \<Rightarrow> real \<Rightarrow> error + 't"

text \<open>
  The method call \<^verbatim>\<open>z.squeeze(1)\<close>: the attribute is looked up on the value that
  \<^verbatim>\<open>z\<close> holds, and a tuple has no attribute \<^verbatim>\<open>squeeze\<close>.
\<close>

definition squeeze_method :: "'t torch \<Rightarrow> 't pyval \<Rightarrow> nat \<Rightarrow> error + 't" where
  "squeeze_method T z axis =
     (case z of
        Tensor t \<Rightarrow> torch_squeeze T t axis
      | Tuple _ \<Rightarrow> Inl (AttributeError ''squeeze''))"

subsection \<open>The pose-conditioning lines\<close>

text \<open>
  Lines 59 to 64 of \<^verbatim>\<open>get_loss\<close> stand again, word for word, as lines 99 to 104 of
  \<^verbatim>\<open>sample\<close>:
  \<^verbatim>\<open>z = torch.cat([z, view_angle, yaw], dim=1)\<close>,
  \<^verbatim>\<open>z = self.BN1(self.FC1(z))\<close>,
  \<^verbatim>\<open>z = self.BN2(self.FC2(z))\<close>,
  \<^verbatim>\<open>z = z.unsqueeze(1)\<close>,
  \<^verbatim>\<open>z = self.MHSA(z, z, z)\<close>,
  \<^verbatim>\<open>z = z.squeeze(1)\<close>.
  \<open>attend\<close> is the first five of them, up to the value the attention call returns;
  \<open>conditioning\<close> is all six: after the fifth, \<^verbatim>\<open>z\<close> holds the tuple.
\<close>

definition attend :: "'t torch \<Rightarrow> 't net \<Rightarrow> 't \<Rightarrow> 't \<Rightarrow> 't \<Rightarrow> error + ('t \<times> 't)" where
  "attend T M z view_angle yaw =
     bindE (torch_cat T [z, view_angle, yaw] 1) (\<lambda>z.
     bindE (FC1 M z) (\<lambda>z.
     bindE (BN1 M z) (\<lambda>z.
     bindE (FC2 M z) (\<lambda>z.
     bindE (BN2 M z) (\<lambda>z.
     bindE (torch_unsqueeze T z 1) (\<lambda>z.
       MHSA M z z z))))))"

definition conditioning :: "'t torch \<Rightarrow> 't net \<Rightarrow> 't \<Rightarrow> 't \<Rightarrow> 't \<Rightarrow> error + 't" where
  "conditioning T M z view_angle yaw =
     bindE (attend T M z view_angle yaw) (\<lambda>(attn_output, attn_output_weights).
       let z = Tuple [Tensor attn_output, Tensor attn_output_weights]
       in squeeze_method T z 1)"

subsection \<open>\<^verbatim>\<open>get_loss\<close>, \<^verbatim>\<open>sample\<close> and \<^verbatim>\<open>forward\<close>\<close>

text \<open>
  The scalars \<^verbatim>\<open>get_loss\<close> hands to \<^verbatim>\<open>writer.add_scalar\<close> when a writer is given
  (lines 83 to 89); the result lists them as \<open>(tag, value, it)\<close>.
\<close>

definition write_scalars ::
  "'t torch \<Rightarrow> 't \<Rightarrow> 't \<Rightarrow> 't \<Rightarrow> 't \<Rightarrow> 't \<Rightarrow> int \<Rightarrow> error + (string \<times> 't \<times> int) list" where
  "write_scalars T loss_entropy loss_prior loss_recons z_mu z_sigma it =
     bindE (torch_mean T z_mu) (\<lambda>z_mean.
     bindE (torch_abs T z_mu) (\<lambda>a.
     bindE (torch_max T a) (\<lambda>z_mag.
     bindE (torch_scale T 0.5 z_sigma) (\<lambda>h.
     bindE (torch_exp T h) (\<lambda>h.
     bindE (torch_mean T h) (\<lambda>z_var.
       Inr [(''train/loss_entropy'', loss_entropy, it),
            (''train/loss_prior'', loss_prior, it),
            (''train/loss_recons'', loss_recons, it),
            (''train/z_mean'', z_mean, it),
            (''train/z_mag'', z_mag, it),
            (''train/z_var'', z_var, it)]))))))"

text \<open>
  \<^verbatim>\<open>get_loss(self, x, view_angle, yaw, kl_weight, writer=None, it=None)\<close>. The first
  line, \<^verbatim>\<open>batch_size, _, _ = x.size()\<close>, raises \<^verbatim>\<open>ValueError\<close> unless \<^verbatim>\<open>x\<close>
  has three dimensions. \<open>writer\<close> tells whether a writer is given.
\<close>

definition get_loss ::
  "'t torch \<Rightarrow> 't net \<Rightarrow> 't \<Rightarrow> 't \<Rightarrow> 't \<Rightarrow> real \<Rightarrow> bool \<Rightarrow> int
     \<Rightarrow> error + ('t \<times> (string \<times> 't \<times> int) list)" where
  "get_loss T M x view_angle yaw kl_weight writer it =
     (case torch_size T x of
        [batch_size, n, d] \<Rightarrow>
          bindE (encoder M x) (\<lambda>(z_mu, z_sigma).
          bindE (reparameterize_gaussian M z_mu z_sigma) (\<lambda>z.
          bindE (conditioning T M z view_angle yaw) (\<lambda>z.
          bindE (gaussian_entropy M z_sigma) (\<lambda>entropy.
          bindE (torch_zeros_to T [batch_size, 1] z) (\<lambda>logpz0.
          bindE (flow M z logpz0) (\<lambda>(w, delta_log_pw).
          bindE (standard_normal_logprob M w) (\<lambda>lp.
          bindE (torch_view T lp [int batch_size, - 1]) (\<lambda>lp.
          bindE (torch_sum T lp 1 True) (\<lambda>log_pw.
          bindE (torch_view T delta_log_pw [int batch_size, 1]) (\<lambda>dlp.
          bindE (torch_sub T log_pw dlp) (\<lambda>log_pz.
          bindE (diffusion_get_loss M x z) (\<lambda>neg_elbo.
          bindE (torch_mean T entropy) (\<lambda>m.
          bindE (torch_neg T m) (\<lambda>loss_entropy.
          bindE (torch_mean T log_pz) (\<lambda>m.
          bindE (torch_neg T m) (\<lambda>loss_prior.
          bindE (torch_add T loss_entropy loss_prior) (\<lambda>s.
          bindE (torch_scale T kl_weight s) (\<lambda>s.
          bindE (torch_add T s neg_elbo) (\<lambda>loss.
          bindE (if writer
                 then write_scalars T loss_entropy loss_prior neg_elbo z_mu z_sigma it
                 else Inr []) (\<lambda>written.
            Inr (loss, written)))))))))))))))))))))
      | _ \<Rightarrow> Inl (ValueError ''batch_size, _, _ = x.size()''))"

text \<open>
  \<^verbatim>\<open>sample(self, w, view_angle, yaw, num_points, flexibility, truncate_std=None)\<close>.
\<close>

definition sample ::
  "'t torch \<Rightarrow> 't net \<Rightarrow> 't \<Rightarrow> 't \<Rightarrow> 't \<Rightarrow> nat \<Rightarrow> real \<Rightarrow> real option \<Rightarrow> error + 't" where
  "sample T M w view_angle yaw num_points flexibility truncate_std =
     (case torch_size T w of
        [batch_size, d] \<Rightarrow>
          bindE (case truncate_std of
                   None \<Rightarrow> Inr w
                 | Some ts \<Rightarrow> truncated_normal' M w 0 1 ts) (\<lambda>w.
          bindE (flow_reverse M w) (\<lambda>z.
          bindE (torch_view T z [int batch_size, - 1]) (\<lambda>z.
          bindE (conditioning T M z view_angle yaw) (\<lambda>z.
            diffusion_sample M num_points z flexibility))))
      | _ \<Rightarrow> Inl (ValueError ''batch_size, _ = w.size()''))"

definition forward ::
  "'t torch \<Rightarrow> 't net \<Rightarrow> 't \<Rightarrow> 't \<Rightarrow> 't \<Rightarrow> real \<Rightarrow> bool \<Rightarrow> int
     \<Rightarrow> error + ('t \<times> (string \<times> 't \<times> int) list)" where
  "forward T M x view_angle yaw kl_weight writer it =
     get_loss T M x view_angle yaw kl_weight writer it"

subsection \<open>\<^verbatim>\<open>load_partial_state_dict\<close>\<close>

text \<open>
  The state of a module is the list of its parameters and persistent buffers under their
  dotted names, in the order in which the module and its children are visited; each name
  occurs once. A tensor is its shape and its numbers, row by row. An incoming mapping is a
  dictionary from names to values, which need not be tensors. (A key that is not a string
  names nothing in the module and is treated like any other unknown key.) Tensors are
  values here: every name of the module has its own storage, which no incoming tensor
  shares, and a copy between tensors of one shape succeeds.
\<close>

datatype 'a tensor_data = TensorData (td_shape: "nat list") (td_elems: "'a list")

datatype 'a incoming = IsTensor "'a tensor_data" | NotTensor

type_synonym 'a module_state = "(string \<times> 'a tensor_data) list"

type_synonym 'a state_mapping = "(string, 'a incoming) fmap"

text \<open>
  \<^verbatim>\<open>t[0]\<close> on a tensor: the first slice along the first axis, \<^verbatim>\<open>IndexError\<close> when the
  tensor has no axis or the axis has length 0.
\<close>

definition getitem0 :: "'a tensor_data \<Rightarrow> error + 'a tensor_data" where
  "getitem0 t =
     (case td_shape t of
        [] \<Rightarrow> Inl IndexError
      | n # rest \<Rightarrow>
          if n = 0 then Inl IndexError
          else Inr (TensorData rest (take (prod_list rest) (td_elems t))))"

text \<open>
  The messages the library collects while loading; it raises \<^verbatim>\<open>RuntimeError\<close> with
  them when there is at least one. An exception of another kind passes through as it is.
\<close>

datatype complaint =
    Missing_keys "string list"
  | Unexpected_keys "string fset"
  | Not_a_tensor string
  | Size_mismatch string

datatype raised = Raised_RuntimeError "complaint list" | Raised error

text \<open>
  The body of the loop of the library's \<^verbatim>\<open>Module._load_from_state_dict\<close> for one name
  \<^verbatim>\<open>key\<close> with the module's tensor \<^verbatim>\<open>param\<close>. A name the mapping does not have is
  noted as missing. A value that is not a tensor is a complaint. A 1-dimensional tensor
  that comes in for a 0-dimensional one is replaced by its element 0
  (\<^verbatim>\<open>input_param = input_param[0]\<close>, outside any \<^verbatim>\<open>try\<close>). A tensor of another shape
  than the module's is a complaint. Otherwise \<^verbatim>\<open>param.copy_(input_param)\<close> gives the
  module's tensor the incoming numbers (converted to the module's number type, which
  the model does not show). The result is the module's tensor after the
  step, the complaints and the missing names of the step.
\<close>

definition backward_compatible :: "'a tensor_data \<Rightarrow> 'a tensor_data \<Rightarrow> error + 'a tensor_data" where
  "backward_compatible param input_param =
     (if length (td_shape param) = 0 \<and> length (td_shape input_param) = 1
      then getitem0 input_param else Inr input_param)"

definition load_param ::
  "'a state_mapping \<Rightarrow> string \<Rightarrow> 'a tensor_data
     \<Rightarrow> error + ('a tensor_data \<times> complaint list \<times> string list)" where
  "load_param state_dict key param =
     (case fmlookup state_dict key of
        None \<Rightarrow> Inr (param, [], [key])
      | Some NotTensor \<Rightarrow> Inr (param, [Not_a_tensor key], [])
      | Some (IsTensor input_param) \<Rightarrow>
          bindE (backward_compatible param input_param) (\<lambda>input_param.
            if td_shape input_param \<noteq> td_shape param
            then Inr (param, [Size_mismatch key], [])
            else Inr (input_param, [], [])))"

text \<open>
  The loop over the names of the module. An exception ends it and leaves the later
  tensors as they were; the earlier ones have been loaded.
\<close>

fun load_from_state_dict ::
  "'a state_mapping \<Rightarrow> 'a module_state
     \<Rightarrow> 'a module_state \<times> (error + complaint list \<times> string list)" where
  "load_from_state_dict state_dict [] = ([], Inr ([], []))"
| "load_from_state_dict state_dict ((key, param) # rest) =
     (case load_param state_dict key param of
        Inl e \<Rightarrow> ((key, param) # rest, Inl e)
      | Inr (param', error_msgs, missing_keys) \<Rightarrow>
          (case load_from_state_dict state_dict rest of
             (rest', r) \<Rightarrow>
               ((key, param') # rest',
                bindE r (\<lambda>(error_msgs', missing_keys').
                  Inr (error_msgs @ error_msgs', missing_keys @ missing_keys')))))"

text \<open>
  \<^verbatim>\<open>Module.load_state_dict(state_dict, strict)\<close>: the loop, then, when \<^verbatim>\<open>strict\<close> is
  true, a message for the unexpected names and one for the missing names are put before
  the others; \<^verbatim>\<open>RuntimeError\<close> is raised when there is a message, and the missing and
  unexpected names are returned otherwise. The result is paired with the state of the
  module after the call. (The batch-norm layers add a default for their
  \<^verbatim>\<open>num_batches_tracked\<close> to a mapping that has neither the name nor the version of the
  layer; the mapping built from \<^verbatim>\<open>self.state_dict()\<close> has both.)
\<close>

definition load_state_dict ::
  "'a module_state \<Rightarrow> 'a state_mapping \<Rightarrow> bool
     \<Rightarrow> 'a module_state \<times> (raised + string list \<times> string fset)" where
  "load_state_dict own state_dict strict =
     (case load_from_state_dict state_dict own of
        (own', Inl e) \<Rightarrow> (own', Inl (Raised e))
      | (own', Inr (error_msgs, missing_keys)) \<Rightarrow>
          let unexpected_keys = fmdom state_dict |-| fset_of_list (map fst own);
              error_msgs =
                (if strict \<and> missing_keys \<noteq> [] then [Missing_keys missing_keys] else []) @
                (if strict \<and> unexpected_keys \<noteq> {||} then [Unexpected_keys unexpected_keys]
                 else []) @
                error_msgs
          in (own', if error_msgs \<noteq> [] then Inl (Raised_RuntimeError error_msgs)
                    else Inr (missing_keys, unexpected_keys)))"

text \<open>
  \<^verbatim>\<open>load_partial_state_dict(self, state_dict)\<close>. \<^verbatim>\<open>self.state_dict()\<close> is the mapping
  of the module's names to its tensors; the comprehension keeps the incoming items whose
  key is in it; \<^verbatim>\<open>update\<close> overwrites with them (\<open>updated_state_dict\<close> is the mapping
  after line 40); the result is loaded with \<^verbatim>\<open>strict=False\<close>, and what the library
  returns is dropped.
\<close>

definition state_dict_of :: "'a module_state \<Rightarrow> 'a state_mapping" where
  "state_dict_of own = fmap_of_list (map (\<lambda>(k, p). (k, IsTensor p)) own)"

definition updated_state_dict :: "'a module_state \<Rightarrow> 'a state_mapping \<Rightarrow> 'a state_mapping" where
  "updated_state_dict own state_dict =
     (let model_state_dict = state_dict_of own;
          filtered_state_dict = fmfilter (\<lambda>k. k |\<in>| fmdom model_state_dict) state_dict
      in model_state_dict ++\<^sub>f filtered_state_dict)"

definition load_partial_state_dict ::
  "'a module_state \<Rightarrow> 'a state_mapping \<Rightarrow> 'a module_state \<times> (raised + unit)" where
  "load_partial_state_dict own state_dict =
     (case load_state_dict own (updated_state_dict own state_dict) False of
        (own', Inl e) \<Rightarrow> (own', Inl e)
      | (own', Inr _) \<Rightarrow> (own', Inr ()))"


subsection \<open>Tensors read by their shapes\<close>


text \<open>
  For concrete inputs, tensors are read by their shapes, and the library operations and
  layers by what their documentation says of shapes: the result shape, or the exception
  on a shape they do not accept.
\<close>

type_synonym shape = "nat list"

definition cat_shape :: "shape list \<Rightarrow> nat \<Rightarrow> error + shape" where
  "cat_shape ts axis =
     (case ts of
        [] \<Rightarrow> Inl (RuntimeError ''torch.cat(): expected a non-empty list of Tensors'')
      | t # rest \<Rightarrow>
          if axis < length t \<and> list_all (\<lambda>s. length s = length t \<and> s[axis := 0] = t[axis := 0]) rest
          then Inr (t[axis := sum_list (map (\<lambda>s. s ! axis) ts)])
          else Inl (RuntimeError ''Sizes of tensors must match except in the given dimension''))"

definition unsqueeze_shape :: "shape \<Rightarrow> nat \<Rightarrow> error + shape" where
  "unsqueeze_shape s axis =
     (if axis \<le> length s then Inr (take axis s @ [1] @ drop axis s) else Inl IndexError)"

definition squeeze_shape :: "shape \<Rightarrow> nat \<Rightarrow> error + shape" where
  "squeeze_shape s axis =
     (if axis < length s
      then Inr (if s ! axis = 1 then take axis s @ drop (Suc axis) s else s)
      else Inl IndexError)"

definition view_shape :: "shape \<Rightarrow> int list \<Rightarrow> error + shape" where
  "view_shape s dims =
     (let numel = prod_list s;
          known = prod_list (map nat (filter (\<lambda>d. d \<noteq> - 1) dims));
          holes = length (filter (\<lambda>d. d = - 1) dims)
      in if list_ex (\<lambda>d. d < - 1) dims then Inl (RuntimeError ''invalid shape dimension'')
         else if holes = 0 \<and> known = numel then Inr (map nat dims)
         else if holes = 1 \<and> known \<noteq> 0 \<and> numel mod known = 0
           then Inr (map (\<lambda>d. if d = - 1 then numel div known else nat d) dims)
         else Inl (RuntimeError ''shape is invalid for input''))"

definition sum_shape :: "shape \<Rightarrow> nat \<Rightarrow> bool \<Rightarrow> error + shape" where
  "sum_shape s axis keepdim =
     (if axis < length s
      then Inr (if keepdim then s[axis := 1] else take axis s @ drop (Suc axis) s)
      else Inl IndexError)"

text \<open>
  Broadcasting of two shapes, from the last dimension on.
\<close>

fun broadcast_rev :: "shape \<Rightarrow> shape \<Rightarrow> error + shape" where
  "broadcast_rev [] ys = Inr ys"
| "broadcast_rev (x # xs) [] = Inr (x # xs)"
| "broadcast_rev (x # xs) (y # ys) =
     (if x = y \<or> y = 1 then bindE (broadcast_rev xs ys) (\<lambda>r. Inr (x # r))
      else if x = 1 then bindE (broadcast_rev xs ys) (\<lambda>r. Inr (y # r))
      else Inl (RuntimeError ''The size of tensor a must match the size of tensor b''))"

definition broadcast_shape :: "shape \<Rightarrow> shape \<Rightarrow> error + shape" where
  "broadcast_shape a b = bindE (broadcast_rev (rev a) (rev b)) (\<lambda>r. Inr (rev r))"

definition shape_torch :: "shape torch" where
  "shape_torch =
     \<lparr>torch_size = (\<lambda>s. s),
      torch_cat = cat_shape,
      torch_unsqueeze = unsqueeze_shape,
      torch_squeeze = squeeze_shape,
      torch_zeros_to = (\<lambda>s z. Inr s),
      torch_view = view_shape,
      torch_sum = sum_shape,
      torch_mean = (\<lambda>s. Inr []),
      torch_neg = Inr,
      torch_add = broadcast_shape,
      torch_sub = broadcast_shape,
      torch_scale = (\<lambda>c s. Inr s),
      torch_abs = Inr,
      torch_max = (\<lambda>s. Inr []),
      torch_exp = Inr\<rparr>"

text \<open>
  \<^verbatim>\<open>nn.Linear(in_features, out_features)\<close>, \<^verbatim>\<open>nn.BatchNorm1d(num_features)\<close> (in
  training mode it refuses a single value per channel) and
  \<^verbatim>\<open>nn.MultiheadAttention(embed_dim, 2)\<close> with the default \<^verbatim>\<open>batch_first=False\<close>:
  the query has the shape \<open>(L, N, E)\<close>, key and value \<open>(S, N, E)\<close>, for sequence lengths
  \<open>L\<close> and \<open>S\<close> and batch size \<open>N\<close>; the output has the shape \<open>(L, N, E)\<close> and the
  attention weights \<open>(N, L, S)\<close>.
\<close>

definition Linear_shape :: "nat \<Rightarrow> nat \<Rightarrow> shape \<Rightarrow> error + shape" where
  "Linear_shape in_features out_features s =
     (if s \<noteq> [] \<and> last s = in_features then Inr (butlast s @ [out_features])
      else Inl (RuntimeError ''mat1 and mat2 shapes cannot be multiplied''))"

definition BatchNorm1d_shape :: "nat \<Rightarrow> bool \<Rightarrow> shape \<Rightarrow> error + shape" where
  "BatchNorm1d_shape num_features training s =
     (if length s \<noteq> 2 \<and> length s \<noteq> 3 then Inl (ValueError ''expected 2D or 3D input'')
      else if s ! 1 \<noteq> num_features then Inl (RuntimeError ''running_mean should contain num_features elements'')
      else if training \<and> prod_list s div num_features \<le> 1
        then Inl (ValueError ''Expected more than 1 value per channel when training'')
      else Inr s)"

definition MultiheadAttention_shape :: "nat \<Rightarrow> shape \<Rightarrow> shape \<Rightarrow> shape \<Rightarrow> error + (shape \<times> shape)" where
  "MultiheadAttention_shape embed_dim query key val =
     (if length query = 3 \<and> length key = 3 \<and> length val = 3
         \<and> query ! 2 = embed_dim \<and> key ! 2 = embed_dim \<and> val ! 2 = embed_dim
         \<and> key ! 1 = query ! 1 \<and> val ! 1 = query ! 1 \<and> val ! 0 = key ! 0
      then Inr ([query ! 0, query ! 1, embed_dim], [query ! 1, query ! 0, key ! 0])
      else Inl AssertionError)"

text \<open>
  The sub-modules as \<^verbatim>\<open>__init__\<close> sizes them from \<^verbatim>\<open>args.latent_dim\<close>:
  \<^verbatim>\<open>nn.Linear(latent_dim + 2, int(latent_dim / 2))\<close>,
  \<^verbatim>\<open>nn.BatchNorm1d(int(latent_dim / 2))\<close>,
  \<^verbatim>\<open>nn.Linear(int(latent_dim / 2), latent_dim)\<close>, \<^verbatim>\<open>nn.BatchNorm1d(latent_dim)\<close>,
  \<^verbatim>\<open>nn.MultiheadAttention(latent_dim, 2)\<close>; the encoder maps \<open>(B, N, 3)\<close> to two
  tensors \<open>(B, latent_dim)\<close>, the flow keeps shapes, the decoder's loss is a scalar and
  its sample has the shape \<open>(B, num_points, 3)\<close>. The record is the module for an even
  \<open>latent_dim\<close>: \<^verbatim>\<open>nn.MultiheadAttention\<close> refuses to be built with an embedding
  dimension that its two heads do not divide.
\<close>

definition shape_net :: "nat \<Rightarrow> bool \<Rightarrow> shape net" where
  "shape_net latent_dim training =
     \<lparr>encoder = (\<lambda>x. if length x = 3 \<and> x ! 2 = 3 then Inr ([x ! 0, latent_dim], [x ! 0, latent_dim])
                     else Inl (RuntimeError ''the encoder expects (B, N, 3)'')),
      FC1 = Linear_shape (latent_dim + 2) (latent_dim div 2),
      BN1 = BatchNorm1d_shape (latent_dim div 2) training,
      FC2 = Linear_shape (latent_dim div 2) latent_dim,
      BN2 = BatchNorm1d_shape latent_dim training,
      MHSA = MultiheadAttention_shape latent_dim,
      flow = (\<lambda>z logpz0. Inr (z, logpz0)),
      flow_reverse = Inr,
      diffusion_get_loss = (\<lambda>x context. Inr []),
      diffusion_sample = (\<lambda>num_points context flexibility.
                            if length context = 2 then Inr [context ! 0, num_points, 3]
                            else Inl (RuntimeError ''the decoder expects a (B, F) context'')),
      reparameterize_gaussian = (\<lambda>mean logvar. Inr mean),
      gaussian_entropy = (\<lambda>logvar. Inr (butlast logvar)),
      standard_normal_logprob = Inr,
      truncated_normal' = (\<lambda>w mean std trunc_std. Inr w)\<rparr>"


text \<open>
  A module with two parameters and the counter of a batch-norm layer, which has no axis,
  and an incoming mapping with one of the parameters, with other numbers, a name the
  module does not know, and two numbers for the counter.
\<close>

definition own_example :: "int module_state" where
  "own_example =
     [(''FC1.weight'', TensorData [2] [1, 1]),
      (''FC1.bias'', TensorData [1] [0]),
      (''BN1.num_batches_tracked'', TensorData [] [0])]"

definition incoming_example :: "int state_mapping" where
  "incoming_example =
     fmap_of_list
       [(''FC1.weight'', IsTensor (TensorData [2] [5, 7])),
        (''extra.key'', IsTensor (TensorData [1] [9])),
        (''BN1.num_batches_tracked'', IsTensor (TensorData [2] [3, 4]))]"

text \<open>
  Two more incoming mappings: one with three numbers for the weight of two, one with an
  empty tensor for the counter.
\<close>

definition mismatch_example :: "int state_mapping" where
  "mismatch_example =
     fmap_of_list
       [(''FC1.weight'', IsTensor (TensorData [3] [5, 7, 8])),
        (''FC1.bias'', IsTensor (TensorData [1] [6]))]"

definition empty_example :: "int state_mapping" where
  "empty_example =
     fmap_of_list
       [(''FC1.weight'', IsTensor (TensorData [2] [5, 7])),
        (''BN1.num_batches_tracked'', IsTensor (TensorData [0] []))]"


section \<open>Lemmas on sequencing\<close>


lemma bindE_Inl [simp]: "bindE (Inl e) f = Inl e"
  by (simp add: bindE_def)

lemma bindE_Inr [simp]: "bindE (Inr v) f = f v"
  by (simp add: bindE_def)

lemma bindE_eq_Inr: "bindE m f = Inr r \<longleftrightarrow> (\<exists>v. m = Inr v \<and> f v = Inr r)"
  by (cases m) auto

lemma bindE_eq_Inl: "bindE m f = Inl e \<longleftrightarrow> m = Inl e \<or> (\<exists>v. m = Inr v \<and> f v = Inl e)"
  by (cases m) auto

lemma getitem_dict_Inr: "getitem_dict d k = Inr v \<longleftrightarrow> d k = Some v"
  by (simp add: getitem_dict_def split: option.splits)

lemma mapE_Inr: "mapE f xs = Inr ys \<longleftrightarrow> list_all2 (\<lambda>x y. f x = Inr y) xs ys"
proof (induction xs arbitrary: ys)
  case Nil
  then show ?case by auto
next
  case (Cons x xs)
  show ?case
    by (cases ys) (auto simp: bindE_eq_Inr Cons.IH)
qed

lemma mapE_Inl: "mapE f xs = Inl e \<Longrightarrow> \<exists>x \<in> set xs. f x = Inl e"
  by (induction xs) (auto simp: bindE_eq_Inl)

section \<open>Properties of the dataset layer\<close>

subsection \<open>The shuffle\<close>

lemma shuffle_loop_mset: "shuffle_loop R i g xs = Inr ys \<Longrightarrow> mset ys = mset xs"
proof (induction i arbitrary: g xs)
  case 0
  then show ?case by simp
next
  case (Suc i)
  obtain j g' where r: "randbelow R g (Suc i + 1) = (j, g')"
    by (cases "randbelow R g (Suc i + 1)")
  from Suc.prems r have b: "Suc i < length xs" "j < length xs"
    and rec: "shuffle_loop R i g' (xs[Suc i := xs ! j, j := xs ! Suc i]) = Inr ys"
    by (auto split: if_splits)
  from Suc.IH [OF rec] b show ?case
    by (simp add: mset_swap)
qed

lemma shuffle_mset: "shuffle R g xs = Inr ys \<Longrightarrow> mset ys = mset xs"
  unfolding shuffle_def by (rule shuffle_loop_mset)

lemma shuffle_loop_map:
  "shuffle_loop R i g (map f xs) = map_sum id (map f) (shuffle_loop R i g xs)"
proof (induction i arbitrary: g xs)
  case 0
  then show ?case by simp
next
  case (Suc i)
  obtain j g' where r: "randbelow R g (Suc i + 1) = (j, g')"
    by (cases "randbelow R g (Suc i + 1)")
  show ?case
  proof (cases "Suc i < length xs \<and> j < length xs")
    case True
    then have "(map f xs)[Suc i := map f xs ! j, j := map f xs ! Suc i]
      = map f (xs[Suc i := xs ! j, j := xs ! Suc i])"
      by (simp add: map_update)
    with True r Suc.IH [of g' "xs[Suc i := xs ! j, j := xs ! Suc i]"] show ?thesis
      by simp
  next
    case False
    with r show ?thesis by auto
  qed
qed

lemma shuffle_map: "shuffle R g (map f xs) = map_sum id (map f) (shuffle R g xs)"
  unfolding shuffle_def by (simp add: shuffle_loop_map)

lemma shuffle_by_positions:
  "shuffle R g xs = map_sum id (map ((!) xs)) (shuffle R g [0..<length xs])"
  using shuffle_map [of R g "(!) xs" "[0..<length xs]"] by (simp add: map_nth)

lemma shuffle_loop_total:
  assumes "\<And>g n. 0 < n \<Longrightarrow> fst (randbelow R g n) < n"
  shows "i < length xs \<or> i = 0 \<Longrightarrow> \<exists>ys. shuffle_loop R i g xs = Inr ys"
proof (induction i arbitrary: g xs)
  case 0
  then show ?case by simp
next
  case (Suc i)
  obtain j g' where r: "randbelow R g (Suc i + 1) = (j, g')"
    by (cases "randbelow R g (Suc i + 1)")
  from assms [of "Suc i + 1" g] r have "j < Suc i + 1" by simp
  with Suc.prems have b: "Suc i < length xs" "j < length xs" by auto
  then have "i < length (xs[Suc i := xs ! j, j := xs ! Suc i])" by simp
  from Suc.IH [of "xs[Suc i := xs ! j, j := xs ! Suc i]" g'] this r b show ?case
    by simp
qed

lemma shuffle_total:
  assumes "\<And>g n. 0 < n \<Longrightarrow> fst (randbelow R g n) < n"
  shows "\<exists>ys. shuffle R g xs = Inr ys"
  unfolding shuffle_def
  using shuffle_loop_total [OF assms, of "length xs - 1" xs g] by (cases xs) auto

subsection \<open>Angles\<close>

lemma py_mod_range: "0 < y \<Longrightarrow> 0 \<le> py_mod x y \<and> py_mod x y < y"
  using floor_divide_lower [of y x] floor_divide_upper [of y x]
  by (simp add: py_mod_def algebra_simps)

lemma normalize_angle_range: "- pi \<le> normalize_angle a \<and> normalize_angle a < pi"
  using py_mod_range [of "2 * pi" "a + pi"] by (simp add: normalize_angle_def)

lemma normalize_angle_over_pi: "- 1 \<le> normalize_angle a / pi \<and> normalize_angle a / pi < 1"
  using normalize_angle_range [of a] by (simp add: pos_le_divide_eq pos_divide_less_eq)


subsection \<open>Sorting, then shuffling\<close>


lemma sort_and_shuffle_Inr:
  assumes "sort_and_shuffle R es = Inr ys"
  shows "\<exists>p. seeded_order R (length es) = Inr p \<and> mset p = mset [0..<length es]
           \<and> ys = map ((!) (sort_key entry_id es)) p"
proof -
  let ?S = "sort_key entry_id es"
  have "shuffle R (seed_rng R 2020) ?S
        = map_sum id (map ((!) ?S)) (shuffle R (seed_rng R 2020) [0..<length ?S])"
    by (rule shuffle_by_positions)
  with assms obtain p where p: "shuffle R (seed_rng R 2020) [0..<length es] = Inr p"
    and ys: "ys = map ((!) ?S) p"
    by (cases "shuffle R (seed_rng R 2020) [0..<length es]") (auto simp: sort_and_shuffle_def)
  from shuffle_mset [OF p] p ys show ?thesis
    by (auto simp: seeded_order_def)
qed

lemma sort_and_shuffle_set:
  "sort_and_shuffle R es = Inr ys \<Longrightarrow> set ys = set es"
  unfolding sort_and_shuffle_def
  by (drule shuffle_mset) (metis mset_sort set_mset_mset)

lemma sort_and_shuffle_total:
  assumes "\<And>g n. 0 < n \<Longrightarrow> fst (randbelow R g n) < n"
  shows "\<exists>ys. sort_and_shuffle R es = Inr ys"
  unfolding sort_and_shuffle_def by (rule shuffle_total [OF assms])

subsection \<open>Entries and construction of \<^verbatim>\<open>PandaSet\<close>\<close>

lemma panda_entry_Inr:
  assumes "panda_entry sm st cls k ob = Inr e"
  shows "map_of e ''id'' = Some (FInt k)"
    and "map_of e ''view_angle'' = Some (FTensor (Scal (box_view_angle (obj_box ob) / pi)))"
    and "map_of e ''yaw'' = Some (FTensor (Scal (normalize_angle (box_yaw (obj_box ob) - pi / 2) / pi)))"
  using assms by (auto simp: panda_entry_def Let_def bindE_eq_Inr)

lemma panda_entries_Inr:
  "panda_entries sm st cls k obs = Inr es \<Longrightarrow>
     length es = length obs \<and> (\<forall>i < length obs. panda_entry sm st cls (k + i) (obs ! i) = Inr (es ! i))"
proof (induction obs arbitrary: k es)
  case Nil
  then show ?case by simp
next
  case (Cons ob obs)
  from Cons.prems obtain e es' where e: "panda_entry sm st cls k ob = Inr e"
    and r: "panda_entries sm st cls (Suc k) obs = Inr es'" and es: "es = e # es'"
    by (auto simp: bindE_eq_Inr)
  from Cons.IH [OF r] have len: "length es' = length obs"
    and nth: "\<And>i. i < length obs \<Longrightarrow> panda_entry sm st cls (Suc k + i) (obs ! i) = Inr (es' ! i)"
    by auto
  show ?case
  proof (intro conjI allI impI)
    show "length es = length (ob # obs)" using len es by simp
  next
    fix i assume "i < length (ob # obs)"
    then show "panda_entry sm st cls (k + i) ((ob # obs) ! i) = Inr (es ! i)"
      using e nth [of "i - 1"] es by (cases i) auto
  qed
qed

lemma panda_entries_ids:
  assumes "panda_entries sm st cls k obs = Inr es"
  shows "map entry_id es = [k..<k + length obs]"
proof (rule nth_equalityI)
  from panda_entries_Inr [OF assms] show "length (map entry_id es) = length [k..<k + length obs]"
    by simp
next
  fix i assume "i < length (map entry_id es)"
  with panda_entries_Inr [OF assms] have i: "i < length obs"
    and "panda_entry sm st cls (k + i) (obs ! i) = Inr (es ! i)" by auto
  from panda_entry_Inr(1) [OF this(2)] i panda_entries_Inr [OF assms]
  show "map entry_id es ! i = [k..<k + length obs] ! i"
    by (simp add: entry_id_def)
qed

lemma panda_entries_sorted:
  assumes "panda_entries sm st cls k obs = Inr es"
  shows "sort_key entry_id es = es"
  by (rule sort_key_id_if_sorted) (simp add: panda_entries_ids [OF assms])

lemma not_isl_Inr: "\<not> isl x \<Longrightarrow> \<exists>r. x = Inr r"
  by (cases x) auto

lemma shift_scale_total:
  "sm \<noteq> Some ''shape_bbox'' \<Longrightarrow> \<exists>r. shift_scale sm s pc = Inr r"
  by (rule not_isl_Inr) (simp add: shift_scale_def)

lemma panda_entries_total:
  "sm \<noteq> Some ''shape_bbox'' \<Longrightarrow> \<exists>es. panda_entries sm st cls k obs = Inr es"
proof (induction obs arbitrary: k)
  case Nil
  then show ?case by simp
next
  case (Cons ob obs)
  from shift_scale_total [OF Cons.prems, of "st_std st" "map (\<lambda>p. vsub p (box_position (obj_box ob))) (obj_points ob)"]
  obtain e where "panda_entry sm st cls k ob = Inr e"
    by (auto simp: panda_entry_def Let_def)
  with Cons.IH [OF Cons.prems, of "Suc k"] show ?case by auto
qed

lemma mapE_total: "(\<And>x. x \<in> set xs \<Longrightarrow> \<exists>y. f x = Inr y) \<Longrightarrow> \<exists>ys. mapE f xs = Inr ys"
proof (induction xs)
  case Nil
  then show ?case by simp
next
  case (Cons x xs)
  then obtain y ys where "f x = Inr y" "mapE f xs = Inr ys" by (meson list.set_intros)
  then show ?case by simp
qed

lemma mapE_length: "mapE f xs = Inr ys \<Longrightarrow> length ys = length xs"
  by (simp add: mapE_Inr list_all2_lengthD)

lemma panda_objs_3:
  "data cls = Some d \<Longrightarrow> d ''train'' = Some a \<Longrightarrow> d ''val'' = Some b \<Longrightarrow> d ''test'' = Some c \<Longrightarrow>
   panda_objs data cls [''train'', ''val'', ''test''] = Inr (a @ b @ c)"
  by (simp add: getitem_dict_def)

lemma PandaSet_get_statistics_total:
  assumes "data cls = Some d" "d ''train'' = Some a" "d ''val'' = Some b" "d ''test'' = Some c"
    and "a @ b @ c \<noteq> []"
  shows "\<exists>stats. PandaSet_get_statistics data cls = Inr stats"
proof -
  obtain pcs where pcs: "mapE (\<lambda>ob. normalize_point_cloud (obj_points ob) ''shape_unit'') (a @ b @ c) = Inr pcs"
    using mapE_total [of "a @ b @ c" "\<lambda>ob. normalize_point_cloud (obj_points ob) ''shape_unit''"]
    by (auto simp: normalize_point_cloud_def)
  from mapE_length [OF pcs] assms(5) have "pcs \<noteq> []" by auto
  with pcs assms show ?thesis
    unfolding PandaSet_get_statistics_def
    by (simp add: panda_objs_3 cat0_def del: panda_objs.simps)
qed

lemma PandaSet_init_total:
  assumes "split_ok split" "scale_mode_ok sm" "sm \<noteq> Some ''shape_bbox''"
    and "data cls = Some d" "d ''train'' = Some a" "d ''val'' = Some b" "d ''test'' = Some c"
    and "a @ b @ c \<noteq> []"
    and "\<And>g n. 0 < n \<Longrightarrow> fst (randbelow R g n) < n"
  shows "\<exists>ds. PandaSet_init R data cls split sm isz = Inr ds"
proof -
  from PandaSet_get_statistics_total [of data cls d a b c] assms(4-8)
  obtain stats where st: "PandaSet_get_statistics data cls = Inr stats" by blast
  from assms(1) assms(5-7) obtain objs where objs: "d split = Some objs"
    by (auto simp: split_ok_def)
  from panda_entries_total [OF assms(3)] obtain es
    where es: "panda_entries sm stats cls 0 objs = Inr es" by blast
  from sort_and_shuffle_total [OF assms(9)] obtain ys
    where "sort_and_shuffle R es = Inr ys" by blast
  with st objs es assms(1,2,4) show ?thesis
    by (simp add: PandaSet_init_def PandaSet_load_def getitem_dict_def)
qed

lemma PandaSet_init_Inr:
  assumes "PandaSet_init R data cls split sm isz = Inr ds"
  shows "\<exists>d objs es. split_ok split \<and> scale_mode_ok sm \<and> data cls = Some d \<and> d split = Some objs
           \<and> PandaSet_get_statistics data cls = Inr (ps_stats ds)
           \<and> panda_entries sm (ps_stats ds) cls 0 objs = Inr es
           \<and> sort_and_shuffle R es = Inr (ps_pointclouds ds)"
  using assms
  by (auto simp: PandaSet_init_def PandaSet_load_def bindE_eq_Inr getitem_dict_Inr
           split: if_splits)


subsection \<open>The poses a \<^verbatim>\<open>PandaSet\<close> serves\<close>

lemma counter_rng_below: "0 < n \<Longrightarrow> fst (randbelow counter_rng g n) < n"
  by (simp add: counter_rng_def)

lemma PandaSet_entry_of_obj:
  assumes "PandaSet_init R data cls split sm isz = Inr ds" and "e \<in> set (ps_pointclouds ds)"
  shows "\<exists>d objs ob k. data cls = Some d \<and> d split = Some objs \<and> ob \<in> set objs
           \<and> panda_entry sm (ps_stats ds) cls k ob = Inr e"
proof -
  from PandaSet_init_Inr [OF assms(1)] obtain d objs es
    where d: "data cls = Some d" "d split = Some objs"
      and es: "panda_entries sm (ps_stats ds) cls 0 objs = Inr es"
      and sh: "sort_and_shuffle R es = Inr (ps_pointclouds ds)" by blast
  from sort_and_shuffle_set [OF sh] assms(2) have "e \<in> set es" by simp
  then obtain i where i: "i < length es" "es ! i = e" by (auto simp: in_set_conv_nth)
  with panda_entries_Inr [OF es] have "i < length objs"
    "panda_entry sm (ps_stats ds) cls (0 + i) (objs ! i) = Inr e" by auto
  with d show ?thesis by (metis nth_mem)
qed

text \<open>
  Claim C8, as amended. In every entry a constructed \<^verbatim>\<open>PandaSet\<close> stores (and
  \<^verbatim>\<open>__getitem__\<close> serves a copy of), \<^verbatim>\<open>'yaw'\<close> lies in \<open>[-1, 1)\<close>, whatever the
  raw yaw of the object in the file: the raw yaw is wrapped by \<^verbatim>\<open>normalize_angle\<close>
  before it is divided by \<open>\<pi>\<close>. \<^verbatim>\<open>'view_angle'\<close> is the raw view angle divided by
  \<open>\<pi>\<close> and nothing more: it lies in \<open>[-1, 1]\<close> exactly when the raw angle lies in
  \<open>[-\<pi>, \<pi>]\<close>.
\<close>

theorem PandaSet_pose_values:
  assumes "PandaSet_init R data cls split sm isz = Inr ds" and "e \<in> set (ps_pointclouds ds)"
  shows "\<exists>d objs ob y. data cls = Some d \<and> d split = Some objs \<and> ob \<in> set objs
           \<and> map_of e ''yaw'' = Some (FTensor (Scal y)) \<and> - 1 \<le> y \<and> y < 1
           \<and> map_of e ''view_angle'' = Some (FTensor (Scal (box_view_angle (obj_box ob) / pi)))
           \<and> ((- 1 \<le> box_view_angle (obj_box ob) / pi \<and> box_view_angle (obj_box ob) / pi \<le> 1)
                \<longleftrightarrow> (- pi \<le> box_view_angle (obj_box ob) \<and> box_view_angle (obj_box ob) \<le> pi))"
proof -
  from PandaSet_entry_of_obj [OF assms] obtain d objs ob k
    where d: "data cls = Some d" "d split = Some objs" "ob \<in> set objs"
      and e: "panda_entry sm (ps_stats ds) cls k ob = Inr e" by blast
  have "(- 1 \<le> box_view_angle (obj_box ob) / pi \<and> box_view_angle (obj_box ob) / pi \<le> 1)
        \<longleftrightarrow> (- pi \<le> box_view_angle (obj_box ob) \<and> box_view_angle (obj_box ob) \<le> pi)"
    by (simp add: pos_le_divide_eq pos_divide_le_eq)
  with d panda_entry_Inr(2,3) [OF e]
    normalize_angle_over_pi [of "box_yaw (obj_box ob) - pi / 2"]
  show ?thesis by blast
qed

text \<open>
  Claim C8 as stated fails: the file \<open>example_pkl\<close> has, in its split \<^verbatim>\<open>'val'\<close>, one
  object with the raw view angle \<open>3\<pi>\<close>, and the dataset built from it serves the view
  angle \<open>3\<close>, outside \<open>[-1, 1]\<close>.
\<close>

theorem PandaSet_view_angle_counterexample:
  "map_sum id served_view_angles (PandaSet_init counter_rng example_pkl ''Car'' ''val'' None 1024)
     = Inr [Some (FTensor (Scal 3))]"
  by (simp add: PandaSet_init_def split_ok_def scale_mode_ok_def PandaSet_get_statistics_def
      example_pkl_def getitem_dict_def normalize_point_cloud_def cat0_def PandaSet_load_def
      panda_entry_def shift_scale_def sort_and_shuffle_def shuffle_def served_view_angles_def
      turned_obj_def near_obj_def Let_def)

text \<open>The amended claim C8 at the split \<^verbatim>\<open>'train'\<close> of \<open>example_pkl\<close>.\<close>

theorem PandaSet_pose_values_witness:
  "\<exists>ds e. PandaSet_init counter_rng example_pkl ''Car'' ''train'' None 1024 = Inr ds
     \<and> e \<in> set (ps_pointclouds ds)
     \<and> (\<exists>y. map_of e ''yaw'' = Some (FTensor (Scal y)) \<and> - 1 \<le> y \<and> y < 1)
     \<and> map_of e ''view_angle'' = Some (FTensor (Scal (1 / 2)))"
proof -
  have "\<exists>ds. PandaSet_init counter_rng example_pkl ''Car'' ''train'' None 1024 = Inr ds"
    by (rule PandaSet_init_total [where d = "[''train'' \<mapsto> [near_obj], ''val'' \<mapsto> [turned_obj], ''test'' \<mapsto> []]"
          and a = "[near_obj]" and b = "[turned_obj]" and c = "[]"])
       (simp_all add: split_ok_def scale_mode_ok_def example_pkl_def counter_rng_below)
  then obtain ds where ds: "PandaSet_init counter_rng example_pkl ''Car'' ''train'' None 1024 = Inr ds" ..
  from PandaSet_init_Inr [OF ds] obtain es where
    es: "panda_entries None (ps_stats ds) ''Car'' 0 [near_obj] = Inr es"
    and sh: "sort_and_shuffle counter_rng es = Inr (ps_pointclouds ds)"
    by (auto simp: example_pkl_def)
  from panda_entries_Inr [OF es] sort_and_shuffle_set [OF sh]
  obtain e where e: "e \<in> set (ps_pointclouds ds)"
    by (cases es) auto
  from PandaSet_pose_values [OF ds e] show ?thesis
    using ds e by (auto simp: example_pkl_def near_obj_def split: if_splits)
qed


subsection \<open>Construction of \<^verbatim>\<open>ShapeNetCore\<close>\<close>

lemma cate_to_synsetid_keys_known:
  "c \<in> set cate_to_synsetid_keys \<Longrightarrow> cate_to_synsetid c \<noteq> None"
  by (simp add: cate_to_synsetid_keys_def cate_to_synsetid_def map_of_eq_None_iff)

lemma cate_to_synsetid_range:
  assumes "cate_to_synsetid c = Some i"
  shows "synsetid_to_cate i \<noteq> None"
proof -
  from assms have "(c, i) \<in> set cate_to_synsetid_items"
    by (auto simp: cate_to_synsetid_def dest: map_of_SomeD)
  then have "(i, c) \<in> set synsetid_to_cate_items"
    by (auto simp: cate_to_synsetid_items_def)
  from weak_map_of_SomeI [OF this] show ?thesis
    by (auto simp: synsetid_to_cate_def)
qed

lemma lookup_synsetids_known:
  assumes "mapE (getitem_dict cate_to_synsetid) cs = Inr ids" and "i \<in> set ids"
  shows "synsetid_to_cate i \<noteq> None"
proof -
  from assms(1) have "list_all2 (\<lambda>c y. cate_to_synsetid c = Some y) cs ids"
    by (simp add: mapE_Inr getitem_dict_Inr)
  with assms(2) obtain c where "cate_to_synsetid c = Some i"
    by (auto simp: list_all2_conv_all_nth in_set_conv_nth)
  then show ?thesis by (rule cate_to_synsetid_range)
qed

lemma lookup_synsetids_total:
  assumes "\<And>c. c \<in> set cs \<Longrightarrow> cate_to_synsetid c \<noteq> None"
  shows "\<exists>ids. mapE (getitem_dict cate_to_synsetid) cs = Inr ids"
  by (rule mapE_total) (use assms in \<open>auto simp: getitem_dict_def split: option.splits\<close>)

lemma lookup_first_unknown:
  "\<exists>c \<in> set cs. d c = None \<Longrightarrow>
   \<exists>c \<in> set cs. d c = None \<and> mapE (getitem_dict d) cs = Inl (KeyError c)"
proof (induction cs)
  case Nil
  then show ?case by simp
next
  case (Cons a cs)
  show ?case
  proof (cases "d a")
    case None
    then show ?thesis by (simp add: getitem_dict_def)
  next
    case (Some v)
    with Cons.prems have "\<exists>c \<in> set cs. d c = None" by auto
    from Cons.IH [OF this] Some show ?thesis by (auto simp: getitem_dict_def)
  qed
qed

lemma shapenet_entries_total:
  "sm \<noteq> Some ''shape_bbox'' \<Longrightarrow> \<exists>es. shapenet_entries sm st c j pcs = Inr es"
proof (induction pcs arbitrary: j)
  case Nil
  then show ?case by simp
next
  case (Cons pc pcs)
  from shift_scale_total [OF Cons.prems, of "sn_std st" pc]
  obtain e where "shapenet_entry sm st c j pc = Inr e"
    by (auto simp: shapenet_entry_def Let_def)
  with Cons.IH [OF Cons.prems, of "Suc j"] show ?case by auto
qed

lemma shapenet_loop_total:
  assumes "sm \<noteq> Some ''shape_bbox''"
  shows "(\<And>i. i \<in> set ids \<Longrightarrow> synsetid_to_cate i \<noteq> None \<and> (\<exists>d. f i = Some d \<and> d split \<noteq> None))
    \<Longrightarrow> \<exists>es. shapenet_loop f split sm st ids = Inr es"
proof (induction ids)
  case Nil
  then show ?case by simp
next
  case (Cons i ids)
  from Cons.prems [of i] obtain c d pcs where
    c: "synsetid_to_cate i = Some c" and d: "f i = Some d" "d split = Some pcs" by auto
  from shapenet_entries_total [OF assms] obtain es
    where es: "shapenet_entries sm st c 0 pcs = Inr es" by blast
  from Cons.IH Cons.prems obtain rest where "shapenet_loop f split sm st ids = Inr rest"
    by auto
  with c d es show ?case by (simp add: getitem_dict_def)
qed

lemma ShapeNetCore_init_Inr:
  assumes "ShapeNetCore_init R f sd cates split sm = Inr ds"
  shows "\<exists>names ids es. cates = PyList names \<and> split_ok split \<and> scale_mode_ok sm
           \<and> mapE (getitem_dict cate_to_synsetid)
                (if ''all'' \<in> set names then cate_to_synsetid_keys else names) = Inr ids
           \<and> sn_cate_synsetids ds = sort ids
           \<and> shapenet_loop f split sm (sn_stats_of ds) (sn_cate_synsetids ds) = Inr es
           \<and> sort_and_shuffle R es = Inr (sn_pointclouds ds)"
  using assms
  by (auto simp: ShapeNetCore_init_def ShapeNetCore_load_def bindE_eq_Inr Let_def
           split: cates_arg.splits if_splits)

lemma ShapeNetCore_init_total:
  assumes "split_ok split" "scale_mode_ok sm" "sm \<noteq> Some ''shape_bbox''"
    and names: "''all'' \<in> set names \<or> (\<forall>c \<in> set names. cate_to_synsetid c \<noteq> None)"
    and archive: "\<And>i. synsetid_to_cate i \<noteq> None \<Longrightarrow> \<exists>d. f i = Some d \<and> d split \<noteq> None"
    and saved: "\<And>n. sd n \<noteq> None"
    and rng: "\<And>g n. 0 < n \<Longrightarrow> fst (randbelow R g n) < n"
  shows "\<exists>ds. ShapeNetCore_init R f sd (PyList names) split sm = Inr ds"
proof -
  let ?cs = "if ''all'' \<in> set names then cate_to_synsetid_keys else names"
  from names have "\<And>c. c \<in> set ?cs \<Longrightarrow> cate_to_synsetid c \<noteq> None"
    by (auto dest: cate_to_synsetid_keys_known split: if_splits)
  from lookup_synsetids_total [OF this] obtain ids
    where ids: "mapE (getitem_dict cate_to_synsetid) ?cs = Inr ids" by blast
  from saved obtain st where st: "sd (stats_file_name (sort ids)) = Some st" by fastforce
  have "\<And>i. i \<in> set (sort ids) \<Longrightarrow>
          synsetid_to_cate i \<noteq> None \<and> (\<exists>d. f i = Some d \<and> d split \<noteq> None)"
    using lookup_synsetids_known [OF ids] archive by simp
  from shapenet_loop_total [OF assms(3) this] obtain es
    where es: "shapenet_loop f split sm st (sort ids) = Inr es" by blast
  from sort_and_shuffle_total [OF rng] obtain ys
    where "sort_and_shuffle R es = Inr ys" by blast
  with ids st es assms(1,2) show ?thesis
    by (simp add: ShapeNetCore_init_def ShapeNetCore_load_def ShapeNetCore_get_statistics_def
             Let_def)
qed

lemma bogus_unknown: "cate_to_synsetid ''bogus'' = None"
  by (simp add: cate_to_synsetid_def cate_to_synsetid_items_def synsetid_to_cate_items_def)

lemma chair_known: "cate_to_synsetid ''chair'' = Some ''03001627''"
  by (simp add: cate_to_synsetid_def cate_to_synsetid_items_def synsetid_to_cate_items_def)

lemma airplane_known: "cate_to_synsetid ''airplane'' = Some ''02691156''"
  by (simp add: cate_to_synsetid_def cate_to_synsetid_items_def synsetid_to_cate_items_def)

subsection \<open>The order of the samples\<close>

text \<open>
  The shuffle makes the exchanges of \<open>seeded_swaps\<close>, one after the other; under the
  contract of \<^verbatim>\<open>randbelow\<close> its first exchange settles the last position.
\<close>

lemma shuffle_loop_fold:
  "shuffle_loop R i g xs = Inr ys \<Longrightarrow>
   ys = fold exchange (zip (rev [1..<Suc i]) (draws R i g)) xs"
proof (induction i arbitrary: g xs)
  case 0
  then show ?case by simp
next
  case (Suc i)
  obtain j g' where r: "randbelow R g (Suc i + 1) = (j, g')"
    by (cases "randbelow R g (Suc i + 1)")
  from Suc.prems r have rec: "shuffle_loop R i g' (xs[Suc i := xs ! j, j := xs ! Suc i]) = Inr ys"
    by (auto split: if_splits)
  from Suc.IH [OF rec] r show ?case
    by (simp add: exchange_def)
qed

lemma shuffle_fold:
  assumes "shuffle R g xs = Inr ys"
  shows "ys = fold exchange (zip (rev [1..<length xs]) (draws R (length xs - 1) g)) xs"
proof (cases xs)
  case Nil
  with assms show ?thesis by (simp add: shuffle_def)
next
  case (Cons a as)
  with shuffle_loop_fold [of R "length as" g xs ys] assms show ?thesis
    by (simp add: shuffle_def)
qed

lemma shuffle_loop_length: "shuffle_loop R i g xs = Inr ys \<Longrightarrow> length ys = length xs"
  by (metis shuffle_loop_mset size_mset)

lemma shuffle_loop_above:
  assumes "\<And>g n. 0 < n \<Longrightarrow> fst (randbelow R g n) < n"
  shows "shuffle_loop R i g xs = Inr ys \<Longrightarrow> i < k \<Longrightarrow> ys ! k = xs ! k"
proof (induction i arbitrary: g xs)
  case 0
  then show ?case by simp
next
  case (Suc i)
  obtain j g' where r: "randbelow R g (Suc i + 1) = (j, g')"
    by (cases "randbelow R g (Suc i + 1)")
  from assms [of "Suc i + 1" g] r have j: "j < Suc i + 1" by simp
  from Suc.prems r have rec: "shuffle_loop R i g' (xs[Suc i := xs ! j, j := xs ! Suc i]) = Inr ys"
    by (auto split: if_splits)
  from Suc.IH [OF rec] Suc.prems(2) j show ?case by simp
qed

lemma shuffle_last:
  assumes c: "\<And>g n. 0 < n \<Longrightarrow> fst (randbelow R g n) < n"
    and s: "shuffle R g xs = Inr ys" and n: "2 \<le> length xs"
  shows "last ys = xs ! fst (randbelow R g (length xs))"
proof -
  obtain i where i: "length xs = Suc (Suc i)" using n by (metis Suc_le_D numeral_2_eq_2 Suc_le_mono)
  obtain j g' where r: "randbelow R g (Suc i + 1) = (j, g')"
    by (cases "randbelow R g (Suc i + 1)")
  from c [of "Suc i + 1" g] r have j: "j < Suc i + 1" by simp
  from s i r have rec: "shuffle_loop R i g' (xs[Suc i := xs ! j, j := xs ! Suc i]) = Inr ys"
    by (auto simp: shuffle_def split: if_splits)
  from shuffle_loop_above [OF c rec, of "Suc i"] j i
  have "ys ! Suc i = xs ! j" by (auto simp: nth_list_update)
  moreover from shuffle_loop_length [OF rec] i have "length ys = Suc (Suc i)" by simp
  moreover from this have "ys \<noteq> []" by auto
  ultimately show ?thesis using r i by (simp add: last_conv_nth)
qed

lemma exchange_map:
  "i < length xs \<Longrightarrow> j < length xs \<Longrightarrow> map f (exchange (i, j) xs) = exchange (i, j) (map f xs)"
  by (simp add: exchange_def map_update)

lemma length_exchange [simp]: "length (exchange ij xs) = length xs"
  by (cases ij) (simp add: exchange_def)

lemma fold_exchange_map:
  "\<forall>(i, j) \<in> set sw. i < length xs \<and> j < length xs \<Longrightarrow>
   map f (fold exchange sw xs) = fold exchange sw (map f xs)"
proof (induction sw arbitrary: xs)
  case Nil
  then show ?case by simp
next
  case (Cons ij sw)
  obtain i j where ij: "ij = (i, j)" by (cases ij)
  with Cons.prems have b: "i < length xs" "j < length xs" by auto
  from Cons.prems have "\<forall>(i, j) \<in> set sw. i < length (exchange ij xs) \<and> j < length (exchange ij xs)"
    by auto
  from Cons.IH [OF this] b ij show ?case by (simp add: exchange_map)
qed

lemma mods:
  "(2020::nat) mod Suc (Suc (Suc (Suc 0))) = 0"
  "(2020::nat) mod Suc (Suc (Suc 0)) = Suc 0"
  "(2021::nat) mod Suc (Suc (Suc 0)) = Suc (Suc 0)"
  "(2021::nat) mod Suc (Suc 0) = Suc 0"
  "(2022::nat) mod Suc (Suc 0) = 0"
  by (simp_all add: numeral_2_eq_2 [symmetric] numeral_3_eq_3 [symmetric] Suc3_eq_add_3)

lemma swaps3: "seeded_swaps counter_rng (Suc (Suc (Suc 0))) = [(Suc (Suc 0), Suc 0), (Suc 0, Suc 0)]"
proof -
  have u: "rev [1..<Suc (Suc (Suc 0))] = [Suc (Suc 0), Suc 0]" by (simp add: upt_conv_Cons)
  show ?thesis unfolding seeded_swaps_def u
    by (simp add: counter_rng_def mods)
qed

lemma swaps4: "seeded_swaps counter_rng (Suc (Suc (Suc (Suc 0))))
    = [(Suc (Suc (Suc 0)), 0), (Suc (Suc 0), Suc (Suc 0)), (Suc 0, 0)]"
proof -
  have u: "rev [1..<Suc (Suc (Suc (Suc 0)))] = [Suc (Suc (Suc 0)), Suc (Suc 0), Suc 0]"
    by (simp add: upt_conv_Cons)
  show ?thesis unfolding seeded_swaps_def u
    by (simp add: counter_rng_def mods)
qed

lemma swaps3': "seeded_swaps counter_rng 3 = [(2, 1), (1, 1)]"
  using swaps3 by (simp add: numeral_3_eq_3 numeral_2_eq_2)

lemma swaps4': "seeded_swaps counter_rng 4 = [(3, 0), (2, 2), (1, 0)]"
proof -
  have e: "(4::nat) = Suc (Suc (Suc (Suc 0)))" by simp
  show ?thesis by (simp only: e numeral_3_eq_3 numeral_2_eq_2 swaps4 One_nat_def)
qed

lemma sort_and_shuffle_seeded:
  assumes "sort_and_shuffle R es = Inr ys"
  shows "ys = fold exchange (seeded_swaps R (length es)) (sort_key entry_id es)"
    and "mset (fold exchange (seeded_swaps R (length es)) [0..<length es]) = mset [0..<length es]"
    and "ys = map ((!) (sort_key entry_id es))
                (fold exchange (seeded_swaps R (length es)) [0..<length es])"
    and "(\<forall>g n. 0 < n \<longrightarrow> fst (randbelow R g n) < n) \<Longrightarrow> 2 \<le> length es \<Longrightarrow>
         last ys = sort_key entry_id es ! fst (randbelow R (seed_rng R 2020) (length es))"
proof -
  let ?S = "sort_key entry_id es"
  let ?g = "seed_rng R 2020"
  from assms have s: "shuffle R ?g ?S = Inr ys" by (simp add: sort_and_shuffle_def)
  from shuffle_fold [OF s] show "ys = fold exchange (seeded_swaps R (length es)) ?S"
    by (simp add: seeded_swaps_def)
  from sort_and_shuffle_Inr [OF assms] obtain p where
    p: "seeded_order R (length es) = Inr p" and m: "mset p = mset [0..<length es]"
    and ys: "ys = map ((!) ?S) p" by blast
  from p have "shuffle R ?g [0..<length es] = Inr p" by (simp add: seeded_order_def)
  from shuffle_fold [OF this] have pf: "p = fold exchange (seeded_swaps R (length es)) [0..<length es]"
    by (simp add: seeded_swaps_def)
  from m pf show "mset (fold exchange (seeded_swaps R (length es)) [0..<length es]) = mset [0..<length es]"
    by simp
  from ys pf show "ys = map ((!) ?S) (fold exchange (seeded_swaps R (length es)) [0..<length es])"
    by simp
  show "last ys = ?S ! fst (randbelow R ?g (length es))"
    if "\<forall>g n. 0 < n \<longrightarrow> fst (randbelow R g n) < n" and "2 \<le> length es"
    using shuffle_last [of R ?g ?S ys] that s by simp
qed

lemma map_insort_key: "map f (insort_key (\<lambda>a. k (f a)) x xs) = insort_key k (f x) (map f xs)"
  by (induction xs) simp_all

lemma map_sort_key: "map f (sort_key (\<lambda>a. k (f a)) xs) = sort_key k (map f xs)"
  by (induction xs) (simp_all add: map_insort_key)

lemma entry_id_cate_and_id: "entry_id = (\<lambda>e. snd (cate_and_id e))"
  by (simp add: fun_eq_iff cate_and_id_def)

lemma synsetids_known:
  "synsetid_to_cate ''02691156'' = Some ''airplane''"
  "synsetid_to_cate ''03001627'' = Some ''chair''"
  by (simp_all add: synsetid_to_cate_def synsetid_to_cate_items_def)

text \<open>
  Claim C10. The order of the entries of a constructed dataset is fixed by the file and
  the constructor's arguments: both loaders sort the entries they built by \<^verbatim>\<open>'id'\<close>
  and shuffle the sorted list with a generator seeded with 2020. The stored list is the
  sorted list after the exchanges of \<open>seeded_swaps\<close>: for \<open>i\<close> from \<open>n - 1\<close> down to
  \<open>1\<close>, position \<open>i\<close> is exchanged with the position the generator, started from the
  seed 2020, draws below \<open>i + 1\<close>. These exchanges depend on the number \<open>n\<close> of entries
  only: the stored list is the sorted list read at the positions the same exchanges
  leave in \<open>[0, \<dots>, n - 1]\<close>, a permutation. With a generator that draws below its
  argument, the last stored entry is the sorted entry at the first draw of the seeded
  generator. (In \<^verbatim>\<open>PandaSet\<close> the entries are numbered in file order, so the sort changes
  nothing.) Every term of the statement is a function of the file and the arguments, so
  two constructions over the same data store the same sequence.
\<close>

theorem dataset_order_is_seeded_shuffle:
  "(\<forall>ds. PandaSet_init R data cls split sm isz = Inr ds \<longrightarrow>
      (\<exists>d objs es. data cls = Some d \<and> d split = Some objs
         \<and> panda_entries sm (ps_stats ds) cls 0 objs = Inr es
         \<and> sort_key entry_id es = es
         \<and> ps_pointclouds ds = fold exchange (seeded_swaps R (length es)) (sort_key entry_id es)
         \<and> mset (fold exchange (seeded_swaps R (length es)) [0..<length es]) = mset [0..<length es]
         \<and> ps_pointclouds ds = map ((!) (sort_key entry_id es))
                                  (fold exchange (seeded_swaps R (length es)) [0..<length es])
         \<and> ((\<forall>g n. 0 < n \<longrightarrow> fst (randbelow R g n) < n) \<and> 2 \<le> length es
              \<longrightarrow> last (ps_pointclouds ds)
                    = sort_key entry_id es ! fst (randbelow R (seed_rng R 2020) (length es)))))
   \<and> (\<forall>ds'. ShapeNetCore_init R f sd cates split' sm' = Inr ds' \<longrightarrow>
      (\<exists>es. shapenet_loop f split' sm' (sn_stats_of ds') (sn_cate_synsetids ds') = Inr es
         \<and> sn_pointclouds ds' = fold exchange (seeded_swaps R (length es)) (sort_key entry_id es)
         \<and> mset (fold exchange (seeded_swaps R (length es)) [0..<length es]) = mset [0..<length es]
         \<and> sn_pointclouds ds' = map ((!) (sort_key entry_id es))
                                  (fold exchange (seeded_swaps R (length es)) [0..<length es])
         \<and> ((\<forall>g n. 0 < n \<longrightarrow> fst (randbelow R g n) < n) \<and> 2 \<le> length es
              \<longrightarrow> last (sn_pointclouds ds')
                    = sort_key entry_id es ! fst (randbelow R (seed_rng R 2020) (length es)))))"
proof (intro conjI allI impI)
  fix ds assume "PandaSet_init R data cls split sm isz = Inr ds"
  from PandaSet_init_Inr [OF this] obtain d objs es
    where d: "data cls = Some d" "d split = Some objs"
      and es: "panda_entries sm (ps_stats ds) cls 0 objs = Inr es"
      and sh: "sort_and_shuffle R es = Inr (ps_pointclouds ds)" by blast
  from sort_and_shuffle_seeded [OF sh] panda_entries_sorted [OF es] d es
  show "\<exists>d objs es. data cls = Some d \<and> d split = Some objs
         \<and> panda_entries sm (ps_stats ds) cls 0 objs = Inr es
         \<and> sort_key entry_id es = es
         \<and> ps_pointclouds ds = fold exchange (seeded_swaps R (length es)) (sort_key entry_id es)
         \<and> mset (fold exchange (seeded_swaps R (length es)) [0..<length es]) = mset [0..<length es]
         \<and> ps_pointclouds ds = map ((!) (sort_key entry_id es))
                                  (fold exchange (seeded_swaps R (length es)) [0..<length es])
         \<and> ((\<forall>g n. 0 < n \<longrightarrow> fst (randbelow R g n) < n) \<and> 2 \<le> length es
              \<longrightarrow> last (ps_pointclouds ds)
                    = sort_key entry_id es ! fst (randbelow R (seed_rng R 2020) (length es)))"
    by (intro exI [of _ d] exI [of _ objs] exI [of _ es]) simp
next
  fix ds' assume "ShapeNetCore_init R f sd cates split' sm' = Inr ds'"
  from ShapeNetCore_init_Inr [OF this] obtain es
    where es: "shapenet_loop f split' sm' (sn_stats_of ds') (sn_cate_synsetids ds') = Inr es"
      and sh: "sort_and_shuffle R es = Inr (sn_pointclouds ds')" by blast
  from sort_and_shuffle_seeded [OF sh] es
  show "\<exists>es. shapenet_loop f split' sm' (sn_stats_of ds') (sn_cate_synsetids ds') = Inr es
         \<and> sn_pointclouds ds' = fold exchange (seeded_swaps R (length es)) (sort_key entry_id es)
         \<and> mset (fold exchange (seeded_swaps R (length es)) [0..<length es]) = mset [0..<length es]
         \<and> sn_pointclouds ds' = map ((!) (sort_key entry_id es))
                                  (fold exchange (seeded_swaps R (length es)) [0..<length es])
         \<and> ((\<forall>g n. 0 < n \<longrightarrow> fst (randbelow R g n) < n) \<and> 2 \<le> length es
              \<longrightarrow> last (sn_pointclouds ds')
                    = sort_key entry_id es ! fst (randbelow R (seed_rng R 2020) (length es)))"
    by (intro exI [of _ es]) simp
qed

text \<open>
  Claim C10 at concrete inputs, with the generator \<open>counter_rng\<close>: the three cars of
  \<open>three_cars_pkl\<close> are stored in the order 0, 2, 1 of their \<^verbatim>\<open>'id'\<close>; the two chairs
  and two airplanes of \<open>uniform_h5\<close>, sorted by \<^verbatim>\<open>'id'\<close> to airplane 0, chair 0,
  airplane 1, chair 1, are stored as chair 0, chair 1, airplane 1, airplane 0.
\<close>

theorem dataset_order_is_seeded_shuffle_witness:
  "(\<exists>ds. PandaSet_init counter_rng three_cars_pkl ''Car'' ''train'' None 1024 = Inr ds
      \<and> map entry_id (ps_pointclouds ds) = [0, 2, 1])
   \<and> (\<exists>ds'. ShapeNetCore_init counter_rng uniform_h5 saved_stats
                (PyList [''chair'', ''airplane'']) ''train'' None = Inr ds'
      \<and> map cate_and_id (sn_pointclouds ds')
          = [(Some (FStr ''chair''), 0), (Some (FStr ''chair''), 1),
             (Some (FStr ''airplane''), 1), (Some (FStr ''airplane''), 0)])"
proof
  note t = dataset_order_is_seeded_shuffle
         [of counter_rng three_cars_pkl "''Car''" "''train''" None 1024 uniform_h5 saved_stats
             "PyList [''chair'', ''airplane'']" "''train''" None]
  have "\<exists>ds. PandaSet_init counter_rng three_cars_pkl ''Car'' ''train'' None 1024 = Inr ds"
    by (rule PandaSet_init_total
          [where d = "[''train'' \<mapsto> [near_obj, turned_obj, near_obj], ''val'' \<mapsto> [], ''test'' \<mapsto> []]"
             and a = "[near_obj, turned_obj, near_obj]" and b = "[]" and c = "[]"])
       (simp_all add: split_ok_def scale_mode_ok_def three_cars_pkl_def counter_rng_below)
  then obtain ds
    where ds: "PandaSet_init counter_rng three_cars_pkl ''Car'' ''train'' None 1024 = Inr ds" ..
  with t obtain es where
    es: "panda_entries None (ps_stats ds) ''Car'' 0 [near_obj, turned_obj, near_obj] = Inr es"
    and srt: "sort_key entry_id es = es"
    and pcs: "ps_pointclouds ds = fold exchange (seeded_swaps counter_rng (length es)) (sort_key entry_id es)"
    by (auto simp: three_cars_pkl_def)
  from panda_entries_Inr [OF es] have len: "length es = 3" by simp
  from panda_entries_ids [OF es] have ids: "map entry_id es = [0, 1, 2]"
    by (simp add: upt_conv_Cons)
  have "map entry_id (ps_pointclouds ds) = fold exchange [(2, 1), (1, 1)] (map entry_id es)"
    unfolding pcs srt len swaps3'
    by (rule fold_exchange_map) (simp add: len)
  also have "\<dots> = [0, 2, 1]" unfolding ids by (simp add: exchange_def)
  finally have "map entry_id (ps_pointclouds ds) = [0, 2, 1]" .
  with ds show "\<exists>ds. PandaSet_init counter_rng three_cars_pkl ''Car'' ''train'' None 1024 = Inr ds
      \<and> map entry_id (ps_pointclouds ds) = [0, 2, 1]"
    by (intro exI [of _ ds] conjI)
next
  note t = dataset_order_is_seeded_shuffle
         [of counter_rng three_cars_pkl "''Car''" "''train''" None 1024 uniform_h5 saved_stats
             "PyList [''chair'', ''airplane'']" "''train''" None]
  have "\<exists>ds. ShapeNetCore_init counter_rng uniform_h5 saved_stats
               (PyList [''chair'', ''airplane'']) ''train'' None = Inr ds"
    by (rule ShapeNetCore_init_total)
       (simp_all add: split_ok_def scale_mode_ok_def uniform_h5_def saved_stats_def
          counter_rng_below chair_known airplane_known)
  then obtain ds' where ds': "ShapeNetCore_init counter_rng uniform_h5 saved_stats
               (PyList [''chair'', ''airplane'']) ''train'' None = Inr ds'" ..
  from ShapeNetCore_init_Inr [OF ds'] have ids: "sn_cate_synsetids ds' = [''02691156'', ''03001627'']"
    by (auto simp: chair_known airplane_known getitem_dict_def)
  from t ds' obtain es where
    es: "shapenet_loop uniform_h5 ''train'' None (sn_stats_of ds') (sn_cate_synsetids ds') = Inr es"
    and pcs: "sn_pointclouds ds' = fold exchange (seeded_swaps counter_rng (length es)) (sort_key entry_id es)"
    by blast
  from es have esv: "map cate_and_id es
      = [(Some (FStr ''airplane''), 0), (Some (FStr ''airplane''), 1),
         (Some (FStr ''chair''), 0), (Some (FStr ''chair''), 1)]"
    unfolding ids
    by (auto simp: synsetids_known getitem_dict_def uniform_h5_def shapenet_entry_def
        shift_scale_def cate_and_id_def entry_id_def Let_def)
  from arg_cong [OF esv, of length] have len: "length es = 4" by simp
  have srt: "map cate_and_id (sort_key entry_id es) = sort_key snd (map cate_and_id es)"
    unfolding entry_id_cate_and_id by (rule map_sort_key)
  have "map cate_and_id (sn_pointclouds ds')
      = fold exchange [(3, 0), (2, 2), (1, 0)] (map cate_and_id (sort_key entry_id es))"
    unfolding pcs len swaps4'
    by (rule fold_exchange_map) (simp add: len)
  also have "\<dots> = [(Some (FStr ''chair''), 0), (Some (FStr ''chair''), 1),
             (Some (FStr ''airplane''), 1), (Some (FStr ''airplane''), 0)]"
    unfolding srt esv by (simp add: exchange_def)
  finally have "map cate_and_id (sn_pointclouds ds')
          = [(Some (FStr ''chair''), 0), (Some (FStr ''chair''), 1),
             (Some (FStr ''airplane''), 1), (Some (FStr ''airplane''), 0)]" .
  with ds' show "\<exists>ds'. ShapeNetCore_init counter_rng uniform_h5 saved_stats
                (PyList [''chair'', ''airplane'']) ''train'' None = Inr ds'
      \<and> map cate_and_id (sn_pointclouds ds')
          = [(Some (FStr ''chair''), 0), (Some (FStr ''chair''), 1),
             (Some (FStr ''airplane''), 1), (Some (FStr ''airplane''), 0)]"
    by (intro exI [of _ ds'] conjI)
qed

subsection \<open>Arguments the constructors reject\<close>

text \<open>The lookup of the categories stops at the first name the table does not have.\<close>

lemma lookup_prefix_unknown:
  "\<forall>k \<in> set pre. d k \<noteq> None \<Longrightarrow> d c = None \<Longrightarrow>
   mapE (getitem_dict d) (pre @ c # post) = Inl (KeyError c)"
  by (induction pre) (auto simp: getitem_dict_def bindE_def)

text \<open>The list that holds \<^verbatim>\<open>'all'\<close> is looked up as the keys of the table.\<close>

lemma dom_cate_to_synsetid: "dom cate_to_synsetid = set cate_to_synsetid_keys"
  by (simp add: cate_to_synsetid_def cate_to_synsetid_keys_def dom_map_of_conv_image_fst)

lemma lookup_all_synsetids:
  assumes "mapE (getitem_dict cate_to_synsetid) cate_to_synsetid_keys = Inr ids"
  shows "set ids = ran cate_to_synsetid"
proof -
  from assms have l: "list_all2 (\<lambda>c y. cate_to_synsetid c = Some y) cate_to_synsetid_keys ids"
    by (simp add: mapE_Inr getitem_dict_Inr)
  show ?thesis
  proof (intro set_eqI iffI)
    fix y assume "y \<in> set ids"
    with l obtain c where "cate_to_synsetid c = Some y"
      by (auto simp: list_all2_conv_all_nth in_set_conv_nth)
    then show "y \<in> ran cate_to_synsetid" by (rule ranI)
  next
    fix y assume "y \<in> ran cate_to_synsetid"
    then obtain c where c: "cate_to_synsetid c = Some y" by (auto simp: ran_def)
    then have "c \<in> set cate_to_synsetid_keys"
      using dom_cate_to_synsetid by blast
    then obtain i where i: "i < length cate_to_synsetid_keys" "cate_to_synsetid_keys ! i = c"
      by (auto simp: in_set_conv_nth)
    with l have "cate_to_synsetid c = Some (ids ! i)" "i < length ids"
      by (auto simp: list_all2_conv_all_nth)
    with c show "y \<in> set ids" by auto
  qed
qed

lemma all_selects_every_category:
  assumes "''all'' \<in> set names" and "ShapeNetCore_init R f sd (PyList names) split sm = Inr ds"
  shows "set (sn_cate_synsetids ds) = ran cate_to_synsetid"
proof -
  from ShapeNetCore_init_Inr [OF assms(2)] assms(1) obtain ids
    where "mapE (getitem_dict cate_to_synsetid) cate_to_synsetid_keys = Inr ids"
      and "sn_cate_synsetids ds = sort ids" by auto
  with lookup_all_synsetids show ?thesis by simp
qed

text \<open>
  Claim C7, as amended. Both constructors raise before they return when
  \<^verbatim>\<open>split\<close> or \<^verbatim>\<open>scale_mode\<close> is not one of the listed values
  (\<^verbatim>\<open>AssertionError\<close>), and \<^verbatim>\<open>ShapeNetCore\<close> also when \<^verbatim>\<open>cates\<close> is not a
  list. A category is checked by a dictionary lookup during construction: for a list
  that does not hold \<^verbatim>\<open>'all'\<close>, \<^verbatim>\<open>ShapeNetCore\<close> raises \<^verbatim>\<open>KeyError\<close> for the first
  name that is not in \<^verbatim>\<open>cate_to_synsetid\<close> (the names before it are known, the names
  after it are not looked at). A list that holds \<^verbatim>\<open>'all'\<close> stands for every category:
  its other names are never looked up, the construction does what it does for the list
  \<^verbatim>\<open>['all']\<close>, and a dataset it returns is built over every identifier of
  \<^verbatim>\<open>cate_to_synsetid\<close>. \<^verbatim>\<open>PandaSet\<close> raises \<^verbatim>\<open>KeyError\<close> for a class that is not in
  the file.
\<close>

theorem constructors_reject_invalid_arguments:
  "(cates = NotAList \<or> \<not> split_ok split \<or> \<not> scale_mode_ok sm
      \<longrightarrow> ShapeNetCore_init R f sd cates split sm = Inl AssertionError)
   \<and> (split_ok split \<and> scale_mode_ok sm \<and> ''all'' \<notin> set (pre @ c # post)
        \<and> (\<forall>k \<in> set pre. cate_to_synsetid k \<noteq> None) \<and> cate_to_synsetid c = None
      \<longrightarrow> ShapeNetCore_init R f sd (PyList (pre @ c # post)) split sm = Inl (KeyError c))
   \<and> (''all'' \<in> set names
      \<longrightarrow> ShapeNetCore_init R f sd (PyList names) split sm
          = ShapeNetCore_init R f sd (PyList [''all'']) split sm)
   \<and> (''all'' \<in> set names \<and> ShapeNetCore_init R f sd (PyList names) split sm = Inr ds
      \<longrightarrow> set (sn_cate_synsetids ds) = ran cate_to_synsetid)
   \<and> (\<not> split_ok split \<or> \<not> scale_mode_ok sm
      \<longrightarrow> PandaSet_init R data cls split sm isz = Inl AssertionError)
   \<and> (split_ok split \<and> scale_mode_ok sm \<and> data cls = None
      \<longrightarrow> PandaSet_init R data cls split sm isz = Inl (KeyError cls))"
proof (intro conjI impI)
  assume "cates = NotAList \<or> \<not> split_ok split \<or> \<not> scale_mode_ok sm"
  then show "ShapeNetCore_init R f sd cates split sm = Inl AssertionError"
    by (auto simp: ShapeNetCore_init_def split: cates_arg.splits)
next
  assume a: "split_ok split \<and> scale_mode_ok sm \<and> ''all'' \<notin> set (pre @ c # post)
        \<and> (\<forall>k \<in> set pre. cate_to_synsetid k \<noteq> None) \<and> cate_to_synsetid c = None"
  then have "mapE (getitem_dict cate_to_synsetid) (pre @ c # post) = Inl (KeyError c)"
    by (intro lookup_prefix_unknown) simp_all
  with a show "ShapeNetCore_init R f sd (PyList (pre @ c # post)) split sm = Inl (KeyError c)"
    by (simp add: ShapeNetCore_init_def)
next
  assume "''all'' \<in> set names"
  then show "ShapeNetCore_init R f sd (PyList names) split sm
          = ShapeNetCore_init R f sd (PyList [''all'']) split sm"
    by (simp add: ShapeNetCore_init_def)
next
  assume "''all'' \<in> set names \<and> ShapeNetCore_init R f sd (PyList names) split sm = Inr ds"
  then show "set (sn_cate_synsetids ds) = ran cate_to_synsetid"
    by (auto dest: all_selects_every_category)
next
  assume "\<not> split_ok split \<or> \<not> scale_mode_ok sm"
  then show "PandaSet_init R data cls split sm isz = Inl AssertionError"
    by (auto simp: PandaSet_init_def)
next
  assume "split_ok split \<and> scale_mode_ok sm \<and> data cls = None"
  then show "PandaSet_init R data cls split sm isz = Inl (KeyError cls)"
    by (simp add: PandaSet_init_def PandaSet_get_statistics_def getitem_dict_def)
qed

text \<open>
  Claim C7 as stated fails for \<^verbatim>\<open>ShapeNetCore\<close>: \<^verbatim>\<open>'bogus'\<close> is no category, and
  the construction with \<^verbatim>\<open>cates = ['all', 'bogus']\<close> completes.
\<close>

theorem ShapeNetCore_all_counterexample:
  "cate_to_synsetid ''bogus'' = None
   \<and> \<not> isl (ShapeNetCore_init counter_rng uniform_h5 saved_stats (PyList [''all'', ''bogus''])
              ''train'' None)"
proof -
  have "\<exists>ds. ShapeNetCore_init counter_rng uniform_h5 saved_stats (PyList [''all'', ''bogus''])
              ''train'' None = Inr ds"
    by (rule ShapeNetCore_init_total)
       (simp_all add: split_ok_def scale_mode_ok_def uniform_h5_def saved_stats_def
          counter_rng_below)
  with bogus_unknown show ?thesis by auto
qed

text \<open>
  The amended claim C7 at six concrete calls: one for each rejected argument (the
  unknown name \<^verbatim>\<open>'bogus'\<close> comes after a known and before another unknown name), and
  one for a list that holds \<^verbatim>\<open>'all'\<close> beside an unknown name, which returns a dataset
  that has the chairs.
\<close>

theorem constructors_reject_invalid_arguments_witness:
  "ShapeNetCore_init counter_rng uniform_h5 saved_stats NotAList ''train'' None = Inl AssertionError
   \<and> ShapeNetCore_init counter_rng uniform_h5 saved_stats (PyList [''chair'', ''bogus'', ''nope''])
        ''train'' None = Inl (KeyError ''bogus'')
   \<and> ShapeNetCore_init counter_rng uniform_h5 saved_stats (PyList [''bogus'', ''all'']) ''train'' None
       = ShapeNetCore_init counter_rng uniform_h5 saved_stats (PyList [''all'']) ''train'' None
   \<and> (\<exists>ds. ShapeNetCore_init counter_rng uniform_h5 saved_stats (PyList [''bogus'', ''all''])
               ''train'' None = Inr ds
          \<and> ''03001627'' \<in> set (sn_cate_synsetids ds))
   \<and> PandaSet_init counter_rng example_pkl ''Car'' ''dev'' None 1024 = Inl AssertionError
   \<and> PandaSet_init counter_rng example_pkl ''Car'' ''train'' (Some ''unit'') 1024 = Inl AssertionError
   \<and> PandaSet_init counter_rng example_pkl ''Truck'' ''train'' None 1024 = Inl (KeyError ''Truck'')"
proof -
  have "\<exists>ds. ShapeNetCore_init counter_rng uniform_h5 saved_stats (PyList [''bogus'', ''all''])
              ''train'' None = Inr ds"
    by (rule ShapeNetCore_init_total)
       (simp_all add: split_ok_def scale_mode_ok_def uniform_h5_def saved_stats_def
          counter_rng_below)
  then obtain ds where ds: "ShapeNetCore_init counter_rng uniform_h5 saved_stats
              (PyList [''bogus'', ''all'']) ''train'' None = Inr ds" ..
  note t1 = constructors_reject_invalid_arguments
      [where cates = NotAList and split = "''train''" and sm = None and R = counter_rng
         and f = uniform_h5 and sd = saved_stats and pre = "[''chair'']" and c = "''bogus''"
         and post = "[''nope'']" and names = "[''bogus'', ''all'']" and ds = ds
         and data = example_pkl and cls = "''Truck''" and isz = 1024]
  note t2 = constructors_reject_invalid_arguments
      [where cates = NotAList and split = "''dev''" and sm = None and R = counter_rng
         and f = uniform_h5 and sd = saved_stats and pre = "[]" and c = "''bogus''"
         and post = "[]" and names = "[''all'']" and ds = ds and data = example_pkl
         and cls = "''Car''" and isz = 1024]
  note t3 = constructors_reject_invalid_arguments
      [where cates = NotAList and split = "''train''" and sm = "Some ''unit''" and R = counter_rng
         and f = uniform_h5 and sd = saved_stats and pre = "[]" and c = "''bogus''"
         and post = "[]" and names = "[''all'']" and ds = ds and data = example_pkl
         and cls = "''Car''" and isz = 1024]
  from t1 ds have "set (sn_cate_synsetids ds) = ran cate_to_synsetid" by simp
  with chair_known have "''03001627'' \<in> set (sn_cate_synsetids ds)" by (simp add: ranI)
  with ds have 4: "\<exists>ds. ShapeNetCore_init counter_rng uniform_h5 saved_stats
               (PyList [''bogus'', ''all'']) ''train'' None = Inr ds
          \<and> ''03001627'' \<in> set (sn_cate_synsetids ds)" by blast
  from t1 t2 t3 bogus_unknown chair_known
  have "ShapeNetCore_init counter_rng uniform_h5 saved_stats NotAList ''train'' None = Inl AssertionError"
    and "ShapeNetCore_init counter_rng uniform_h5 saved_stats (PyList [''chair'', ''bogus'', ''nope''])
        ''train'' None = Inl (KeyError ''bogus'')"
    and "ShapeNetCore_init counter_rng uniform_h5 saved_stats (PyList [''bogus'', ''all'']) ''train'' None
       = ShapeNetCore_init counter_rng uniform_h5 saved_stats (PyList [''all'']) ''train'' None"
    and "PandaSet_init counter_rng example_pkl ''Car'' ''dev'' None 1024 = Inl AssertionError"
    and "PandaSet_init counter_rng example_pkl ''Car'' ''train'' (Some ''unit'') 1024 = Inl AssertionError"
    and "PandaSet_init counter_rng example_pkl ''Truck'' ''train'' None 1024 = Inl (KeyError ''Truck'')"
    by (simp_all add: split_ok_def scale_mode_ok_def example_pkl_def)
  with 4 show ?thesis by (intro conjI)
qed


subsection \<open>\<^verbatim>\<open>__getitem__\<close> returns a copy\<close>


lemma length_mutate [simp]: "length (mutate ws s) = length s"
  unfolding mutate_def by (induction ws arbitrary: s) auto

lemma mutate_nth_other:
  "a \<notin> fst ` set ws \<Longrightarrow> mutate ws s ! a = s ! a"
  unfolding mutate_def by (induction ws arbitrary: s) (auto simp: nth_list_update)

lemma mutate_take:
  assumes "\<And>a. a \<in> fst ` set ws \<Longrightarrow> n \<le> a"
  shows "take n (mutate ws s) = take n s"
proof (rule nth_equalityI)
  show "length (take n (mutate ws s)) = length (take n s)" by simp
next
  fix i assume "i < length (take n (mutate ws s))"
  then have i: "i < n" by simp
  with assms have "i \<notin> fst ` set ws" by fastforce
  with i show "take n (mutate ws s) ! i = take n s ! i"
    by (simp add: mutate_nth_other)
qed

lemma clone_or_copy_ok:
  assumes "tensor_ref s0 v" and "take (length s0) s = s0"
  shows "\<exists>v' ext. clone_or_copy v s = Inr (v', s @ ext)
           \<and> read_val (s @ ext) v' = read_val s0 v
           \<and> (\<forall>a. v' = Ref a \<longrightarrow> length s \<le> a \<and> a < length (s @ ext))
           \<and> tensor_ref (s @ ext) v'"
proof (cases v)
  case (Ref a)
  with assms(1) obtain t where a: "a < length s0" "s0 ! a = TensorObj t"
    by (auto simp: tensor_ref_def split: pyobj.splits)
  from arg_cong [OF assms(2), of length] have len: "length s0 \<le> length s" by simp
  from a assms(2) have sa: "s ! a = TensorObj t" by (metis nth_take)
  with a len Ref show ?thesis
    by (auto simp: clone_or_copy_def read_val_def tensor_ref_def nth_append intro!: exI [of _ "[TensorObj t]"])
next
  case (RStr x)
  then show ?thesis by (auto simp: clone_or_copy_def read_val_def tensor_ref_def intro!: exI [of _ "[]"])
next
  case (RInt n)
  then show ?thesis by (auto simp: clone_or_copy_def read_val_def tensor_ref_def intro!: exI [of _ "[]"])
qed

lemma read_val_append: "tensor_ref s v \<Longrightarrow> read_val (s @ ext) v = read_val s v"
  by (auto simp: tensor_ref_def read_val_def nth_append split: pyref.splits)

lemma tensor_ref_append: "tensor_ref s v \<Longrightarrow> tensor_ref (s @ ext) v"
  by (auto simp: tensor_ref_def nth_append split: pyref.splits)

lemma comprehension_ok:
  assumes "take (length s0) s = s0"
  shows "list_all (\<lambda>(k, v). tensor_ref s0 v) items \<Longrightarrow>
         \<exists>items' ext. comprehension items s = Inr (items', s @ ext)
           \<and> map fst items' = map fst items
           \<and> map (\<lambda>(k, v). (k, read_val (s @ ext) v)) items' = map (\<lambda>(k, v). (k, read_val s0 v)) items
           \<and> (\<forall>(k, v) \<in> set items'. \<forall>a. v = Ref a \<longrightarrow> length s \<le> a \<and> a < length (s @ ext))
           \<and> list_all (\<lambda>(k, v). tensor_ref (s @ ext) v) items'"
  using assms
proof (induction items arbitrary: s)
  case Nil
  then show ?case by (auto intro!: exI [of _ "[]"])
next
  case (Cons kv items)
  obtain k v where kv: "kv = (k, v)" by (cases kv)
  from Cons.prems kv have v: "tensor_ref s0 v" and rest: "list_all (\<lambda>(k, v). tensor_ref s0 v) items"
    by auto
  from clone_or_copy_ok [OF v Cons.prems(2)] obtain v' e1 where
    c: "clone_or_copy v s = Inr (v', s @ e1)" and rv: "read_val (s @ e1) v' = read_val s0 v"
    and fr: "\<And>a. v' = Ref a \<Longrightarrow> length s \<le> a \<and> a < length (s @ e1)"
    and tr: "tensor_ref (s @ e1) v'" by blast
  from Cons.prems(2) have p: "take (length s0) (s @ e1) = s0"
    by (metis append_eq_conv_conj append.assoc append_take_drop_id)
  from Cons.IH [OF rest p] obtain items' e2 where
    r: "comprehension items (s @ e1) = Inr (items', (s @ e1) @ e2)"
    and keys: "map fst items' = map fst items"
    and vals: "map (\<lambda>(k, v). (k, read_val ((s @ e1) @ e2) v)) items' = map (\<lambda>(k, v). (k, read_val s0 v)) items"
    and fr2: "\<forall>(k, v) \<in> set items'. \<forall>a. v = Ref a \<longrightarrow> length (s @ e1) \<le> a \<and> a < length ((s @ e1) @ e2)"
    and tr2: "list_all (\<lambda>(k, v). tensor_ref ((s @ e1) @ e2) v) items'"
    by blast
  show ?case
  proof (intro exI [of _ "(k, v') # items'"] exI [of _ "e1 @ e2"] conjI)
    show "comprehension (kv # items) s = Inr ((k, v') # items', s @ e1 @ e2)"
      using kv c r by simp
    show "map fst ((k, v') # items') = map fst (kv # items)" using kv keys by simp
    show "map (\<lambda>(k, v). (k, read_val (s @ e1 @ e2) v)) ((k, v') # items')
          = map (\<lambda>(k, v). (k, read_val s0 v)) (kv # items)"
      using kv vals rv read_val_append [OF tr, of e2] by simp
    show "\<forall>(k, v) \<in> set ((k, v') # items'). \<forall>a. v = Ref a \<longrightarrow> length s \<le> a \<and> a < length (s @ e1 @ e2)"
      using fr fr2 by fastforce
    show "list_all (\<lambda>(k, v). tensor_ref (s @ e1 @ e2) v) ((k, v') # items')"
      using tr2 tensor_ref_append [OF tr, of e2] by simp
  qed
qed


lemma prefix_append: "take (length s) s2 = s \<Longrightarrow> \<exists>ext. s2 = s @ ext"
  by (metis append_take_drop_id)

lemma wf_dataset_item:
  assumes "wf_dataset pcs s" and "d \<in> set pcs"
  shows "d < length s \<and>
      (\<exists>items. s ! d = DictObj items \<and> list_all (\<lambda>(k, v). tensor_ref s v) items)"
proof -
  from assms have "d < length s \<and>
        (case s ! d of DictObj items \<Rightarrow> list_all (\<lambda>(k, v). tensor_ref s v) items
                     | TensorObj _ \<Rightarrow> False)"
    by (simp add: wf_dataset_def list_all_iff)
  then show ?thesis by (cases "s ! d") auto
qed

lemma wf_dataset_append:
  assumes "wf_dataset pcs s"
  shows "wf_dataset pcs (s @ ext)"
    and "d \<in> set pcs \<Longrightarrow> read_entry (s @ ext) (Ref d) = read_entry s (Ref d)"
proof -
  have item: "\<And>d. d \<in> set pcs \<Longrightarrow> d < length s \<and>
      (\<exists>items. s ! d = DictObj items \<and> list_all (\<lambda>(k, v). tensor_ref s v) items)"
    using assms by (rule wf_dataset_item)
  show "wf_dataset pcs (s @ ext)"
    unfolding wf_dataset_def list_all_iff
  proof
    fix d assume "d \<in> set pcs"
    from item [OF this] obtain items where d: "d < length s" "s ! d = DictObj items"
      and its: "list_all (\<lambda>(k, v). tensor_ref s v) items" by blast
    from its have "\<forall>x \<in> set items. case x of (k, v) \<Rightarrow> tensor_ref (s @ ext) v"
      by (auto simp: list_all_iff intro: tensor_ref_append)
    with d show "d < length (s @ ext) \<and>
        (case (s @ ext) ! d of
           DictObj items \<Rightarrow> \<forall>x \<in> set items. case x of (k, v) \<Rightarrow> tensor_ref (s @ ext) v
         | TensorObj _ \<Rightarrow> False)"
      by (simp add: nth_append)
  qed
  show "read_entry (s @ ext) (Ref d) = read_entry s (Ref d)" if "d \<in> set pcs"
  proof -
    from item [OF that] obtain items where d: "d < length s" "s ! d = DictObj items"
      and its: "list_all (\<lambda>(k, v). tensor_ref s v) items" by blast
    from its have "map (\<lambda>(k, v). (k, read_val (s @ ext) v)) items
                 = map (\<lambda>(k, v). (k, read_val s v)) items"
      by (auto simp: list_all_iff read_val_append)
    with d show ?thesis by (simp add: read_entry_def nth_append)
  qed
qed

lemma list_getitem_valid:
  assumes "- int (length xs) \<le> idx" "idx < int (length xs)"
  shows "list_getitem xs idx = Inr (xs ! nat (if idx < 0 then int (length xs) + idx else idx))"
    and "nat (if idx < 0 then int (length xs) + idx else idx) < length xs"
  using assms by (auto simp: list_getitem_def Let_def)

lemma getitem_copy:
  assumes wf: "wf_dataset pointclouds s"
    and idx: "- int (length pointclouds) \<le> idx" "idx < int (length pointclouds)"
  shows "\<exists>r s'. getitem pointclouds None idx s = Inr (Ref r, s')
     \<and> take (length s) s' = s
     \<and> (\<forall>a \<in> set (sample_addrs s' (Ref r)). length s \<le> a \<and> a < length s')
     \<and> read_entry s' (Ref r) = read_entry s (stored_at pointclouds idx)
     \<and> read_entry s (stored_at pointclouds idx) \<noteq> None"
proof -
  let ?i = "nat (if idx < 0 then int (length pointclouds) + idx else idx)"
  let ?d = "pointclouds ! ?i"
  from list_getitem_valid [OF idx] have g: "list_getitem pointclouds idx = Inr ?d"
    and i: "?i < length pointclouds" by auto
  then have "?d \<in> set pointclouds" by simp
  from wf_dataset_item [OF wf this] obtain items where d: "?d < length s" "s ! ?d = DictObj items"
    and its: "list_all (\<lambda>(k, v). tensor_ref s v) items"
    by blast
  from comprehension_ok [of s s items] its obtain items' ext where
    c: "comprehension items s = Inr (items', s @ ext)"
    and vals: "map (\<lambda>(k, v). (k, read_val (s @ ext) v)) items' = map (\<lambda>(k, v). (k, read_val s v)) items"
    and fr: "\<forall>(k, v) \<in> set items'. \<forall>a. v = Ref a \<longrightarrow> length s \<le> a \<and> a < length (s @ ext)"
    and tr: "list_all (\<lambda>(k, v). tensor_ref (s @ ext) v) items'"
    by auto
  let ?r = "length (s @ ext)"
  let ?s' = "(s @ ext) @ [DictObj items']"
  have get: "getitem pointclouds None idx s = Inr (Ref ?r, ?s')"
    using g d c by (simp add: getitem_def Let_def)
  have pre: "take (length s) ?s' = s" by simp
  have addrs: "\<forall>a \<in> set (sample_addrs ?s' (Ref ?r)). length s \<le> a \<and> a < length ?s'"
    using fr by (fastforce simp: sample_addrs_def nth_append split: pyref.splits)
  from tr have "map (\<lambda>(k, v). (k, read_val ?s' v)) items'
      = map (\<lambda>(k, v). (k, read_val (s @ ext) v)) items'"
    by (auto simp: list_all_iff read_val_append simp del: append_assoc)
  with vals have rd: "read_entry ?s' (Ref ?r) = read_entry s (stored_at pointclouds idx)"
    using d by (simp add: read_entry_def stored_at_def nth_append del: append_assoc)
  have "read_entry s (stored_at pointclouds idx) \<noteq> None"
    using d by (simp add: read_entry_def stored_at_def)
  with get pre addrs rd show ?thesis by blast
qed

text \<open>
  Claim C9. For a stored list as the loaders build it and a valid index (from \<open>-n\<close> to
  \<open>n - 1\<close>), \<^verbatim>\<open>__getitem__\<close> without a transform returns a new dictionary: the call
  leaves every object that existed as it was; every object of the sample (the dictionary
  and the tensors of its items) is new; the sample reads as the stored entry does. After
  any sequence of assignments to objects of the sample, every object that existed before
  the call is still as it was, every stored entry reads as before, and reading the same
  index again returns a sample equal to the stored entry.
\<close>

theorem getitem_returns_independent_copy:
  assumes wf: "wf_dataset pointclouds s"
    and idx: "- int (length pointclouds) \<le> idx" "idx < int (length pointclouds)"
  shows "\<exists>r s'. getitem pointclouds None idx s = Inr (Ref r, s')
     \<and> take (length s) s' = s
     \<and> (\<forall>a \<in> set (sample_addrs s' (Ref r)). length s \<le> a \<and> a < length s')
     \<and> read_entry s' (Ref r) = read_entry s (stored_at pointclouds idx)
     \<and> read_entry s (stored_at pointclouds idx) \<noteq> None
     \<and> (\<forall>ws. fst ` set ws \<subseteq> set (sample_addrs s' (Ref r)) \<longrightarrow>
          take (length s) (mutate ws s') = s
          \<and> (\<forall>d \<in> set pointclouds. read_entry (mutate ws s') (Ref d) = read_entry s (Ref d))
          \<and> (\<exists>r2 s2. getitem pointclouds None idx (mutate ws s') = Inr (Ref r2, s2)
                \<and> read_entry s2 (Ref r2) = read_entry s (stored_at pointclouds idx)))"
proof -
  from getitem_copy [OF assms] obtain r s' where
    get: "getitem pointclouds None idx s = Inr (Ref r, s')"
    and pre: "take (length s) s' = s"
    and addrs: "\<forall>a \<in> set (sample_addrs s' (Ref r)). length s \<le> a \<and> a < length s'"
    and rd: "read_entry s' (Ref r) = read_entry s (stored_at pointclouds idx)"
    and ne: "read_entry s (stored_at pointclouds idx) \<noteq> None" by blast
  have later: "take (length s) (mutate ws s') = s
          \<and> (\<forall>d \<in> set pointclouds. read_entry (mutate ws s') (Ref d) = read_entry s (Ref d))
          \<and> (\<exists>r2 s2. getitem pointclouds None idx (mutate ws s') = Inr (Ref r2, s2)
                \<and> read_entry s2 (Ref r2) = read_entry s (stored_at pointclouds idx))"
    if ws: "fst ` set ws \<subseteq> set (sample_addrs s' (Ref r))" for ws
  proof -
    from ws addrs have "\<And>a. a \<in> fst ` set ws \<Longrightarrow> length s \<le> a" by blast
    from mutate_take [OF this] pre have t: "take (length s) (mutate ws s') = s" by simp
    from prefix_append [OF t] obtain ext where m: "mutate ws s' = s @ ext" ..
    from wf_dataset_append [OF wf, where ext = ext] m have wf2: "wf_dataset pointclouds (mutate ws s')"
      and same: "\<And>d. d \<in> set pointclouds \<Longrightarrow> read_entry (mutate ws s') (Ref d) = read_entry s (Ref d)"
      by auto
    from list_getitem_valid(2) [OF idx] have "stored_at pointclouds idx \<in> Ref ` set pointclouds"
      by (simp add: stored_at_def)
    with same have st: "read_entry (mutate ws s') (stored_at pointclouds idx)
        = read_entry s (stored_at pointclouds idx)" by auto
    from getitem_copy [OF wf2 idx] st t same show ?thesis by auto
  qed
  with get pre addrs rd ne show ?thesis by blast
qed


text \<open>With a transform, the transform is applied to that new dictionary.\<close>

lemma getitem_transform:
  "getitem pointclouds (Some t) idx s
     = bindE (getitem pointclouds None idx s) (\<lambda>(data, s'). t data s')"
proof (cases "list_getitem pointclouds idx")
  case (Inl e)
  then show ?thesis by (simp add: getitem_def)
next
  case (Inr d)
  show ?thesis
  proof (cases "d < length s")
    case True
    show ?thesis
    proof (cases "s ! d")
      case (TensorObj t')
      with Inr True show ?thesis by (simp add: getitem_def)
    next
      case (DictObj items)
      with Inr True show ?thesis
        by (cases "comprehension items s") (auto simp: getitem_def Let_def)
    qed
  next
    case False
    with Inr show ?thesis by (simp add: getitem_def)
  qed
qed

lemma getitem_example:
  "getitem [2] None (- 1) example_store =
     Inr (Ref 5,
          example_store @
          [TensorObj (Points [(1, 2, 3)]), TensorObj (Scal (1 / 2)),
           DictObj [(''pointcloud'', Ref 3), (''view_angle'', Ref 4), (''cate'', RStr ''Car''),
                    (''id'', RInt 0)]])"
  by (simp add: getitem_def list_getitem_def example_store_def clone_or_copy_def Let_def)

text \<open>Claim C9 at the store \<open>example_store\<close>, read at the index \<open>-1\<close>.\<close>

theorem getitem_returns_independent_copy_witness:
  "\<exists>r s'. getitem [2] None (- 1) example_store = Inr (Ref r, s')
     \<and> take (length example_store) s' = example_store
     \<and> (\<forall>a \<in> set (sample_addrs s' (Ref r)). length example_store \<le> a \<and> a < length s')
     \<and> read_entry s' (Ref r) = read_entry example_store (stored_at [2] (- 1))
     \<and> read_entry example_store (stored_at [2] (- 1)) \<noteq> None
     \<and> (\<forall>ws. fst ` set ws \<subseteq> set (sample_addrs s' (Ref r)) \<longrightarrow>
          take (length example_store) (mutate ws s') = example_store
          \<and> (\<forall>d \<in> set [2]. read_entry (mutate ws s') (Ref d) = read_entry example_store (Ref d))
          \<and> (\<exists>r2 s2. getitem [2] None (- 1) (mutate ws s') = Inr (Ref r2, s2)
                \<and> read_entry s2 (Ref r2) = read_entry example_store (stored_at [2] (- 1))))"
proof -
  have "wf_dataset [2] example_store"
    by (simp add: wf_dataset_def example_store_def tensor_ref_def)
  from getitem_returns_independent_copy [OF this, of "- 1"] show ?thesis by simp
qed

text \<open>
  The stored lists of the loaders meet the hypothesis of claim C9: placed in a store, the
  entries form a well-formed dataset, and \<^verbatim>\<open>__getitem__\<close> serves, at every index, a
  sample that reads as the entry the loader built.
\<close>

lemma place_items_ok:
  "place_items e s = (items, s') \<Longrightarrow>
     (\<exists>ext. s' = s @ ext)
     \<and> list_all (\<lambda>(k, v). tensor_ref s' v) items
     \<and> map (\<lambda>(k, v). (k, read_val s' v)) items = map (\<lambda>(k, v). (k, Some v)) e"
proof (induction e arbitrary: s items s')
  case Nil
  then show ?case by auto
next
  case (Cons kv e)
  obtain k v where kv: "kv = (k, v)" by (cases kv)
  show ?case
  proof (cases v)
    case (FTensor t)
    obtain its s1 where r: "place_items e (s @ [TensorObj t]) = (its, s1)"
      by (cases "place_items e (s @ [TensorObj t])")
    from Cons.IH [OF r] obtain ext where s1: "s1 = (s @ [TensorObj t]) @ ext"
      and tr: "list_all (\<lambda>(k, v). tensor_ref s1 v) its"
      and rd: "map (\<lambda>(k, v). (k, read_val s1 v)) its = map (\<lambda>(k, v). (k, Some v)) e" by blast
    from Cons.prems kv FTensor r have items: "items = (k, Ref (length s)) # its" and s': "s' = s1"
      by auto
    have "tensor_ref s1 (Ref (length s))" "read_val s1 (Ref (length s)) = Some (FTensor t)"
      using s1 by (simp_all add: tensor_ref_def read_val_def nth_append)
    with s1 tr rd items s' kv FTensor show ?thesis by auto
  next
    case (FStr x)
    obtain its s1 where r: "place_items e s = (its, s1)" by (cases "place_items e s")
    have "tensor_ref s1 (RStr x)" "read_val s1 (RStr x) = Some (FStr x)"
      by (simp_all add: tensor_ref_def read_val_def)
    with Cons.IH [OF r] Cons.prems kv FStr r show ?thesis
      by auto
  next
    case (FInt n)
    obtain its s1 where r: "place_items e s = (its, s1)" by (cases "place_items e s")
    have "tensor_ref s1 (RInt n)" "read_val s1 (RInt n) = Some (FInt n)"
      by (simp_all add: tensor_ref_def read_val_def)
    with Cons.IH [OF r] Cons.prems kv FInt r show ?thesis
      by auto
  qed
qed

lemma wf_dataset_Cons:
  "wf_dataset (d # ds) s \<longleftrightarrow>
     (d < length s \<and> (case s ! d of DictObj items \<Rightarrow> list_all (\<lambda>(k, v). tensor_ref s v) items
                                 | TensorObj _ \<Rightarrow> False)) \<and> wf_dataset ds s"
  by (simp add: wf_dataset_def)

lemma place_entries_ok:
  "place_entries es s = (ds, s') \<Longrightarrow>
     (\<exists>ext. s' = s @ ext) \<and> wf_dataset ds s'
     \<and> map (\<lambda>d. read_entry s' (Ref d)) ds = map entry_read es"
proof (induction es arbitrary: s ds s')
  case Nil
  then show ?case by (auto simp: wf_dataset_def)
next
  case (Cons e es)
  obtain items s1 where p: "place_items e s = (items, s1)" by (cases "place_items e s")
  obtain ds' s2 where r: "place_entries es (s1 @ [DictObj items]) = (ds', s2)"
    by (cases "place_entries es (s1 @ [DictObj items])")
  from Cons.prems p r have ds: "ds = length s1 # ds'" and s': "s' = s2" by auto
  from place_items_ok [OF p] obtain e1 where s1: "s1 = s @ e1"
    and tr: "list_all (\<lambda>(k, v). tensor_ref s1 v) items"
    and rd: "map (\<lambda>(k, v). (k, read_val s1 v)) items = map (\<lambda>(k, v). (k, Some v)) e" by blast
  from Cons.IH [OF r] obtain e2 where s2: "s2 = (s1 @ [DictObj items]) @ e2"
    and wf: "wf_dataset ds' s2"
    and rds: "map (\<lambda>d. read_entry s2 (Ref d)) ds' = map entry_read es" by blast
  from s2 have s2': "s2 = s1 @ ([DictObj items] @ e2)" by simp
  from tr have tr2: "list_all (\<lambda>(k, v). tensor_ref s2 v) items"
    unfolding s2' by (auto simp: list_all_iff intro: tensor_ref_append)
  from tr have "map (\<lambda>(k, v). (k, read_val s2 v)) items = map (\<lambda>(k, v). (k, read_val s1 v)) items"
    unfolding s2' by (auto simp: list_all_iff read_val_append)
  with rd have rd2: "read_entry s2 (Ref (length s1)) = entry_read e"
    by (simp add: read_entry_def entry_read_def s2 nth_append)
  have "wf_dataset ds s'"
    unfolding ds s' wf_dataset_Cons using wf tr2 by (simp add: s2 nth_append)
  moreover have "map (\<lambda>d. read_entry s' (Ref d)) ds = map entry_read (e # es)"
    using rd2 rds by (simp add: ds s')
  moreover have "\<exists>ext. s' = s @ ext" by (simp add: s' s2 s1)
  ultimately show ?case by blast
qed

lemma served_sample_reads_stored_entry:
  assumes "place_entries es [] = (pointclouds, s)" and "i < length es"
  shows "\<exists>r s'. getitem pointclouds None (int i) s = Inr (Ref r, s')
           \<and> read_entry s' (Ref r) = entry_read (es ! i)"
proof -
  from place_entries_ok [OF assms(1)] have wf: "wf_dataset pointclouds s"
    and rd: "map (\<lambda>d. read_entry s (Ref d)) pointclouds = map entry_read es" by auto
  from rd have len: "length pointclouds = length es" by (metis length_map)
  with assms(2) have idx: "- int (length pointclouds) \<le> int i" "int i < int (length pointclouds)"
    by auto
  from getitem_copy [OF wf idx] obtain r s' where
    g: "getitem pointclouds None (int i) s = Inr (Ref r, s')"
    and e: "read_entry s' (Ref r) = read_entry s (stored_at pointclouds (int i))" by blast
  have "read_entry s (stored_at pointclouds (int i)) = read_entry s (Ref (pointclouds ! i))"
    by (simp add: stored_at_def)
  also have "\<dots> = entry_read (es ! i)"
    using rd assms(2) len by (metis nth_map)
  finally show ?thesis using g e by auto
qed


section \<open>Properties of the model\<close>

subsection \<open>The pose-conditioning lines raise\<close>


lemma conditioning_after_attend:
  "attend T M z view_angle yaw = Inr (a, w) \<Longrightarrow>
   conditioning T M z view_angle yaw = Inl (AttributeError ''squeeze'')"
  by (simp add: conditioning_def squeeze_method_def)

lemma conditioning_Inl: "\<exists>e. conditioning T M z view_angle yaw = Inl e"
  by (cases "attend T M z view_angle yaw")
     (auto simp: conditioning_def squeeze_method_def)

lemma bind_conditioning:
  "bindE (conditioning T M z view_angle yaw) f = Inl (projl (conditioning T M z view_angle yaw))"
  using conditioning_Inl [of T M z view_angle yaw] by auto

lemma bindE_raises: "(\<And>v. \<exists>e. f v = Inl e) \<Longrightarrow> \<exists>e. bindE m f = Inl e"
  by (cases m) auto

lemma conditioning_ignores_prior_and_decoder:
  "conditioning T (M\<lparr>flow := f, diffusion_get_loss := g\<rparr>) z view_angle yaw
     = conditioning T M z view_angle yaw"
  by (simp add: conditioning_def attend_def)

lemma attend_example:
  "attend shape_torch (shape_net 4 True) [2, 4] [2, 1] [2, 1] = Inr ([2, 1, 4], [1, 2, 2])"
  by (simp add: attend_def shape_torch_def shape_net_def cat_shape_def Linear_shape_def
      BatchNorm1d_shape_def unsqueeze_shape_def MultiheadAttention_shape_def)

text \<open>
  Claim C3 says that the pose-conditioning lines produce a tensor \<open>c\<close> of shape
  \<open>[B, D]\<close> in \<^verbatim>\<open>get_loss\<close> and in \<^verbatim>\<open>sample\<close>. The code does not: the lines never
  produce a value. Whatever the layers compute, the lines raise; and when the first five
  succeed, the sixth raises \<^verbatim>\<open>AttributeError\<close>, because \<^verbatim>\<open>self.MHSA(z, z, z)\<close>
  returns the pair of attention output and attention weights, and \<^verbatim>\<open>z.squeeze(1)\<close>
  is then called on that tuple.
\<close>

theorem conditioning_raises:
  "(\<exists>e. conditioning T M z view_angle yaw = Inl e)
   \<and> (\<forall>a w. attend T M z view_angle yaw = Inr (a, w)
        \<longrightarrow> conditioning T M z view_angle yaw = Inl (AttributeError ''squeeze''))"
  using conditioning_Inl [of T M z view_angle yaw] conditioning_after_attend [of T M z view_angle yaw]
  by blast

text \<open>
  The same at latent dimension 4 and batch size 2: the attention call returns an output
  of shape \<open>[2, 1, 4]\<close> with its weights, and the next line raises.
\<close>

theorem conditioning_raises_witness:
  "attend shape_torch (shape_net 4 True) [2, 4] [2, 1] [2, 1] = Inr ([2, 1, 4], [1, 2, 2])
   \<and> conditioning shape_torch (shape_net 4 True) [2, 4] [2, 1] [2, 1]
       = Inl (AttributeError ''squeeze'')"
  using conditioning_raises [of shape_torch "shape_net 4 True" "[2, 4]" "[2, 1]" "[2, 1]"]
    attend_example by simp

text \<open>
  Claim C1 says that \<^verbatim>\<open>get_loss\<close> returns
  \<open>kl_weight * (-entropy.mean() - log_pz.mean()) + neg_elbo\<close>. Lines 66 to 81 compute
  that value, but no call reaches them: for every input \<^verbatim>\<open>get_loss\<close> raises, and when
  the encoder, the sampling of \<open>z\<close> and the first five pose-conditioning lines succeed,
  it raises \<^verbatim>\<open>AttributeError\<close> at line 64.
\<close>

theorem get_loss_raises:
  "(\<exists>e. get_loss T M x view_angle yaw kl_weight writer it = Inl e)
   \<and> (\<forall>b n d z_mu z_sigma z a w.
         torch_size T x = [b, n, d] \<and> encoder M x = Inr (z_mu, z_sigma)
         \<and> reparameterize_gaussian M z_mu z_sigma = Inr z
         \<and> attend T M z view_angle yaw = Inr (a, w)
        \<longrightarrow> get_loss T M x view_angle yaw kl_weight writer it = Inl (AttributeError ''squeeze''))"
proof (intro conjI allI impI)
  show "\<exists>e. get_loss T M x view_angle yaw kl_weight writer it = Inl e"
    unfolding get_loss_def
    by (auto simp: bind_conditioning split_beta split: list.splits intro!: bindE_raises)
next
  fix b n d z_mu z_sigma z a w
  assume "torch_size T x = [b, n, d] \<and> encoder M x = Inr (z_mu, z_sigma)
         \<and> reparameterize_gaussian M z_mu z_sigma = Inr z
         \<and> attend T M z view_angle yaw = Inr (a, w)"
  then show "get_loss T M x view_angle yaw kl_weight writer it = Inl (AttributeError ''squeeze'')"
    by (simp add: get_loss_def conditioning_after_attend)
qed

text \<open>
  The same for a batch of two clouds of five points, at latent dimension 4.
\<close>

theorem get_loss_raises_witness:
  "get_loss shape_torch (shape_net 4 True) [2, 5, 3] [2, 1] [2, 1] 1 False 0
     = Inl (AttributeError ''squeeze'')"
  using get_loss_raises [of shape_torch "shape_net 4 True" "[2, 5, 3]" "[2, 1]" "[2, 1]" 1 False 0]
    attend_example
  by (simp add: shape_torch_def shape_net_def)

text \<open>
  Claim C5 says that \<^verbatim>\<open>sample\<close> runs the flow in reverse, the pose-conditioning lines
  and the decoder's sampling, and returns the decoder's result. The code runs the flow
  in reverse and the first five pose-conditioning lines, and raises at line 104: for
  every input \<^verbatim>\<open>sample\<close> raises, and with \<^verbatim>\<open>AttributeError\<close> when the steps before
  line 104 succeed.
\<close>

theorem sample_raises:
  "(\<exists>e. sample T M w view_angle yaw num_points flexibility truncate_std = Inl e)
   \<and> (\<forall>b d w' z z' a aw.
         torch_size T w = [b, d]
         \<and> (case truncate_std of None \<Rightarrow> Inr w | Some ts \<Rightarrow> truncated_normal' M w 0 1 ts) = Inr w'
         \<and> flow_reverse M w' = Inr z \<and> torch_view T z [int b, - 1] = Inr z'
         \<and> attend T M z' view_angle yaw = Inr (a, aw)
        \<longrightarrow> sample T M w view_angle yaw num_points flexibility truncate_std
              = Inl (AttributeError ''squeeze''))"
proof (intro conjI allI impI)
  show "\<exists>e. sample T M w view_angle yaw num_points flexibility truncate_std = Inl e"
    unfolding sample_def
    by (auto simp: bind_conditioning split_beta split: list.splits intro!: bindE_raises)
next
  fix b d w' z z' a aw
  assume "torch_size T w = [b, d]
         \<and> (case truncate_std of None \<Rightarrow> Inr w | Some ts \<Rightarrow> truncated_normal' M w 0 1 ts) = Inr w'
         \<and> flow_reverse M w' = Inr z \<and> torch_view T z [int b, - 1] = Inr z'
         \<and> attend T M z' view_angle yaw = Inr (a, aw)"
  then show "sample T M w view_angle yaw num_points flexibility truncate_std
              = Inl (AttributeError ''squeeze'')"
    by (simp add: sample_def conditioning_after_attend)
qed

text \<open>
  The same for a base-noise batch of shape \<open>[2, 4]\<close>, at latent dimension 4, in
  evaluation mode.
\<close>

theorem sample_raises_witness:
  "sample shape_torch (shape_net 4 False) [2, 4] [2, 1] [2, 1] 256 0 None
     = Inl (AttributeError ''squeeze'')"
  using sample_raises [of shape_torch "shape_net 4 False" "[2, 4]" "[2, 1]" "[2, 1]" 256 0 None]
  by (simp add: shape_torch_def shape_net_def view_shape_def attend_def cat_shape_def
      Linear_shape_def BatchNorm1d_shape_def unsqueeze_shape_def MultiheadAttention_shape_def)

text \<open>
  Claim C2 says that in every call of \<^verbatim>\<open>get_loss\<close> the flow prior and the decoder
  receive the same conditioning vector. Lines 70 and 75 do pass the same variable
  \<^verbatim>\<open>z\<close> to both, but no call reaches them: the outcome of \<^verbatim>\<open>get_loss\<close> is the
  same whatever the flow and the decoder's loss are, so neither receives anything.
\<close>

theorem get_loss_never_reaches_prior_or_decoder:
  "get_loss T (M\<lparr>flow := f, diffusion_get_loss := g\<rparr>) x view_angle yaw kl_weight writer it
     = get_loss T M x view_angle yaw kl_weight writer it"
  by (simp add: get_loss_def bind_conditioning conditioning_ignores_prior_and_decoder
           split: list.splits)

text \<open>
  Claim C2 at a concrete call: replacing the flow and the decoder's loss by functions
  that raise changes nothing.
\<close>

theorem get_loss_never_reaches_prior_or_decoder_witness:
  "get_loss shape_torch
     (shape_net 4 True\<lparr>flow := \<lambda>z logpz0. Inl IndexError,
                        diffusion_get_loss := \<lambda>x context. Inl IndexError\<rparr>)
     [2, 5, 3] [2, 1] [2, 1] 1 False 0
   = get_loss shape_torch (shape_net 4 True) [2, 5, 3] [2, 1] [2, 1] 1 False 0"
  by (rule get_loss_never_reaches_prior_or_decoder)

text \<open>
  Claim C4 says that, in evaluation mode, row \<open>i\<close> of the pose-conditioning lines
  applied to a batch equals their result on the one-row slice. Neither side of that
  equation exists: on a batch of three and on a batch of one the lines raise. Up to the
  attention call the batch of three has become a tensor of shape \<open>[3, 1, 4]\<close>, which the
  attention layer reads as one sequence of three tokens (its weights have the shape
  \<open>[1, 3, 3]\<close>): the rows of the batch attend to each other.
\<close>

theorem batch_and_row_example:
  "attend shape_torch (shape_net 4 False) [3, 4] [3, 1] [3, 1] = Inr ([3, 1, 4], [1, 3, 3])
   \<and> conditioning shape_torch (shape_net 4 False) [3, 4] [3, 1] [3, 1] = Inl (AttributeError ''squeeze'')
   \<and> conditioning shape_torch (shape_net 4 False) [1, 4] [1, 1] [1, 1] = Inl (AttributeError ''squeeze'')"
  by (simp add: conditioning_def squeeze_method_def attend_def shape_torch_def shape_net_def
      cat_shape_def Linear_shape_def BatchNorm1d_shape_def unsqueeze_shape_def
      MultiheadAttention_shape_def)


text \<open>
  Had line 64 been applied to the attention output alone, its shape would have been
  \<open>[B, D]\<close>.
\<close>

lemma squeeze_attn_output_shape: "squeeze_shape [B, 1, D] 1 = Inr [B, D]"
  by (simp add: squeeze_shape_def)
subsection \<open>\<^verbatim>\<open>load_partial_state_dict\<close> is lenient\<close>

lemma load_from_state_dict_names:
  "map fst (fst (load_from_state_dict m xs)) = map fst xs"
  by (induction xs) (auto split: sum.splits prod.splits)

lemma load_from_state_dict_value:
  assumes "distinct (map fst xs)" and "map_of xs k = Some p"
  shows "map_of (fst (load_from_state_dict m xs)) k = Some p
       \<or> (\<exists>p' a b. load_param m k p = Inr (p', a, b)
                  \<and> map_of (fst (load_from_state_dict m xs)) k = Some p')"
  using assms
proof (induction xs)
  case Nil
  then show ?case by simp
next
  case (Cons x xs)
  obtain key param where x: "x = (key, param)" by (cases x)
  show ?case
  proof (cases "load_param m key param")
    case (Inl e)
    with Cons.prems x show ?thesis by simp
  next
    case (Inr r)
    obtain p' a b where r: "r = (p', a, b)" by (cases r)
    obtain rest' q where l: "load_from_state_dict m xs = (rest', q)"
      by (cases "load_from_state_dict m xs")
    show ?thesis
    proof (cases "k = key")
      case True
      with Cons.prems x Inr r l show ?thesis by simp
    next
      case False
      with Cons.prems x have "distinct (map fst xs)" "map_of xs k = Some p" by simp_all
      from Cons.IH [OF this] False x Inr r l show ?thesis by simp
    qed
  qed
qed

lemma load_from_state_dict_Inl:
  "snd (load_from_state_dict m xs) = Inl e \<Longrightarrow> \<exists>(k, p) \<in> set xs. load_param m k p = Inl e"
proof (induction xs)
  case Nil
  then show ?case by simp
next
  case (Cons x xs)
  obtain key param where x: "x = (key, param)" by (cases x)
  show ?case
  proof (cases "load_param m key param")
    case (Inl e')
    with Cons.prems x show ?thesis by simp
  next
    case (Inr r)
    obtain p' a b where r: "r = (p', a, b)" by (cases r)
    obtain rest' q where l: "load_from_state_dict m xs = (rest', q)"
      by (cases "load_from_state_dict m xs")
    from Cons.prems x Inr r l have "q = Inl e"
      by (cases q) (auto simp: bindE_def)
    with Cons.IH l x show ?thesis by simp
  qed
qed

lemma load_from_state_dict_raises:
  "(k, p) \<in> set xs \<Longrightarrow> load_param m k p = Inl e \<Longrightarrow> \<exists>e'. snd (load_from_state_dict m xs) = Inl e'"
proof (induction xs)
  case Nil
  then show ?case by simp
next
  case (Cons x xs)
  obtain key param where x: "x = (key, param)" by (cases x)
  show ?case
  proof (cases "load_param m key param")
    case (Inl e')
    with x show ?thesis by simp
  next
    case (Inr r)
    obtain p' a b where r: "r = (p', a, b)" by (cases r)
    obtain rest' q where l: "load_from_state_dict m xs = (rest', q)"
      by (cases "load_from_state_dict m xs")
    from Cons.prems x Inr have "(k, p) \<in> set xs" by auto
    from Cons.IH [OF this Cons.prems(2)] l obtain e' where "q = Inl e'" by auto
    with x Inr r l show ?thesis by (simp add: bindE_def)
  qed
qed

lemma load_from_state_dict_Inr:
  assumes "load_from_state_dict m xs = (xs', Inr (msgs, missing))"
  shows "msgs = concat (map (\<lambda>(k, p). case load_param m k p of Inr (p', a, b) \<Rightarrow> a | Inl e \<Rightarrow> []) xs)
       \<and> missing = concat (map (\<lambda>(k, p). case load_param m k p of Inr (p', a, b) \<Rightarrow> b | Inl e \<Rightarrow> []) xs)
       \<and> xs' = map (\<lambda>(k, p). (k, case load_param m k p of Inr (p', a, b) \<Rightarrow> p' | Inl e \<Rightarrow> p)) xs
       \<and> (\<forall>(k, p) \<in> set xs. \<exists>r. load_param m k p = Inr r)"
  using assms
proof (induction xs arbitrary: xs' msgs missing)
  case Nil
  then show ?case by simp
next
  case (Cons x xs)
  obtain key param where x: "x = (key, param)" by (cases x)
  show ?case
  proof (cases "load_param m key param")
    case (Inl e')
    with Cons.prems x show ?thesis by simp
  next
    case (Inr r)
    obtain p' a b where r: "r = (p', a, b)" by (cases r)
    obtain rest' q where l: "load_from_state_dict m xs = (rest', q)"
      by (cases "load_from_state_dict m xs")
    from Cons.prems x Inr r l obtain msgs' missing' where q: "q = Inr (msgs', missing')"
      and e: "msgs = a @ msgs'" "missing = b @ missing'" "xs' = (key, p') # rest'"
      by (cases q) (auto simp: bindE_def)
    from Cons.IH [OF l [unfolded q]] x Inr r e show ?thesis by simp
  qed
qed

lemma lookup_state_dict_of:
  "fmlookup (state_dict_of own) k = map_option IsTensor (map_of own k)"
  by (induction own) (auto simp: state_dict_of_def fmlookup_of_list)

lemma lookup_updated:
  "fmlookup (updated_state_dict own sd) k
     = (case map_of own k of
          None \<Rightarrow> None
        | Some p \<Rightarrow> (case fmlookup sd k of None \<Rightarrow> Some (IsTensor p) | Some x \<Rightarrow> Some x))"
  by (auto simp: updated_state_dict_def Let_def lookup_state_dict_of fmlookup_dom_iff
      split: option.splits)

lemma fmdom_updated: "fmdom (updated_state_dict own sd) = fset_of_list (map fst own)"
proof (rule fset_eqI)
  fix k
  have "k |\<in>| fmdom (updated_state_dict own sd) \<longleftrightarrow> map_of own k \<noteq> None"
    by (auto simp: fmlookup_dom_iff lookup_updated split: option.splits)
  also have "\<dots> \<longleftrightarrow> k |\<in>| fset_of_list (map fst own)"
    by (simp add: map_of_eq_None_iff fset_of_list_elem fset_of_list.rep_eq)
  finally show "k |\<in>| fmdom (updated_state_dict own sd) \<longleftrightarrow> k |\<in>| fset_of_list (map fst own)" .
qed

lemma backward_compatible_self: "backward_compatible p p = Inr p"
  by (auto simp: backward_compatible_def)

lemma backward_compatible_Inl:
  "backward_compatible p v = Inl e \<longleftrightarrow> e = IndexError \<and> td_shape p = [] \<and> td_shape v = [0]"
  by (cases "td_shape v")
     (auto simp: backward_compatible_def getitem0_def split: list.splits if_splits)

lemma load_param_updated:
  assumes "map_of own k = Some p"
  shows "load_param (updated_state_dict own sd) k p
       = (case fmlookup sd k of
            None \<Rightarrow> Inr (p, [], [])
          | Some NotTensor \<Rightarrow> Inr (p, [Not_a_tensor k], [])
          | Some (IsTensor v) \<Rightarrow>
              bindE (backward_compatible p v) (\<lambda>v'.
                if td_shape v' \<noteq> td_shape p then Inr (p, [Size_mismatch k], [])
                else Inr (v', [], [])))"
  using assms
  by (auto simp: load_param_def lookup_updated backward_compatible_self bindE_def
      split: option.splits incoming.splits)

lemma load_partial_state_dict_loop:
  "load_partial_state_dict own sd
     = (case load_from_state_dict (updated_state_dict own sd) own of
          (own', Inl e) \<Rightarrow> (own', Inl (Raised e))
        | (own', Inr (msgs, missing)) \<Rightarrow>
            (own', if msgs \<noteq> [] then Inl (Raised_RuntimeError msgs) else Inr ()))"
  by (auto simp: load_partial_state_dict_def load_state_dict_def Let_def
      split: prod.splits sum.splits)

lemma map_of_in: "distinct (map fst xs) \<Longrightarrow> (k, p) \<in> set xs \<Longrightarrow> map_of xs k = Some p"
  by simp

lemma map_of_mapped:
  "map_of (map (\<lambda>(k, p). (k, f k p)) xs) k = map_option (f k) (map_of xs k)"
  by (induction xs) auto

text \<open>What the loop does with the mapping the method builds, name by name.\<close>

lemma updated_loaded:
  assumes d: "distinct (map fst own)"
    and l: "load_from_state_dict (updated_state_dict own sd) own = (own', Inr (msgs, missing))"
  shows "missing = []"
    and "\<forall>c \<in> set msgs. \<exists>k p x. map_of own k = Some p \<and> fmlookup sd k = Some x
           \<and> ((x = NotTensor \<and> c = Not_a_tensor k)
              \<or> (\<exists>v v'. x = IsTensor v \<and> backward_compatible p v = Inr v'
                    \<and> td_shape v' \<noteq> td_shape p \<and> c = Size_mismatch k))"
    and "msgs = [] \<longleftrightarrow> (\<forall>k p x. map_of own k = Some p \<and> fmlookup sd k = Some x
           \<longrightarrow> (\<exists>v v'. x = IsTensor v \<and> backward_compatible p v = Inr v'
                  \<and> td_shape v' = td_shape p))"
    and "\<forall>k p v v'. map_of own k = Some p \<and> fmlookup sd k = Some (IsTensor v)
           \<and> backward_compatible p v = Inr v' \<and> td_shape v' = td_shape p
           \<longrightarrow> map_of own' k = Some v'"
    and "\<forall>k p v. map_of own k = Some p \<and> fmlookup sd k = Some (IsTensor v)
           \<longrightarrow> (\<exists>v'. backward_compatible p v = Inr v')"
proof -
  let ?m = "updated_state_dict own sd"
  let ?a = "\<lambda>(k, p). case load_param ?m k p of Inr (p', a, b) \<Rightarrow> a | Inl e \<Rightarrow> []"
  let ?b = "\<lambda>(k, p). case load_param ?m k p of Inr (p', a, b) \<Rightarrow> b | Inl e \<Rightarrow> []"
  let ?v = "\<lambda>k p. case load_param ?m k p of Inr (p', a, b) \<Rightarrow> p' | Inl e \<Rightarrow> p"
  from load_from_state_dict_Inr [OF l]
  have msgs: "msgs = concat (map ?a own)" and missing: "missing = concat (map ?b own)"
    and own': "own' = map (\<lambda>(k, p). (k, ?v k p)) own"
    and ok: "\<forall>(k, p) \<in> set own. \<exists>r. load_param ?m k p = Inr r" by blast+
  have b: "?b (k, p) = []" if "(k, p) \<in> set own" for k p
    using load_param_updated [OF map_of_in [OF d that], of sd]
    by (auto simp: bindE_def split: option.splits incoming.splits sum.splits)
  then show "missing = []" unfolding missing by auto
  have inl: "\<exists>v'. backward_compatible p v = Inr v'"
    if "map_of own k = Some p" "fmlookup sd k = Some (IsTensor v)" for k p v
  proof -
    from that(1) have "(k, p) \<in> set own" by (rule map_of_SomeD)
    with ok obtain r where "load_param ?m k p = Inr r" by blast
    with load_param_updated [OF that(1), of sd] that(2) show ?thesis
      by (cases "backward_compatible p v") (auto simp: bindE_def)
  qed
  then show "\<forall>k p v. map_of own k = Some p \<and> fmlookup sd k = Some (IsTensor v)
           \<longrightarrow> (\<exists>v'. backward_compatible p v = Inr v')" by blast
  show "\<forall>c \<in> set msgs. \<exists>k p x. map_of own k = Some p \<and> fmlookup sd k = Some x
           \<and> ((x = NotTensor \<and> c = Not_a_tensor k)
              \<or> (\<exists>v v'. x = IsTensor v \<and> backward_compatible p v = Inr v'
                    \<and> td_shape v' \<noteq> td_shape p \<and> c = Size_mismatch k))"
  proof
    fix c assume "c \<in> set msgs"
    with msgs have "\<exists>x \<in> set own. c \<in> set (?a x)" by auto
    then obtain x where xo: "x \<in> set own" and xc: "c \<in> set (?a x)" ..
    obtain k p where x: "x = (k, p)" by (cases x)
    from xo x have kp: "(k, p) \<in> set own" by simp
    from xc x have c: "c \<in> set (case load_param ?m k p of Inr (p', a, b) \<Rightarrow> a | Inl e \<Rightarrow> [])"
      by simp
    from map_of_in [OF d kp] have mo: "map_of own k = Some p" .
    from c load_param_updated [OF mo, of sd]
    have "\<exists>x. fmlookup sd k = Some x
           \<and> ((x = NotTensor \<and> c = Not_a_tensor k)
              \<or> (\<exists>v v'. x = IsTensor v \<and> backward_compatible p v = Inr v'
                    \<and> td_shape v' \<noteq> td_shape p \<and> c = Size_mismatch k))"
      by (auto simp: bindE_def split: option.splits incoming.splits sum.splits if_splits)
    with mo show "\<exists>k p x. map_of own k = Some p \<and> fmlookup sd k = Some x
           \<and> ((x = NotTensor \<and> c = Not_a_tensor k)
              \<or> (\<exists>v v'. x = IsTensor v \<and> backward_compatible p v = Inr v'
                    \<and> td_shape v' \<noteq> td_shape p \<and> c = Size_mismatch k))"
      by blast
  qed
  show "msgs = [] \<longleftrightarrow> (\<forall>k p x. map_of own k = Some p \<and> fmlookup sd k = Some x
           \<longrightarrow> (\<exists>v v'. x = IsTensor v \<and> backward_compatible p v = Inr v'
                  \<and> td_shape v' = td_shape p))"
  proof
    assume e: "msgs = []"
    show "\<forall>k p x. map_of own k = Some p \<and> fmlookup sd k = Some x
           \<longrightarrow> (\<exists>v v'. x = IsTensor v \<and> backward_compatible p v = Inr v'
                  \<and> td_shape v' = td_shape p)"
    proof (intro allI impI)
      fix k p x assume a: "map_of own k = Some p \<and> fmlookup sd k = Some x"
      then have "(k, p) \<in> set own" by (auto dest: map_of_SomeD)
      with e msgs have "?a (k, p) = []" by auto
      with load_param_updated [of own k p sd] a inl [of k p]
      show "\<exists>v v'. x = IsTensor v \<and> backward_compatible p v = Inr v'
                  \<and> td_shape v' = td_shape p"
        by (cases x) (auto simp: bindE_def split: if_splits)
    qed
  next
    assume g: "\<forall>k p x. map_of own k = Some p \<and> fmlookup sd k = Some x
           \<longrightarrow> (\<exists>v v'. x = IsTensor v \<and> backward_compatible p v = Inr v'
                  \<and> td_shape v' = td_shape p)"
    have "?a (k, p) = []" if "(k, p) \<in> set own" for k p
    proof (cases "fmlookup sd k")
      case None
      with load_param_updated [OF map_of_in [OF d that], of sd] show ?thesis by simp
    next
      case (Some x)
      with g map_of_in [OF d that] obtain v v' where "x = IsTensor v"
        "backward_compatible p v = Inr v'" "td_shape v' = td_shape p" by blast
      with Some load_param_updated [OF map_of_in [OF d that], of sd] show ?thesis
        by (simp add: bindE_def)
    qed
    then show "msgs = []" unfolding msgs by auto
  qed
  show "\<forall>k p v v'. map_of own k = Some p \<and> fmlookup sd k = Some (IsTensor v)
           \<and> backward_compatible p v = Inr v' \<and> td_shape v' = td_shape p
           \<longrightarrow> map_of own' k = Some v'"
  proof (intro allI impI)
    fix k p v v'
    assume a: "map_of own k = Some p \<and> fmlookup sd k = Some (IsTensor v)
           \<and> backward_compatible p v = Inr v' \<and> td_shape v' = td_shape p"
    with load_param_updated [of own k p sd] have "?v k p = v'" by (simp add: bindE_def)
    with a show "map_of own' k = Some v'" unfolding own' map_of_mapped by simp
  qed
qed

lemma updated_raises:
  assumes d: "distinct (map fst own)"
  shows "(\<exists>e. snd (load_from_state_dict (updated_state_dict own sd) own) = Inl e)
       \<longleftrightarrow> (\<exists>k p v. map_of own k = Some p \<and> fmlookup sd k = Some (IsTensor v)
                \<and> td_shape p = [] \<and> td_shape v = [0])"
    and "snd (load_from_state_dict (updated_state_dict own sd) own) = Inl e \<Longrightarrow> e = IndexError"
proof -
  let ?m = "updated_state_dict own sd"
  have r: "load_param ?m k p = Inl e \<longleftrightarrow>
        (\<exists>v. fmlookup sd k = Some (IsTensor v) \<and> e = IndexError \<and> td_shape p = []
            \<and> td_shape v = [0])"
    if "map_of own k = Some p" for k p e
    unfolding load_param_updated [OF that]
    by (auto simp: bindE_def backward_compatible_Inl [symmetric]
        split: option.splits incoming.splits sum.splits)
  show "snd (load_from_state_dict ?m own) = Inl e \<Longrightarrow> e = IndexError"
  proof -
    assume "snd (load_from_state_dict ?m own) = Inl e"
    from load_from_state_dict_Inl [OF this] obtain k p
      where kp: "(k, p) \<in> set own" and l: "load_param ?m k p = Inl e" by auto
    from r [OF map_of_in [OF d kp]] l show "e = IndexError" by blast
  qed
  show "(\<exists>e. snd (load_from_state_dict ?m own) = Inl e)
       \<longleftrightarrow> (\<exists>k p v. map_of own k = Some p \<and> fmlookup sd k = Some (IsTensor v)
                \<and> td_shape p = [] \<and> td_shape v = [0])"
  proof
    assume "\<exists>e. snd (load_from_state_dict ?m own) = Inl e"
    then obtain e where "snd (load_from_state_dict ?m own) = Inl e" ..
    from load_from_state_dict_Inl [OF this] obtain k p
      where kp: "(k, p) \<in> set own" and l: "load_param ?m k p = Inl e" by auto
    from r [OF map_of_in [OF d kp]] l map_of_in [OF d kp]
    show "\<exists>k p v. map_of own k = Some p \<and> fmlookup sd k = Some (IsTensor v)
                \<and> td_shape p = [] \<and> td_shape v = [0]" by blast
  next
    assume "\<exists>k p v. map_of own k = Some p \<and> fmlookup sd k = Some (IsTensor v)
                \<and> td_shape p = [] \<and> td_shape v = [0]"
    then obtain k p v where a: "map_of own k = Some p" "fmlookup sd k = Some (IsTensor v)"
      "td_shape p = []" "td_shape v = [0]" by blast
    from r [OF a(1), of IndexError] a have "load_param ?m k p = Inl IndexError" by blast
    from load_from_state_dict_raises [OF map_of_SomeD [OF a(1)] this]
    show "\<exists>e. snd (load_from_state_dict ?m own) = Inl e" .
  qed
qed

lemma updated_ignores_extra:
  assumes "fmdom extra |\<inter>| fset_of_list (map fst own) = {||}"
  shows "updated_state_dict own (sd ++\<^sub>f extra) = updated_state_dict own sd"
proof (rule fmap_ext)
  fix k
  show "fmlookup (updated_state_dict own (sd ++\<^sub>f extra)) k = fmlookup (updated_state_dict own sd) k"
  proof (cases "map_of own k")
    case None
    then show ?thesis by (simp add: lookup_updated)
  next
    case (Some p)
    then have "k |\<in>| fset_of_list (map fst own)"
      by (auto simp: fset_of_list_elem fset_of_list.rep_eq dest!: map_of_SomeD intro: rev_image_eqI)
    with assms have "k |\<notin>| fmdom extra" by auto
    with Some show ?thesis by (simp add: lookup_updated)
  qed
qed

lemma strict_changes_nothing:
  assumes d: "distinct (map fst own)"
  shows "load_state_dict own (updated_state_dict own sd) True
       = load_state_dict own (updated_state_dict own sd) False"
proof (cases "load_from_state_dict (updated_state_dict own sd) own")
  case (Pair own' r)
  show ?thesis
  proof (cases r)
    case (Inl e)
    with Pair show ?thesis by (simp add: load_state_dict_def)
  next
    case (Inr mm)
    obtain msgs missing where mm: "mm = (msgs, missing)" by (cases mm)
    from updated_loaded(1) [OF d Pair [unfolded Inr mm]] have "missing = []" .
    with Pair Inr mm show ?thesis
      by (simp add: load_state_dict_def fmdom_updated)
  qed
qed

text \<open>
  Claim C6, as amended. For every module (with each name once) and every incoming
  mapping: the mapping that \<^verbatim>\<open>load_partial_state_dict\<close> hands to the library has
  exactly the names of the module, so that even a strict load of it would do the same,
  and no complaint is ever of a missing or an unexpected name; the module keeps its
  names; a tensor whose name is absent from the incoming mapping keeps its value; a
  tensor that changes has its name in the incoming mapping and holds the incoming
  tensor, or its element 0 when the module's tensor has no axis and the incoming one
  has one axis; unless the call ends with another exception than \<^verbatim>\<open>RuntimeError\<close>,
  every incoming tensor of a known name whose shape (after that rule) is the module's
  has been loaded; the call returns without raising exactly when every incoming entry
  of a known name is such a tensor; a \<^verbatim>\<open>RuntimeError\<close> complains only of entries of
  known names that are no tensors or have another shape; the only other exception is
  \<^verbatim>\<open>IndexError\<close>, raised exactly when an empty tensor of one axis comes in for a tensor
  without axis; and entries under names the module does not have change nothing.
\<close>

theorem load_partial_state_dict_lenient:
  "distinct (map fst own) \<Longrightarrow>
   fmdom (updated_state_dict own sd) = fset_of_list (map fst own)
   \<and> load_state_dict own (updated_state_dict own sd) True
       = load_state_dict own (updated_state_dict own sd) False
   \<and> map fst (fst (load_partial_state_dict own sd)) = map fst own
   \<and> (\<forall>cs c. snd (load_partial_state_dict own sd) = Inl (Raised_RuntimeError cs) \<and> c \<in> set cs
        \<longrightarrow> (\<exists>k p x. map_of own k = Some p \<and> fmlookup sd k = Some x
               \<and> ((x = NotTensor \<and> c = Not_a_tensor k)
                  \<or> (\<exists>v v'. x = IsTensor v \<and> backward_compatible p v = Inr v'
                        \<and> td_shape v' \<noteq> td_shape p \<and> c = Size_mismatch k))))
   \<and> (\<forall>k. k |\<notin>| fmdom sd
        \<longrightarrow> map_of (fst (load_partial_state_dict own sd)) k = map_of own k)
   \<and> (\<forall>k. map_of (fst (load_partial_state_dict own sd)) k \<noteq> map_of own k
        \<longrightarrow> (\<exists>p v v'. map_of own k = Some p \<and> fmlookup sd k = Some (IsTensor v)
               \<and> backward_compatible p v = Inr v' \<and> td_shape v' = td_shape p
               \<and> map_of (fst (load_partial_state_dict own sd)) k = Some v'))
   \<and> ((\<forall>e. snd (load_partial_state_dict own sd) \<noteq> Inl (Raised e))
        \<longrightarrow> (\<forall>k p v v'. map_of own k = Some p \<and> fmlookup sd k = Some (IsTensor v)
               \<and> backward_compatible p v = Inr v' \<and> td_shape v' = td_shape p
               \<longrightarrow> map_of (fst (load_partial_state_dict own sd)) k = Some v'))
   \<and> (snd (load_partial_state_dict own sd) = Inr ()
        \<longleftrightarrow> (\<forall>k p x. map_of own k = Some p \<and> fmlookup sd k = Some x
               \<longrightarrow> (\<exists>v v'. x = IsTensor v \<and> backward_compatible p v = Inr v'
                      \<and> td_shape v' = td_shape p)))
   \<and> (snd (load_partial_state_dict own sd) = Inl (Raised IndexError)
        \<longleftrightarrow> (\<exists>k p v. map_of own k = Some p \<and> fmlookup sd k = Some (IsTensor v)
               \<and> td_shape p = [] \<and> td_shape v = [0]))
   \<and> (\<forall>e. snd (load_partial_state_dict own sd) = Inl (Raised e) \<longrightarrow> e = IndexError)
   \<and> (\<forall>extra. fmdom extra |\<inter>| fset_of_list (map fst own) = {||}
        \<longrightarrow> load_partial_state_dict own (sd ++\<^sub>f extra) = load_partial_state_dict own sd)"
proof -
  assume d: "distinct (map fst own)"
  let ?m = "updated_state_dict own sd"
  obtain own' r where l: "load_from_state_dict ?m own = (own', r)"
    by (cases "load_from_state_dict ?m own")
  have f: "fst (load_partial_state_dict own sd) = own'"
    using l by (simp add: load_partial_state_dict_loop split: sum.splits prod.splits)
  have s: "snd (load_partial_state_dict own sd)
         = (case r of Inl e \<Rightarrow> Inl (Raised e)
            | Inr (msgs, missing) \<Rightarrow> if msgs \<noteq> [] then Inl (Raised_RuntimeError msgs) else Inr ())"
    using l by (simp add: load_partial_state_dict_loop split: sum.splits prod.splits)
  from load_from_state_dict_names [of ?m own] l have n: "map fst own' = map fst own" by simp
  have none: "map_of own' k = None \<longleftrightarrow> map_of own k = None" for k
    using n by (metis map_of_eq_None_iff set_map)
  from load_from_state_dict_value [OF d, of _ _ ?m] l
  have v: "map_of own' k = Some p
       \<or> (\<exists>p' a b. load_param ?m k p = Inr (p', a, b) \<and> map_of own' k = Some p')"
    if "map_of own k = Some p" for k p using that by simp
  have raised: "(\<exists>e. r = Inl e) \<longleftrightarrow> (\<exists>k p v. map_of own k = Some p
       \<and> fmlookup sd k = Some (IsTensor v) \<and> td_shape p = [] \<and> td_shape v = [0])"
    using updated_raises(1) [OF d, of sd] l by simp
  have index: "e = IndexError" if "r = Inl e" for e
    using updated_raises(2) [OF d, of sd e] l that by simp
  have c1: "fmdom ?m = fset_of_list (map fst own)" by (rule fmdom_updated)
  have c2: "load_state_dict own ?m True = load_state_dict own ?m False"
    by (rule strict_changes_nothing [OF d])
  have c3: "map fst (fst (load_partial_state_dict own sd)) = map fst own"
    unfolding f by (rule n)
  have c4: "\<forall>cs c. snd (load_partial_state_dict own sd) = Inl (Raised_RuntimeError cs) \<and> c \<in> set cs
        \<longrightarrow> (\<exists>k p x. map_of own k = Some p \<and> fmlookup sd k = Some x
               \<and> ((x = NotTensor \<and> c = Not_a_tensor k)
                  \<or> (\<exists>v v'. x = IsTensor v \<and> backward_compatible p v = Inr v'
                        \<and> td_shape v' \<noteq> td_shape p \<and> c = Size_mismatch k)))"
  proof (intro allI impI)
    fix cs c
    assume a: "snd (load_partial_state_dict own sd) = Inl (Raised_RuntimeError cs) \<and> c \<in> set cs"
    with s obtain missing where "r = Inr (cs, missing)"
      by (auto split: sum.splits prod.splits if_splits)
    with l have "load_from_state_dict ?m own = (own', Inr (cs, missing))" by simp
    from updated_loaded(2) [OF d this] a
    show "\<exists>k p x. map_of own k = Some p \<and> fmlookup sd k = Some x
               \<and> ((x = NotTensor \<and> c = Not_a_tensor k)
                  \<or> (\<exists>v v'. x = IsTensor v \<and> backward_compatible p v = Inr v'
                        \<and> td_shape v' \<noteq> td_shape p \<and> c = Size_mismatch k))"
      by blast
  qed
  have c5: "\<forall>k. k |\<notin>| fmdom sd
        \<longrightarrow> map_of (fst (load_partial_state_dict own sd)) k = map_of own k"
  proof (intro allI impI)
    fix k assume a: "k |\<notin>| fmdom sd"
    then have sk: "fmlookup sd k = None" by (simp add: fmdom_notD)
    show "map_of (fst (load_partial_state_dict own sd)) k = map_of own k"
    proof (cases "map_of own k")
      case None
      with none [of k] f show ?thesis by simp
    next
      case (Some p)
      from v [OF Some] load_param_updated [OF Some, of sd] sk Some f show ?thesis by auto
    qed
  qed
  have c6: "\<forall>k. map_of (fst (load_partial_state_dict own sd)) k \<noteq> map_of own k
        \<longrightarrow> (\<exists>p v v'. map_of own k = Some p \<and> fmlookup sd k = Some (IsTensor v)
               \<and> backward_compatible p v = Inr v' \<and> td_shape v' = td_shape p
               \<and> map_of (fst (load_partial_state_dict own sd)) k = Some v')"
  proof (intro allI impI)
    fix k assume a: "map_of (fst (load_partial_state_dict own sd)) k \<noteq> map_of own k"
    with none [of k] f obtain p where p: "map_of own k = Some p" by (cases "map_of own k") auto
    from v [OF p] a f p obtain p' x y where lp: "load_param ?m k p = Inr (p', x, y)"
      and o: "map_of own' k = Some p'" and ne: "p' \<noteq> p" by auto
    from lp ne load_param_updated [OF p, of sd]
    have "\<exists>v. fmlookup sd k = Some (IsTensor v) \<and> backward_compatible p v = Inr p'
            \<and> td_shape p' = td_shape p"
      by (auto simp: bindE_def split: option.splits incoming.splits sum.splits if_splits)
    with p o f
    show "\<exists>p v v'. map_of own k = Some p \<and> fmlookup sd k = Some (IsTensor v)
               \<and> backward_compatible p v = Inr v' \<and> td_shape v' = td_shape p
               \<and> map_of (fst (load_partial_state_dict own sd)) k = Some v'"
      by auto
  qed
  have c7: "(\<forall>e. snd (load_partial_state_dict own sd) \<noteq> Inl (Raised e))
        \<longrightarrow> (\<forall>k p v v'. map_of own k = Some p \<and> fmlookup sd k = Some (IsTensor v)
               \<and> backward_compatible p v = Inr v' \<and> td_shape v' = td_shape p
               \<longrightarrow> map_of (fst (load_partial_state_dict own sd)) k = Some v')"
  proof
    assume "\<forall>e. snd (load_partial_state_dict own sd) \<noteq> Inl (Raised e)"
    with s obtain msgs missing where "r = Inr (msgs, missing)"
      by (cases r) auto
    with l have "load_from_state_dict ?m own = (own', Inr (msgs, missing))" by simp
    from updated_loaded(4) [OF d this] f
    show "\<forall>k p v v'. map_of own k = Some p \<and> fmlookup sd k = Some (IsTensor v)
               \<and> backward_compatible p v = Inr v' \<and> td_shape v' = td_shape p
               \<longrightarrow> map_of (fst (load_partial_state_dict own sd)) k = Some v'"
      by simp
  qed
  have c8: "snd (load_partial_state_dict own sd) = Inr ()
        \<longleftrightarrow> (\<forall>k p x. map_of own k = Some p \<and> fmlookup sd k = Some x
               \<longrightarrow> (\<exists>v v'. x = IsTensor v \<and> backward_compatible p v = Inr v'
                      \<and> td_shape v' = td_shape p))"
  proof (cases r)
    case (Inl e)
    with raised obtain k p v where "map_of own k = Some p" "fmlookup sd k = Some (IsTensor v)"
      "td_shape p = []" "td_shape v = [0]" by blast
    moreover from this have "backward_compatible p v = Inl IndexError"
      by (simp add: backward_compatible_Inl)
    ultimately have "\<not> (\<forall>k p x. map_of own k = Some p \<and> fmlookup sd k = Some x
               \<longrightarrow> (\<exists>v v'. x = IsTensor v \<and> backward_compatible p v = Inr v'
                      \<and> td_shape v' = td_shape p))"
      by (metis incoming.inject sum.distinct(1))
    with Inl s show ?thesis by simp
  next
    case (Inr mm)
    obtain msgs missing where mm: "mm = (msgs, missing)" by (cases mm)
    with l Inr have lm: "load_from_state_dict ?m own = (own', Inr (msgs, missing))" by simp
    have e1: "snd (load_partial_state_dict own sd) = Inr () \<longleftrightarrow> msgs = []"
      using s Inr mm by simp
    show ?thesis unfolding e1 by (rule updated_loaded(3) [OF d lm])
  qed
  have c9: "snd (load_partial_state_dict own sd) = Inl (Raised IndexError)
        \<longleftrightarrow> (\<exists>k p v. map_of own k = Some p \<and> fmlookup sd k = Some (IsTensor v)
               \<and> td_shape p = [] \<and> td_shape v = [0])"
  proof -
    have "snd (load_partial_state_dict own sd) = Inl (Raised IndexError) \<longleftrightarrow> (\<exists>e. r = Inl e)"
      using s index by (cases r) (auto split: if_splits)
    with raised show ?thesis by simp
  qed
  have c10: "\<forall>e. snd (load_partial_state_dict own sd) = Inl (Raised e) \<longrightarrow> e = IndexError"
    using s index by (cases r) (auto split: if_splits)
  have c11: "\<forall>extra. fmdom extra |\<inter>| fset_of_list (map fst own) = {||}
        \<longrightarrow> load_partial_state_dict own (sd ++\<^sub>f extra) = load_partial_state_dict own sd"
    by (simp add: load_partial_state_dict_def updated_ignores_extra)
  from c1 c2 c3 c4 c5 c6 c7 c8 c9 c10 c11 show ?thesis by (intro conjI)
qed

text \<open>
  Claim C6 as stated fails where it says that a parameter is overwritten with the
  incoming value: the counter of \<open>own_example\<close> has no axis, the tensor that comes in
  for it has two numbers, and after the call, which returns, the counter holds the
  first of them.
\<close>

theorem load_partial_state_dict_counterexample:
  "snd (load_partial_state_dict own_example incoming_example) = Inr ()
   \<and> map_of own_example ''BN1.num_batches_tracked'' = Some (TensorData [] [0])
   \<and> fmlookup incoming_example ''BN1.num_batches_tracked''
       = Some (IsTensor (TensorData [2] [3, 4]))
   \<and> map_of (fst (load_partial_state_dict own_example incoming_example))
        ''BN1.num_batches_tracked'' = Some (TensorData [] [3])"
  by (simp add: load_partial_state_dict_def load_state_dict_def load_param_def lookup_updated
      fmdom_updated backward_compatible_def getitem0_def bindE_def own_example_def
      incoming_example_def fmlookup_of_list Let_def)

text \<open>
  The amended claim C6 at \<open>own_example\<close>. With \<open>incoming_example\<close> the call returns:
  the weight is overwritten, the bias keeps its value, the counter takes the first
  number, the unknown name is not taken, and one more unknown name changes nothing. With
  \<open>mismatch_example\<close> the bias is loaded, the weight is not, and the call raises
  \<^verbatim>\<open>RuntimeError\<close> for the size of the weight. With \<open>empty_example\<close> the weight is
  loaded and the call raises \<^verbatim>\<open>IndexError\<close> at the counter.
\<close>

theorem load_partial_state_dict_lenient_witness:
  "distinct (map fst own_example)
   \<and> map fst (fst (load_partial_state_dict own_example incoming_example))
       = [''FC1.weight'', ''FC1.bias'', ''BN1.num_batches_tracked'']
   \<and> map_of (fst (load_partial_state_dict own_example incoming_example)) ''FC1.bias''
       = Some (TensorData [1] [0])
   \<and> load_partial_state_dict own_example
        (incoming_example ++\<^sub>f fmap_of_list [(''other.key'', NotTensor)])
       = load_partial_state_dict own_example incoming_example
   \<and> load_partial_state_dict own_example incoming_example
       = ([(''FC1.weight'', TensorData [2] [5, 7]),
           (''FC1.bias'', TensorData [1] [0]),
           (''BN1.num_batches_tracked'', TensorData [] [3])], Inr ())
   \<and> load_partial_state_dict own_example mismatch_example
       = ([(''FC1.weight'', TensorData [2] [1, 1]),
           (''FC1.bias'', TensorData [1] [6]),
           (''BN1.num_batches_tracked'', TensorData [] [0])],
          Inl (Raised_RuntimeError [Size_mismatch ''FC1.weight'']))
   \<and> load_partial_state_dict own_example empty_example
       = ([(''FC1.weight'', TensorData [2] [5, 7]),
           (''FC1.bias'', TensorData [1] [0]),
           (''BN1.num_batches_tracked'', TensorData [] [0])],
          Inl (Raised IndexError))"
proof -
  have d: "distinct (map fst own_example)" by (simp add: own_example_def)
  note t = load_partial_state_dict_lenient [OF d, of incoming_example]
  from t have 1: "map fst (fst (load_partial_state_dict own_example incoming_example))
       = [''FC1.weight'', ''FC1.bias'', ''BN1.num_batches_tracked'']"
    by (simp add: own_example_def)
  have "''FC1.bias'' |\<notin>| fmdom incoming_example"
    by (simp add: incoming_example_def fmlookup_dom_iff fmlookup_of_list)
  with t have 2: "map_of (fst (load_partial_state_dict own_example incoming_example)) ''FC1.bias''
       = Some (TensorData [1] [0])"
    by (simp add: own_example_def)
  have "fmdom (fmap_of_list [(''other.key'', NotTensor)]) |\<inter>| fset_of_list (map fst own_example)
          = {||}"
    by (simp add: own_example_def)
  with t have 3: "load_partial_state_dict own_example
        (incoming_example ++\<^sub>f fmap_of_list [(''other.key'', NotTensor)])
       = load_partial_state_dict own_example incoming_example"
    by blast
  have 4: "load_partial_state_dict own_example incoming_example
       = ([(''FC1.weight'', TensorData [2] [5, 7]),
           (''FC1.bias'', TensorData [1] [0]),
           (''BN1.num_batches_tracked'', TensorData [] [3])], Inr ())"
    by (simp add: load_partial_state_dict_def load_state_dict_def load_param_def lookup_updated
        fmdom_updated backward_compatible_def getitem0_def bindE_def own_example_def
        incoming_example_def fmlookup_of_list Let_def)
  have 5: "load_partial_state_dict own_example mismatch_example
       = ([(''FC1.weight'', TensorData [2] [1, 1]),
           (''FC1.bias'', TensorData [1] [6]),
           (''BN1.num_batches_tracked'', TensorData [] [0])],
          Inl (Raised_RuntimeError [Size_mismatch ''FC1.weight'']))"
    by (simp add: load_partial_state_dict_def load_state_dict_def load_param_def lookup_updated
        fmdom_updated backward_compatible_def getitem0_def bindE_def own_example_def
        mismatch_example_def fmlookup_of_list Let_def)
  have 6: "load_partial_state_dict own_example empty_example
       = ([(''FC1.weight'', TensorData [2] [5, 7]),
           (''FC1.bias'', TensorData [1] [0]),
           (''BN1.num_batches_tracked'', TensorData [] [0])],
          Inl (Raised IndexError))"
    by (simp add: load_partial_state_dict_def load_state_dict_def load_param_def lookup_updated
        fmdom_updated backward_compatible_def getitem0_def bindE_def own_example_def
        empty_example_def fmlookup_of_list Let_def)
  from d 1 2 3 4 5 6 show ?thesis by (intro conjI)
qed


end
